theory Spec2Isabelle
  imports Complex_Main "HOL-Library.Word"
begin

section \<open>Double-precision values\<close>

text \<open>
  The value of a float literal is a C++ \<^verbatim>\<open>double\<close>, whatever the data type of the
  literal.  A double is its IEEE 754 binary64 bit pattern: one sign bit, eleven bits
  of exponent and 52 bits of fraction.  An exponent field of 2047 is an infinity
  (fraction zero) or a NaN; every other pattern has the value
  \<open>(-1)^sign * significand * 2^scale\<close>.
\<close>

type_synonym double = "64 word"

definition double_sign :: "double \<Rightarrow> bool" where
  "double_sign d \<longleftrightarrow> uint d div 2 ^ 63 = 1"

definition double_exponent :: "double \<Rightarrow> int" where
  "double_exponent d = (uint d div 2 ^ 52) mod 2048"

definition double_fraction :: "double \<Rightarrow> int" where
  "double_fraction d = uint d mod 2 ^ 52"

definition mk_double :: "bool \<Rightarrow> int \<Rightarrow> int \<Rightarrow> double" where
  "mk_double s E F = of_int ((if s then 2 ^ 63 else 0) + E * 2 ^ 52 + F)"

definition is_nan :: "double \<Rightarrow> bool" where
  "is_nan d \<longleftrightarrow> double_exponent d = 2047 \<and> double_fraction d \<noteq> 0"

definition is_inf :: "double \<Rightarrow> bool" where
  "is_inf d \<longleftrightarrow> double_exponent d = 2047 \<and> double_fraction d = 0"

definition is_finite :: "double \<Rightarrow> bool" where
  "is_finite d \<longleftrightarrow> double_exponent d \<noteq> 2047"

definition double_significand :: "double \<Rightarrow> int" where
  "double_significand d =
     (if double_exponent d = 0 then double_fraction d else 2 ^ 52 + double_fraction d)"

definition double_scale :: "double \<Rightarrow> int" where
  "double_scale d = (if double_exponent d = 0 then - 1074 else double_exponent d - 1075)"

text \<open>
  Rounding to nearest, ties to even (the rounding mode in force in C++ unless the
  program changes it): the double nearest to \<open>(-1)^s * (N / D) * 2^k\<close> for positive
  \<open>N\<close> and \<open>D\<close>.  \<open>p\<close> is the exponent of the leading bit of the quotient and \<open>t\<close> the
  exponent of the last bit that the result keeps, which is at least -1074 (the
  subnormal range); a result beyond the largest double is an infinity.
\<close>

function bitlen :: "int \<Rightarrow> int" where
  "bitlen n = (if n \<le> 0 then 0 else 1 + bitlen (n div 2))"
  by auto

termination bitlen
  by (relation "measure nat") auto

declare bitlen.simps [simp del]

definition shifted :: "int \<Rightarrow> int \<Rightarrow> int" where
  "shifted n j = (if j \<ge> 0 then n * 2 ^ nat j else n)"

definition round_half_even :: "int \<Rightarrow> int \<Rightarrow> int" where
  "round_half_even N D =
     (let q = N div D; r = N mod D
      in if 2 * r > D \<or> (2 * r = D \<and> odd q) then q + 1 else q)"

definition encode_double :: "bool \<Rightarrow> int \<Rightarrow> int \<Rightarrow> double" where
  "encode_double s M t =
     (if M < 2 ^ 52 then mk_double s 0 M
      else
        let M' = (if M = 2 ^ 53 then 2 ^ 52 else M);
            E = (if M = 2 ^ 53 then t + 1 else t) + 1075
        in if E \<ge> 2047 then mk_double s 2047 0 else mk_double s E (M' - 2 ^ 52))"

definition round_double :: "bool \<Rightarrow> int \<Rightarrow> int \<Rightarrow> int \<Rightarrow> double" where
  "round_double s N D k =
     (let L = bitlen N - bitlen D + k;
          p = (if shifted N (k - L) \<ge> shifted D (L - k) then L else L - 1);
          t = max (p - 52) (- 1074)
      in encode_double s (round_half_even (shifted N (k - t)) (shifted D (t - k))) t)"

text \<open>
  The division \<^verbatim>\<open>1.0 / value\<close> of line 779.  The dividend is \<open>1 * 2^0\<close>.  A NaN
  divisor gives that NaN with its quiet bit set, an infinite divisor a zero and a zero
  divisor an infinity, each with the sign of the divisor.
\<close>

definition quiet_nan :: "double \<Rightarrow> double" where
  "quiet_nan d = mk_double (double_sign d) 2047 (2 ^ 51 + double_fraction d mod 2 ^ 51)"

definition double_reciprocal :: "double \<Rightarrow> double" where
  "double_reciprocal v =
     (if is_nan v then quiet_nan v
      else if is_inf v then mk_double (double_sign v) 0 0
      else if double_significand v = 0 then mk_double (double_sign v) 2047 0
      else round_double (double_sign v) 1 (double_significand v) (- double_scale v))"

text \<open>
  Comparison of doubles (\<^verbatim>\<open>==\<close> and \<^verbatim>\<open><\<close> of C++): a NaN compares false with
  everything, the two zeros are equal, and otherwise the order is that of the sign
  and the magnitude bits.
\<close>

definition double_key :: "double \<Rightarrow> int" where
  "double_key d = (if double_sign d then - (uint d mod 2 ^ 63) else uint d mod 2 ^ 63)"

definition double_eq :: "double \<Rightarrow> double \<Rightarrow> bool" where
  "double_eq a b \<longleftrightarrow> \<not> is_nan a \<and> \<not> is_nan b \<and> double_key a = double_key b"

definition double_lt :: "double \<Rightarrow> double \<Rightarrow> bool" where
  "double_lt a b \<longleftrightarrow> \<not> is_nan a \<and> \<not> is_nan b \<and> double_key a < double_key b"

definition double_le :: "double \<Rightarrow> double \<Rightarrow> bool" where
  "double_le a b \<longleftrightarrow> \<not> is_nan a \<and> \<not> is_nan b \<and> double_key a \<le> double_key b"

text \<open>
  The conversion \<^verbatim>\<open>static_cast<double>\<close> of a 64-bit integer, and the arithmetic of
  finite doubles: the exact result, rounded.  A sum that is exactly zero is the
  positive zero unless both summands are negative.
\<close>

definition double_of_int :: "int \<Rightarrow> double" where
  "double_of_int v = (if v = 0 then 0 else round_double (v < 0) \<bar>v\<bar> 1 0)"

definition double_neg :: "double \<Rightarrow> double" where
  "double_neg d = mk_double (\<not> double_sign d) (double_exponent d) (double_fraction d)"

definition signed_significand :: "double \<Rightarrow> int" where
  "signed_significand d =
     (if double_sign d then - double_significand d else double_significand d)"

definition double_add :: "double \<Rightarrow> double \<Rightarrow> double" where
  "double_add a b =
     (let e0 = min (double_scale a) (double_scale b);
          I = signed_significand a * 2 ^ nat (double_scale a - e0)
              + signed_significand b * 2 ^ nat (double_scale b - e0)
      in if I = 0 then mk_double (double_sign a \<and> double_sign b) 0 0
         else round_double (I < 0) \<bar>I\<bar> 1 e0)"

definition double_mul :: "double \<Rightarrow> double \<Rightarrow> double" where
  "double_mul a b =
     (if double_significand a = 0 \<or> double_significand b = 0
      then mk_double (double_sign a \<noteq> double_sign b) 0 0
      else round_double (double_sign a \<noteq> double_sign b)
             (double_significand a * double_significand b) 1 (double_scale a + double_scale b))"

definition double_div :: "double \<Rightarrow> double \<Rightarrow> double" where
  "double_div a b =
     (if double_significand a = 0 then mk_double (double_sign a \<noteq> double_sign b) 0 0
      else round_double (double_sign a \<noteq> double_sign b)
             (double_significand a) (double_significand b) (double_scale a - double_scale b))"

section \<open>Expression IR\<close>

text \<open>
  Data types of the expression IR that \<^verbatim>\<open>src/arith/rewrite_simplify.cc\<close> rewrites.
  A data type is a type code, a bit width and a lane count (a lane count other than 1
  is a vector; a scalable vector carries a negative lane count).  The boolean type is
  the 1-bit unsigned integer.
\<close>

datatype type_code = kInt | kUInt | kFloat | kHandle | kBFloat | kCustom nat

datatype dtype = DataType type_code nat int

fun code :: "dtype \<Rightarrow> type_code" where
  "code (DataType c b l) = c"

fun bits :: "dtype \<Rightarrow> nat" where
  "bits (DataType c b l) = b"

fun lanes :: "dtype \<Rightarrow> int" where
  "lanes (DataType c b l) = l"

definition Bool :: dtype where
  "Bool = DataType kUInt 1 1"

definition Int32 :: dtype where
  "Int32 = DataType kInt 32 1"

definition Float32 :: dtype where
  "Float32 = DataType kFloat 32 1"

definition Float64 :: dtype where
  "Float64 = DataType kFloat 64 1"

text \<open>
  Expression nodes.  Deep equality of nodes (\<^verbatim>\<open>ExprDeepEqual\<close>) is equality of
  these terms.  \<open>NotNode\<close>, \<open>MinNode\<close>, \<open>MaxNode\<close> and \<open>LetNode\<close> carry the
  suffix of the source's node classes because the short names are taken in HOL.
  \<open>NullExpr\<close> is the undefined reference \<^verbatim>\<open>PrimExpr()\<close>.
\<close>

datatype expr =
    IntImm dtype int
  | FloatImm dtype double
  | StringImm string
  | Var string dtype
  | Cast dtype expr
  | Add expr expr
  | Sub expr expr
  | Mul expr expr
  | Div expr expr
  | Mod expr expr
  | FloorDiv expr expr
  | FloorMod expr expr
  | MinNode expr expr
  | MaxNode expr expr
  | EQ expr expr
  | NE expr expr
  | LT expr expr
  | LE expr expr
  | GT expr expr
  | GE expr expr
  | And expr expr
  | Or expr expr
  | NotNode expr
  | Select expr expr expr
  | Ramp expr expr expr
  | Broadcast expr expr
  | LetNode expr expr expr
  | Call dtype string "expr list"
  | NullExpr

section \<open>Data types of nodes and literals\<close>

text \<open>
  Modelled from the spec: every node carries a data type.  The constructors of the
  nodes, which are outside this source file, give an arithmetic node the type of
  its operands and a comparison or a logical connective the boolean type with the
  lanes of its operand.
\<close>

fun with_lanes :: "dtype \<Rightarrow> int \<Rightarrow> dtype" where
  "with_lanes (DataType c b l) n = DataType c b n"

fun lanes_value :: "expr \<Rightarrow> int" where
  "lanes_value (IntImm t v) = v"
| "lanes_value e = 1"

fun dtype_of :: "expr \<Rightarrow> dtype" where
  "dtype_of (IntImm t v) = t"
| "dtype_of (FloatImm t v) = t"
| "dtype_of (StringImm s) = DataType kHandle 64 1"
| "dtype_of (Var n t) = t"
| "dtype_of (Cast t v) = t"
| "dtype_of (Add a b) = dtype_of a"
| "dtype_of (Sub a b) = dtype_of a"
| "dtype_of (Mul a b) = dtype_of a"
| "dtype_of (Div a b) = dtype_of a"
| "dtype_of (Mod a b) = dtype_of a"
| "dtype_of (FloorDiv a b) = dtype_of a"
| "dtype_of (FloorMod a b) = dtype_of a"
| "dtype_of (MinNode a b) = dtype_of a"
| "dtype_of (MaxNode a b) = dtype_of a"
| "dtype_of (EQ a b) = with_lanes Bool (lanes (dtype_of a))"
| "dtype_of (NE a b) = with_lanes Bool (lanes (dtype_of a))"
| "dtype_of (LT a b) = with_lanes Bool (lanes (dtype_of a))"
| "dtype_of (LE a b) = with_lanes Bool (lanes (dtype_of a))"
| "dtype_of (GT a b) = with_lanes Bool (lanes (dtype_of a))"
| "dtype_of (GE a b) = with_lanes Bool (lanes (dtype_of a))"
| "dtype_of (And a b) = with_lanes Bool (lanes (dtype_of a))"
| "dtype_of (Or a b) = with_lanes Bool (lanes (dtype_of a))"
| "dtype_of (NotNode a) = with_lanes Bool (lanes (dtype_of a))"
| "dtype_of (Select c t e) = dtype_of t"
| "dtype_of (Ramp b s l) = with_lanes (dtype_of b) (lanes_value l)"
| "dtype_of (Broadcast v l) = with_lanes (dtype_of v) (lanes_value l)"
| "dtype_of (LetNode v x b) = dtype_of b"
| "dtype_of (Call t n args) = t"
| "dtype_of NullExpr = DataType kHandle 0 0"

definition is_bool :: "dtype \<Rightarrow> bool" where
  "is_bool t \<longleftrightarrow> code t = kUInt \<and> bits t = 1"

definition is_scalable_or_fixed_length_vector :: "dtype \<Rightarrow> bool" where
  "is_scalable_or_fixed_length_vector t \<longleftrightarrow> lanes t > 1 \<or> lanes t < - 1"

text \<open>
  Modelled from the spec: \<^verbatim>\<open>make_const\<close> and \<^verbatim>\<open>make_zero\<close>, declared outside this
  source file, build the literal of a data type: an integer literal for the integer
  and boolean types, a float literal otherwise, broadcast over the lanes of a vector
  type.
\<close>

definition is_float_code :: "type_code \<Rightarrow> bool" where
  "is_float_code c \<longleftrightarrow> (case c of kInt \<Rightarrow> False | kUInt \<Rightarrow> False | kHandle \<Rightarrow> False | _ \<Rightarrow> True)"

definition make_const_scalar :: "dtype \<Rightarrow> int \<Rightarrow> expr" where
  "make_const_scalar t v = (if is_float_code (code t) then FloatImm t (double_of_int v) else IntImm t v)"

definition make_const :: "dtype \<Rightarrow> int \<Rightarrow> expr" where
  "make_const t v =
     (if lanes t = 1 then make_const_scalar t v
      else Broadcast (make_const_scalar (with_lanes t 1) v) (IntImm Int32 (lanes t)))"

definition make_zero :: "dtype \<Rightarrow> expr" where
  "make_zero t = make_const t 0"

text \<open>
  Ways a call can end without a result: a failed check (\<^verbatim>\<open>ICHECK\<close>), a C++ integer
  division or remainder by zero, and the two limits of this model, which are not
  behaviours of the code: the recursion budget of the model is used up, or the node
  is of a kind whose visitor is not modelled.
\<close>

datatype failure = CheckFailed | DivideByZero | OutOfFuel | NotModelled

text \<open>
  Modelled from the spec: the side-effect levels of the analysis \<^verbatim>\<open>SideEffect\<close>, which
  is declared outside this source file, in the order
  \<open>Pure < ReadState < UpdateState < Embed\<close>.
\<close>

datatype CallEffectKind = kPure | kReadState | kUpdateState | kEmbedInfo

fun effect_rank :: "CallEffectKind \<Rightarrow> nat" where
  "effect_rank kPure = 0"
| "effect_rank kReadState = 1"
| "effect_rank kUpdateState = 2"
| "effect_rank kEmbedInfo = 3"

section \<open>Integer helpers and constant folding\<close>

text \<open>
  Truncated division and remainder, as C++ \<^verbatim>\<open>/\<close> and \<^verbatim>\<open>%\<close> compute them on
  \<^verbatim>\<open>int64_t\<close> for a divisor other than zero.  Floored division and remainder are
  \<open>div\<close> and \<open>mod\<close> on \<open>int\<close>.
\<close>

definition truncdiv :: "int \<Rightarrow> int \<Rightarrow> int" where
  "truncdiv a b = sgn a * sgn b * (\<bar>a\<bar> div \<bar>b\<bar>)"

definition truncmod :: "int \<Rightarrow> int \<Rightarrow> int" where
  "truncmod a b = a - truncdiv a b * b"

text \<open>
  Modelled from the spec: a folded integer wraps on the declared width of its type.
\<close>

definition wrap :: "dtype \<Rightarrow> int \<Rightarrow> int" where
  "wrap t v =
     (let m = 2 ^ bits t
      in if code t = kInt then (v + m div 2) mod m - m div 2 else v mod m)"

text \<open>
  Modelled from the spec: \<^verbatim>\<open>IsIndexType\<close>, declared outside this source file, is
  "integer, non-vector, width at most the platform index width" (64 bits).
\<close>

definition IsIndexType :: "dtype \<Rightarrow> bool" where
  "IsIndexType t \<longleftrightarrow> code t = kInt \<and> lanes t = 1 \<and> bits t \<le> 64"

datatype binop =
    OpAdd | OpSub | OpMul | OpDiv | OpMod | OpFloorDiv | OpFloorMod | OpMin | OpMax
  | OpEQ | OpNE | OpLT | OpLE | OpGT | OpGE | OpAnd | OpOr

fun mk_bin :: "binop \<Rightarrow> expr \<Rightarrow> expr \<Rightarrow> expr" where
  "mk_bin OpAdd a b = Add a b"
| "mk_bin OpSub a b = Sub a b"
| "mk_bin OpMul a b = Mul a b"
| "mk_bin OpDiv a b = Div a b"
| "mk_bin OpMod a b = Mod a b"
| "mk_bin OpFloorDiv a b = FloorDiv a b"
| "mk_bin OpFloorMod a b = FloorMod a b"
| "mk_bin OpMin a b = MinNode a b"
| "mk_bin OpMax a b = MaxNode a b"
| "mk_bin OpEQ a b = EQ a b"
| "mk_bin OpNE a b = NE a b"
| "mk_bin OpLT a b = LT a b"
| "mk_bin OpLE a b = LE a b"
| "mk_bin OpGT a b = GT a b"
| "mk_bin OpGE a b = GE a b"
| "mk_bin OpAnd a b = And a b"
| "mk_bin OpOr a b = Or a b"

fun dest_bin :: "expr \<Rightarrow> (binop \<times> expr \<times> expr) option" where
  "dest_bin (Add a b) = Some (OpAdd, a, b)"
| "dest_bin (Sub a b) = Some (OpSub, a, b)"
| "dest_bin (Mul a b) = Some (OpMul, a, b)"
| "dest_bin (Div a b) = Some (OpDiv, a, b)"
| "dest_bin (Mod a b) = Some (OpMod, a, b)"
| "dest_bin (FloorDiv a b) = Some (OpFloorDiv, a, b)"
| "dest_bin (FloorMod a b) = Some (OpFloorMod, a, b)"
| "dest_bin (MinNode a b) = Some (OpMin, a, b)"
| "dest_bin (MaxNode a b) = Some (OpMax, a, b)"
| "dest_bin (EQ a b) = Some (OpEQ, a, b)"
| "dest_bin (NE a b) = Some (OpNE, a, b)"
| "dest_bin (LT a b) = Some (OpLT, a, b)"
| "dest_bin (LE a b) = Some (OpLE, a, b)"
| "dest_bin (GT a b) = Some (OpGT, a, b)"
| "dest_bin (GE a b) = Some (OpGE, a, b)"
| "dest_bin (And a b) = Some (OpAnd, a, b)"
| "dest_bin (Or a b) = Some (OpOr, a, b)"
| "dest_bin e = None"

text \<open>
  The six-valued comparison lattice with its top and bottom, as a bit set: bit 0 is
  "may be equal", bit 1 "may be less", bit 2 "may be greater".  Intersection is the
  bitwise conjunction of the codes.
\<close>

datatype CompareResult = kInconsistent | kEQ | kLT | kLE | kGT | kGE | kNE | kUnknown

fun compare_bits :: "CompareResult \<Rightarrow> bool \<times> bool \<times> bool" where
  "compare_bits kInconsistent = (False, False, False)"
| "compare_bits kEQ = (True, False, False)"
| "compare_bits kLT = (False, True, False)"
| "compare_bits kLE = (True, True, False)"
| "compare_bits kGT = (False, False, True)"
| "compare_bits kGE = (True, False, True)"
| "compare_bits kNE = (False, True, True)"
| "compare_bits kUnknown = (True, True, True)"

fun of_compare_bits :: "bool \<times> bool \<times> bool \<Rightarrow> CompareResult" where
  "of_compare_bits (False, False, False) = kInconsistent"
| "of_compare_bits (True, False, False) = kEQ"
| "of_compare_bits (False, True, False) = kLT"
| "of_compare_bits (True, True, False) = kLE"
| "of_compare_bits (False, False, True) = kGT"
| "of_compare_bits (True, False, True) = kGE"
| "of_compare_bits (False, True, True) = kNE"
| "of_compare_bits (True, True, True) = kUnknown"

definition compare_and :: "CompareResult \<Rightarrow> CompareResult \<Rightarrow> CompareResult" where
  "compare_and a b =
     (case (compare_bits a, compare_bits b) of
        ((e1, l1, g1), (e2, l2, g2)) \<Rightarrow> of_compare_bits (e1 \<and> e2, l1 \<and> l2, g1 \<and> g2))"

text \<open>
  The collaborators of the simplifier that are declared outside this source file:
  the analyses of the enclosing analyzer, the proof shortcuts built on them, the
  helpers on scalable vectors, the arithmetic that folds two float literals, and the
  configuration of the simplifier (extension flags, recursion limit).  A bound is a
  pair \<open>(min_value, max_value)\<close> with the sentinels \<open>kNegInf\<close> and \<open>kPosInf\<close>;
  a modular set is a pair \<open>(coeff, base)\<close>.
\<close>

definition kPosInf :: int where
  "kPosInf = 2 ^ 63 - 1"

definition kNegInf :: int where
  "kNegInf = - kPosInf"

record analyzer =
  const_int_bound :: "expr \<Rightarrow> int \<times> int"
  modular_set :: "expr \<Rightarrow> int \<times> int"
  transitive_comparisons :: "expr \<Rightarrow> expr \<Rightarrow> bool \<Rightarrow> CompareResult"
  CanProve :: "expr \<Rightarrow> bool"
  CanProveEqual :: "expr \<Rightarrow> int \<Rightarrow> bool"
  CanProveGreaterEqual :: "expr \<Rightarrow> int \<Rightarrow> bool"
  CanProveLess :: "expr \<Rightarrow> int \<Rightarrow> bool"
  SideEffect :: "expr \<Rightarrow> CallEffectKind"
  ContainsVscaleCall :: "expr \<Rightarrow> bool"
  ExtractVscaleFactor :: "expr \<Rightarrow> int option"
  fold_float :: "binop \<Rightarrow> dtype \<Rightarrow> double \<Rightarrow> double \<Rightarrow> double option"
  custom_type_registered :: "nat \<Rightarrow> bool"
  kTransitivelyProveInequalities :: bool
  kComparisonOfProductAndSum :: bool
  kApplyConstraintsToBooleanBranches :: bool
  kConvertBooleanToAndOfOrs :: bool
  kMaxRecurDepth :: nat

definition bool_literal :: "bool \<Rightarrow> expr" where
  "bool_literal b = IntImm Bool (if b then 1 else 0)"

text \<open>
  Modelled from the spec: \<^verbatim>\<open>TryConstFold<Op>(a, b)\<close>, declared outside this source file, "returns a literal when both operands are literals of the same type; honors
  the op's exact semantics (truncated vs. floored division/modulus; integer overflow
  wraps on the declared width; division/mod by zero returns none rather than folding)",
  with boolean folds for the connectives and the comparisons.
\<close>

fun fold_int :: "binop \<Rightarrow> dtype \<Rightarrow> int \<Rightarrow> int \<Rightarrow> expr option" where
  "fold_int OpAdd t a b = Some (IntImm t (wrap t (a + b)))"
| "fold_int OpSub t a b = Some (IntImm t (wrap t (a - b)))"
| "fold_int OpMul t a b = Some (IntImm t (wrap t (a * b)))"
| "fold_int OpDiv t a b = (if b = 0 then None else Some (IntImm t (wrap t (truncdiv a b))))"
| "fold_int OpMod t a b = (if b = 0 then None else Some (IntImm t (wrap t (truncmod a b))))"
| "fold_int OpFloorDiv t a b = (if b = 0 then None else Some (IntImm t (wrap t (a div b))))"
| "fold_int OpFloorMod t a b = (if b = 0 then None else Some (IntImm t (wrap t (a mod b))))"
| "fold_int OpMin t a b = Some (IntImm t (min a b))"
| "fold_int OpMax t a b = Some (IntImm t (max a b))"
| "fold_int OpEQ t a b = Some (bool_literal (a = b))"
| "fold_int OpNE t a b = Some (bool_literal (a \<noteq> b))"
| "fold_int OpLT t a b = Some (bool_literal (a < b))"
| "fold_int OpLE t a b = Some (bool_literal (a \<le> b))"
| "fold_int OpGT t a b = Some (bool_literal (a > b))"
| "fold_int OpGE t a b = Some (bool_literal (a \<ge> b))"
| "fold_int OpAnd t a b = (if is_bool t then Some (bool_literal (a \<noteq> 0 \<and> b \<noteq> 0)) else None)"
| "fold_int OpOr t a b = (if is_bool t then Some (bool_literal (a \<noteq> 0 \<or> b \<noteq> 0)) else None)"

text \<open>
  Two float literals: the arithmetic is the analyzer's \<open>fold_float\<close> (which gives
  nothing where the spec folds nothing, as for a zero divisor); comparisons compare
  the values.
\<close>

fun fold_float_literals :: "analyzer \<Rightarrow> binop \<Rightarrow> dtype \<Rightarrow> double \<Rightarrow> double \<Rightarrow> expr option" where
  "fold_float_literals an OpEQ t a b = Some (bool_literal (double_eq a b))"
| "fold_float_literals an OpNE t a b = Some (bool_literal (\<not> double_eq a b))"
| "fold_float_literals an OpLT t a b = Some (bool_literal (double_lt a b))"
| "fold_float_literals an OpLE t a b = Some (bool_literal (double_le a b))"
| "fold_float_literals an OpGT t a b = Some (bool_literal (double_lt b a))"
| "fold_float_literals an OpGE t a b = Some (bool_literal (double_le b a))"
| "fold_float_literals an OpAnd t a b = None"
| "fold_float_literals an OpOr t a b = None"
| "fold_float_literals an op t a b = map_option (FloatImm t) (fold_float an op t a b)"

fun TryConstFold :: "analyzer \<Rightarrow> binop \<Rightarrow> expr \<Rightarrow> expr \<Rightarrow> expr option" where
  "TryConstFold an op (IntImm ta a) (IntImm tb b) = (if ta = tb then fold_int op ta a b else None)"
| "TryConstFold an op (FloatImm ta a) (FloatImm tb b) =
     (if ta = tb then fold_float_literals an op ta a b else None)"
| "TryConstFold an op a b = None"

fun TryConstFold_Not :: "expr \<Rightarrow> expr option" where
  "TryConstFold_Not (IntImm t a) = (if is_bool t then Some (bool_literal (a = 0)) else None)"
| "TryConstFold_Not a = None"

text \<open>
  The operators on expressions (\<^verbatim>\<open>a + b\<close>, \<^verbatim>\<open>a <= b\<close>, \<^verbatim>\<open>a && b\<close>, \<^verbatim>\<open>!a\<close>,
  \<^verbatim>\<open>-a\<close>), as opposed to the node constructors (\<^verbatim>\<open>Add(a, b)\<close>, \<^verbatim>\<open>Not(a)\<close>), fold
  constants eagerly ("the operator overload will eagerly constant fold", line 2280)
  and build the node otherwise.  They are declared outside this source file.
\<close>

definition op_expr :: "analyzer \<Rightarrow> binop \<Rightarrow> expr \<Rightarrow> expr \<Rightarrow> expr" where
  "op_expr an op a b = (case TryConstFold an op a b of Some c \<Rightarrow> c | None \<Rightarrow> mk_bin op a b)"

definition not_expr :: "expr \<Rightarrow> expr" where
  "not_expr a = (case TryConstFold_Not a of Some c \<Rightarrow> c | None \<Rightarrow> NotNode a)"

definition neg_expr :: "analyzer \<Rightarrow> expr \<Rightarrow> expr" where
  "neg_expr an a =
     (case a of
        IntImm t v \<Rightarrow> IntImm t (wrap t (- v))
      | _ \<Rightarrow> op_expr an OpSub (make_zero (dtype_of a)) a)"

text \<open>
  An analyzer for the examples: it knows the value of a literal and nothing else, takes
  an expression without calls to be pure, folds two finite doubles in double
  arithmetic (nothing on a zero divisor, as the spec has it, and nothing on an
  infinity or a NaN), and has every extension switched off.
\<close>

fun literal_bound :: "expr \<Rightarrow> int \<times> int" where
  "literal_bound (IntImm t v) = (v, v)"
| "literal_bound e = (kNegInf, kPosInf)"

fun literal_modular_set :: "expr \<Rightarrow> int \<times> int" where
  "literal_modular_set (IntImm t v) = (0, v)"
| "literal_modular_set e = (1, 0)"

fun literal_value :: "expr \<Rightarrow> int option" where
  "literal_value (IntImm t v) = Some v"
| "literal_value e = None"

fun call_free :: "expr \<Rightarrow> bool" where
  "call_free (Call t n args) = False"
| "call_free (Cast t v) = call_free v"
| "call_free (Add a b) = (call_free a \<and> call_free b)"
| "call_free (Sub a b) = (call_free a \<and> call_free b)"
| "call_free (Mul a b) = (call_free a \<and> call_free b)"
| "call_free (Div a b) = (call_free a \<and> call_free b)"
| "call_free (Mod a b) = (call_free a \<and> call_free b)"
| "call_free (FloorDiv a b) = (call_free a \<and> call_free b)"
| "call_free (FloorMod a b) = (call_free a \<and> call_free b)"
| "call_free (MinNode a b) = (call_free a \<and> call_free b)"
| "call_free (MaxNode a b) = (call_free a \<and> call_free b)"
| "call_free (EQ a b) = (call_free a \<and> call_free b)"
| "call_free (NE a b) = (call_free a \<and> call_free b)"
| "call_free (LT a b) = (call_free a \<and> call_free b)"
| "call_free (LE a b) = (call_free a \<and> call_free b)"
| "call_free (GT a b) = (call_free a \<and> call_free b)"
| "call_free (GE a b) = (call_free a \<and> call_free b)"
| "call_free (And a b) = (call_free a \<and> call_free b)"
| "call_free (Or a b) = (call_free a \<and> call_free b)"
| "call_free (NotNode a) = call_free a"
| "call_free (Select c t e) = (call_free c \<and> call_free t \<and> call_free e)"
| "call_free (Ramp b s l) = (call_free b \<and> call_free s \<and> call_free l)"
| "call_free (Broadcast v l) = (call_free v \<and> call_free l)"
| "call_free (LetNode v x b) = (call_free x \<and> call_free b)"
| "call_free e = True"

fun finite_double :: "binop \<Rightarrow> double \<Rightarrow> double \<Rightarrow> double option" where
  "finite_double OpAdd a b = Some (double_add a b)"
| "finite_double OpSub a b = Some (double_add a (double_neg b))"
| "finite_double OpMul a b = Some (double_mul a b)"
| "finite_double OpDiv a b = (if double_significand b = 0 then None else Some (double_div a b))"
| "finite_double OpMin a b = Some (if double_lt b a then b else a)"
| "finite_double OpMax a b = Some (if double_lt a b then b else a)"
| "finite_double op a b = None"

definition fold_finite_doubles :: "binop \<Rightarrow> dtype \<Rightarrow> double \<Rightarrow> double \<Rightarrow> double option" where
  "fold_finite_doubles op t a b = (if is_finite a \<and> is_finite b then finite_double op a b else None)"

definition literal_analyzer :: analyzer where
  "literal_analyzer =
     \<lparr>const_int_bound = literal_bound,
      modular_set = literal_modular_set,
      transitive_comparisons = (\<lambda>a b propagate. kUnknown),
      CanProve = (\<lambda>e. literal_value e = Some 1),
      CanProveEqual = (\<lambda>e v. literal_value e = Some v),
      CanProveGreaterEqual = (\<lambda>e v. case literal_value e of Some w \<Rightarrow> v \<le> w | None \<Rightarrow> False),
      CanProveLess = (\<lambda>e v. case literal_value e of Some w \<Rightarrow> w < v | None \<Rightarrow> False),
      SideEffect = (\<lambda>e. if call_free e then kPure else kUpdateState),
      ContainsVscaleCall = (\<lambda>e. False),
      ExtractVscaleFactor = (\<lambda>e. None),
      fold_float = fold_finite_doubles,
      custom_type_registered = (\<lambda>n. False),
      kTransitivelyProveInequalities = False,
      kComparisonOfProductAndSum = False,
      kApplyConstraintsToBooleanBranches = False,
      kConvertBooleanToAndOfOrs = False,
      kMaxRecurDepth = 5\<rparr>"

section \<open>NormalizeBooleanOperators\<close>

text \<open>
  \<^verbatim>\<open>NormalizeBooleanOperators\<close> (lines 109-131).  The \<^verbatim>\<open>while (true)\<close> loop
  continues only in the branch \<^verbatim>\<open>!!x\<close>, with \<^verbatim>\<open>expr = x\<close>; every other branch
  returns.  The equations are tried in the order of the source's \<^verbatim>\<open>if\<close> chain, and
  the results are built with the operators on expressions, as in the source.
\<close>

function (sequential) NormalizeBooleanOperators :: "analyzer \<Rightarrow> expr \<Rightarrow> expr" where
  "NormalizeBooleanOperators an (NotNode (NotNode x)) = NormalizeBooleanOperators an x"
| "NormalizeBooleanOperators an (NotNode (Or x y)) =
     op_expr an OpAnd (NormalizeBooleanOperators an (not_expr x))
                      (NormalizeBooleanOperators an (not_expr y))"
| "NormalizeBooleanOperators an (NotNode (And x y)) =
     op_expr an OpOr (NormalizeBooleanOperators an (not_expr x))
                     (NormalizeBooleanOperators an (not_expr y))"
| "NormalizeBooleanOperators an (GE x y) = op_expr an OpLE y x"
| "NormalizeBooleanOperators an (NotNode (LT x y)) = op_expr an OpLE y x"
| "NormalizeBooleanOperators an (NotNode (GT y x)) = op_expr an OpLE y x"
| "NormalizeBooleanOperators an (GT x y) = op_expr an OpLT y x"
| "NormalizeBooleanOperators an (NotNode (LE x y)) = op_expr an OpLT y x"
| "NormalizeBooleanOperators an (NotNode (GE y x)) = op_expr an OpLT y x"
| "NormalizeBooleanOperators an (NotNode (EQ x y)) = op_expr an OpNE x y"
| "NormalizeBooleanOperators an (NotNode (NE x y)) = op_expr an OpEQ x y"
| "NormalizeBooleanOperators an e = e"
  by pat_completeness auto
termination
  by (relation "measure (\<lambda>(an, e). size e)")
     (auto simp: not_expr_def bool_literal_def split: option.splits if_splits
           elim!: TryConstFold_Not.elims)

text \<open>The shapes the rules of \<^verbatim>\<open>NormalizeBooleanOperators\<close> match, at the root.\<close>

fun boolean_rule_shape :: "expr \<Rightarrow> bool" where
  "boolean_rule_shape (NotNode (NotNode x)) = True"
| "boolean_rule_shape (NotNode (Or x y)) = True"
| "boolean_rule_shape (NotNode (And x y)) = True"
| "boolean_rule_shape (GE x y) = True"
| "boolean_rule_shape (NotNode (LT x y)) = True"
| "boolean_rule_shape (NotNode (GT y x)) = True"
| "boolean_rule_shape (GT x y) = True"
| "boolean_rule_shape (NotNode (LE x y)) = True"
| "boolean_rule_shape (NotNode (GE y x)) = True"
| "boolean_rule_shape (NotNode (EQ x y)) = True"
| "boolean_rule_shape (NotNode (NE x y)) = True"
| "boolean_rule_shape e = False"

section \<open>Constraint stack\<close>

text \<open>
  The part of the simplifier's state that \<^verbatim>\<open>EnterConstraint\<close>,
  \<^verbatim>\<open>TryMatchLiteralConstraint\<close> and the variable visitor read and write: the stack
  \<^verbatim>\<open>literal_constraints_\<close>, the substitution map \<^verbatim>\<open>var_map_\<close> (insertion order is
  irrelevant, the first binding of a key is the one found) and the counter
  \<^verbatim>\<open>stats_.constraints_entered\<close>.
\<close>

record simplifier_state =
  literal_constraints :: "expr list"
  var_map :: "(expr \<times> expr) list"
  constraints_entered :: nat

text \<open>\<^verbatim>\<open>std::vector::resize\<close>: truncate, or pad with default elements.\<close>

definition resize :: "nat \<Rightarrow> expr list \<Rightarrow> expr list" where
  "resize n xs = take n xs @ replicate (n - length xs) NullExpr"

text \<open>
  \<^verbatim>\<open>EnterConstraint\<close> (lines 499-528).  The rewrite core \<^verbatim>\<open>operator()\<close> of the
  implementation class (one pass of \<^verbatim>\<open>VisitExpr\<close>) and the splitter \<^verbatim>\<open>ExtractConstraints\<close> are declared outside
  this source file and are parameters, the analysis \<^verbatim>\<open>SideEffect\<close> is a field of
  the analyzer.  The
  loop over the sub-constraints is \<open>push_subconstraints\<close>.  The returned closure
  \<^verbatim>\<open>frecover\<close> captures the two sizes; it is the record \<open>restore_handle\<close>, and
  calling it is \<open>frecover\<close>, which fails where \<^verbatim>\<open>ICHECK_EQ\<close> does.
\<close>

record restore_handle =
  old_literal_size :: nat
  new_literal_size :: nat

definition negation_of :: "analyzer \<Rightarrow> expr \<Rightarrow> expr" where
  "negation_of an subconstraint =
     (if is_bool (dtype_of subconstraint)
      then NormalizeBooleanOperators an (NotNode subconstraint)
      else op_expr an OpEQ subconstraint (make_zero (dtype_of subconstraint)))"

fun push_subconstraints :: "analyzer \<Rightarrow> expr list \<Rightarrow> expr list \<Rightarrow> expr list" where
  "push_subconstraints an [] stack = stack"
| "push_subconstraints an (subconstraint # rest) stack =
     (if effect_rank (SideEffect an subconstraint) \<le> effect_rank kPure
      then push_subconstraints an rest
             (stack @ [subconstraint, NotNode (negation_of an subconstraint)])
      else push_subconstraints an rest stack)"

definition EnterConstraint ::
  "(simplifier_state \<Rightarrow> expr \<Rightarrow> failure + expr) \<Rightarrow> (expr \<Rightarrow> expr list) \<Rightarrow> analyzer \<Rightarrow>
   simplifier_state \<Rightarrow> expr \<Rightarrow> failure + simplifier_state \<times> restore_handle" where
  "EnterConstraint rewrite ExtractConstraints an st constraint =
     (case rewrite st constraint of
        Inl f \<Rightarrow> Inl f
      | Inr new_constraint \<Rightarrow>
          let old_size = length (literal_constraints st);
              stack = push_subconstraints an (ExtractConstraints new_constraint)
                        (literal_constraints st);
              st' = st\<lparr>literal_constraints := stack,
                       constraints_entered := constraints_entered st + 1\<rparr>
          in Inr (st', \<lparr>old_literal_size = old_size, new_literal_size = length stack\<rparr>))"

definition frecover :: "restore_handle \<Rightarrow> simplifier_state \<Rightarrow> failure + simplifier_state" where
  "frecover h st =
     (if length (literal_constraints st) \<noteq> new_literal_size h then Inl CheckFailed
      else Inr (st\<lparr>literal_constraints := resize (old_literal_size h) (literal_constraints st)\<rparr>))"

text \<open>
  \<^verbatim>\<open>TryMatchLiteralConstraint\<close> (lines 1653-1666): the first stacked constraint that
  is deep-equal to the expression or to its negation decides.
\<close>

fun match_literal :: "expr list \<Rightarrow> expr \<Rightarrow> expr option" where
  "match_literal [] e = None"
| "match_literal (constraint # rest) e =
     (if constraint = e then Some (make_const (dtype_of e) 1)
      else if constraint = NotNode e then Some (make_const (dtype_of e) 0)
      else match_literal rest e)"

definition TryMatchLiteralConstraint :: "simplifier_state \<Rightarrow> expr \<Rightarrow> expr option" where
  "TryMatchLiteralConstraint st e = match_literal (literal_constraints st) e"

section \<open>Pattern language\<close>

text \<open>
  Modelled from the spec: the pattern language of \<^verbatim>\<open>pattern_match.h\<close>, declared
  outside this source file.  A pattern variable is a cell named by a number;
  \<open>PVar\<close> binds any expression, \<open>PVarInt\<close> only an integer literal, \<open>PVarFloat\<close>
  only a float literal, and a variable seen twice must unify with a deep-equal value.
  \<open>PConstWithTypeLike r v\<close> is an integer written in a pattern: it matches the
  integer literal of value \<open>v\<close> and evaluates to the literal \<open>v\<close> of the type of
  \<open>r\<close>.  \<open>Match\<close> (the source's \<^verbatim>\<open>Match_\<close>) is a match attempt from given bindings, \<open>Eval\<close> substitutes the
  bound variables; the evaluation of an arithmetic pattern folds constants eagerly.
  The evaluation of an unbound variable, asserted against in the source, is
  \<open>NullExpr\<close>.
\<close>

datatype pat =
    PVar nat
  | PVarInt nat
  | PVarFloat nat
  | PConst expr
  | PConstWithTypeLike pat int
  | PBinaryExpr binop pat pat
  | PNotExpr pat
  | PSelectExpr pat pat pat
  | PRampExpr pat pat pat
  | PBroadcastExpr pat pat

type_synonym bindings = "(nat \<times> expr) list"

definition bind_var :: "nat \<Rightarrow> expr \<Rightarrow> bindings \<Rightarrow> bindings option" where
  "bind_var i e \<sigma> =
     (case map_of \<sigma> i of
        None \<Rightarrow> Some ((i, e) # \<sigma>)
      | Some v \<Rightarrow> if v = e then Some \<sigma> else None)"

fun Match :: "pat \<Rightarrow> expr \<Rightarrow> bindings \<Rightarrow> bindings option" where
  "Match (PVar i) e \<sigma> = bind_var i e \<sigma>"
| "Match (PVarInt i) e \<sigma> = (case e of IntImm t v \<Rightarrow> bind_var i e \<sigma> | _ \<Rightarrow> None)"
| "Match (PVarFloat i) e \<sigma> = (case e of FloatImm t v \<Rightarrow> bind_var i e \<sigma> | _ \<Rightarrow> None)"
| "Match (PConst c) e \<sigma> = (if c = e then Some \<sigma> else None)"
| "Match (PConstWithTypeLike r v) e \<sigma> =
     (case e of IntImm t w \<Rightarrow> if w = v then Some \<sigma> else None | _ \<Rightarrow> None)"
| "Match (PBinaryExpr op p q) e \<sigma> =
     (case dest_bin e of
        Some (op', a, b) \<Rightarrow>
          if op' = op
          then (case Match p a \<sigma> of None \<Rightarrow> None | Some \<sigma>' \<Rightarrow> Match q b \<sigma>')
          else None
      | None \<Rightarrow> None)"
| "Match (PNotExpr p) e \<sigma> = (case e of NotNode a \<Rightarrow> Match p a \<sigma> | _ \<Rightarrow> None)"
| "Match (PSelectExpr pc pt pf) e \<sigma> =
     (case e of
        Select c t f \<Rightarrow>
          (case Match pc c \<sigma> of
             None \<Rightarrow> None
           | Some \<sigma>1 \<Rightarrow> (case Match pt t \<sigma>1 of None \<Rightarrow> None | Some \<sigma>2 \<Rightarrow> Match pf f \<sigma>2))
      | _ \<Rightarrow> None)"
| "Match (PRampExpr pb ps pl) e \<sigma> =
     (case e of
        Ramp b s l \<Rightarrow>
          (case Match pb b \<sigma> of
             None \<Rightarrow> None
           | Some \<sigma>1 \<Rightarrow> (case Match ps s \<sigma>1 of None \<Rightarrow> None | Some \<sigma>2 \<Rightarrow> Match pl l \<sigma>2))
      | _ \<Rightarrow> None)"
| "Match (PBroadcastExpr pv pl) e \<sigma> =
     (case e of
        Broadcast v l \<Rightarrow> (case Match pv v \<sigma> of None \<Rightarrow> None | Some \<sigma>1 \<Rightarrow> Match pl l \<sigma>1)
      | _ \<Rightarrow> None)"

definition var_value :: "bindings \<Rightarrow> nat \<Rightarrow> expr" where
  "var_value \<sigma> i = (case map_of \<sigma> i of Some e \<Rightarrow> e | None \<Rightarrow> NullExpr)"

fun Eval :: "analyzer \<Rightarrow> bindings \<Rightarrow> pat \<Rightarrow> expr" where
  "Eval an \<sigma> (PVar i) = var_value \<sigma> i"
| "Eval an \<sigma> (PVarInt i) = var_value \<sigma> i"
| "Eval an \<sigma> (PVarFloat i) = var_value \<sigma> i"
| "Eval an \<sigma> (PConst c) = c"
| "Eval an \<sigma> (PConstWithTypeLike r v) = make_const (dtype_of (Eval an \<sigma> r)) v"
| "Eval an \<sigma> (PBinaryExpr op p q) =
     (let lhs = Eval an \<sigma> p; rhs = Eval an \<sigma> q
      in case TryConstFold an op lhs rhs of Some c \<Rightarrow> c | None \<Rightarrow> mk_bin op lhs rhs)"
| "Eval an \<sigma> (PNotExpr p) = NotNode (Eval an \<sigma> p)"
| "Eval an \<sigma> (PSelectExpr pc pt pf) = Select (Eval an \<sigma> pc) (Eval an \<sigma> pt) (Eval an \<sigma> pf)"
| "Eval an \<sigma> (PRampExpr pb ps pl) = Ramp (Eval an \<sigma> pb) (Eval an \<sigma> ps) (Eval an \<sigma> pl)"
| "Eval an \<sigma> (PBroadcastExpr pv pl) = Broadcast (Eval an \<sigma> pv) (Eval an \<sigma> pl)"

text \<open>The value of a bound integer literal, \<^verbatim>\<open>c.Eval()->value\<close>.\<close>

definition int_value :: "bindings \<Rightarrow> nat \<Rightarrow> int" where
  "int_value \<sigma> i = (case var_value \<sigma> i of IntImm t v \<Rightarrow> v | _ \<Rightarrow> 0)"

definition float_value :: "bindings \<Rightarrow> nat \<Rightarrow> double" where
  "float_value \<sigma> i = (case var_value \<sigma> i of FloatImm t v \<Rightarrow> v | _ \<Rightarrow> 0)"

text \<open>
  \<^verbatim>\<open>Match(node, cond)\<close> starts from empty cells and checks the condition on the
  bindings of a successful match; \<^verbatim>\<open>matches_one_of\<close> and \<^verbatim>\<open>PMatchesOneOf\<close> try
  their alternatives in order, each with the condition.
\<close>

fun matches_one_of :: "pat list \<Rightarrow> (bindings \<Rightarrow> bool) \<Rightarrow> expr \<Rightarrow> bindings option" where
  "matches_one_of [] cond e = None"
| "matches_one_of (p # ps) cond e =
     (case Match p e [] of
        Some \<sigma> \<Rightarrow> if cond \<sigma> then Some \<sigma> else matches_one_of ps cond e
      | None \<Rightarrow> matches_one_of ps cond e)"

text \<open>
  The outcome of one attempt of a visitor on the rebuilt node \<^verbatim>\<open>ret\<close>: nothing (go on
  with the next attempt), a result that is returned, a result that
  \<^verbatim>\<open>RecursiveRewrite\<close> visits again, or a failed check.  The four macros
  \<^verbatim>\<open>TVM_TRY_REWRITE\<close>, \<^verbatim>\<open>TVM_TRY_REWRITE_IF\<close>, \<^verbatim>\<open>TVM_TRY_RECURSIVE_REWRITE\<close> and
  \<^verbatim>\<open>TVM_TRY_RECURSIVE_REWRITE_IF\<close> (lines 61-90) are \<open>rw\<close>, \<open>rw_if\<close>, \<open>rrw\<close> and
  \<open>rrw_if\<close>; a visitor tries its attempts in the order of the source.
\<close>

datatype outcome = Return expr | Recursive expr | Abort failure

type_synonym attempt = "analyzer \<Rightarrow> expr \<Rightarrow> outcome option"

definition rw_if :: "pat list \<Rightarrow> pat \<Rightarrow> (analyzer \<Rightarrow> bindings \<Rightarrow> bool) \<Rightarrow> attempt" where
  "rw_if src res cond an ret =
     (case matches_one_of src (cond an) ret of
        Some \<sigma> \<Rightarrow> Some (Return (Eval an \<sigma> res))
      | None \<Rightarrow> None)"

definition rw :: "pat list \<Rightarrow> pat \<Rightarrow> attempt" where
  "rw src res = rw_if src res (\<lambda>an \<sigma>. True)"

definition rrw_if :: "pat list \<Rightarrow> pat \<Rightarrow> (analyzer \<Rightarrow> bindings \<Rightarrow> bool) \<Rightarrow> attempt" where
  "rrw_if src res cond an ret =
     (case matches_one_of src (cond an) ret of
        Some \<sigma> \<Rightarrow> Some (Recursive (Eval an \<sigma> res))
      | None \<Rightarrow> None)"

definition rrw :: "pat list \<Rightarrow> pat \<Rightarrow> attempt" where
  "rrw src res = rrw_if src res (\<lambda>an \<sigma>. True)"

fun try_attempts :: "attempt list \<Rightarrow> analyzer \<Rightarrow> expr \<Rightarrow> outcome option" where
  "try_attempts [] an ret = None"
| "try_attempts (a # as) an ret =
     (case a an ret of Some r \<Rightarrow> Some r | None \<Rightarrow> try_attempts as an ret)"

definition first_outcome :: "attempt list \<Rightarrow> analyzer \<Rightarrow> expr \<Rightarrow> outcome" where
  "first_outcome as an ret = (case try_attempts as an ret of Some r \<Rightarrow> r | None \<Rightarrow> Return ret)"

text \<open>
  The end of a visitor: a returned result, a result that \<^verbatim>\<open>RecursiveRewrite\<close>
  (\<open>rr\<close>) visits again, or a failure.
\<close>

definition finish :: "(expr \<Rightarrow> failure + expr) \<Rightarrow> outcome \<Rightarrow> failure + expr" where
  "finish rr r = (case r of Return e \<Rightarrow> Inr e | Recursive e \<Rightarrow> rr e | Abort f \<Rightarrow> Inl f)"

text \<open>An attempt that is made only under a gate on the data type of the node.\<close>

definition gated :: "bool \<Rightarrow> attempt list \<Rightarrow> attempt list" where
  "gated g as = (if g then as else [])"

section \<open>Rule tables of the arithmetic visitors\<close>

text \<open>
  Names for the pattern variables of the visitors (\<^verbatim>\<open>PVar<PrimExpr> x, y, z, b1, b2,
  s1, s2, lanes\<close>, \<^verbatim>\<open>PVar<IntImm> c1, c2, c3\<close> and the float-literal variable) and
  for the pattern constructors, so that a rule reads as in the source:
  \<^verbatim>\<open>TVM_TRY_REWRITE((x - y) + y, x)\<close> is \<open>rw [padd (psub px py) py] px\<close>, and an
  integer \<open>k\<close> written next to a pattern \<open>p\<close> is \<open>plit p k\<close>.
\<close>

abbreviation "px \<equiv> PVar 0"
abbreviation "py \<equiv> PVar 1"
abbreviation "pz \<equiv> PVar 2"
abbreviation "pb1 \<equiv> PVar 3"
abbreviation "pb2 \<equiv> PVar 4"
abbreviation "ps1 \<equiv> PVar 5"
abbreviation "ps2 \<equiv> PVar 6"
abbreviation "planes \<equiv> PVar 7"
abbreviation "pc1 \<equiv> PVarInt 8"
abbreviation "pc2 \<equiv> PVarInt 9"
abbreviation "pc3 \<equiv> PVarInt 10"
abbreviation "pcf \<equiv> PVarFloat 11"

abbreviation "padd \<equiv> PBinaryExpr OpAdd"
abbreviation "psub \<equiv> PBinaryExpr OpSub"
abbreviation "pmul \<equiv> PBinaryExpr OpMul"
abbreviation "ptruncdiv \<equiv> PBinaryExpr OpDiv"
abbreviation "ptruncmod \<equiv> PBinaryExpr OpMod"
abbreviation "pfloordiv \<equiv> PBinaryExpr OpFloorDiv"
abbreviation "pfloormod \<equiv> PBinaryExpr OpFloorMod"
abbreviation "pmin \<equiv> PBinaryExpr OpMin"
abbreviation "pmax \<equiv> PBinaryExpr OpMax"
abbreviation "peq \<equiv> PBinaryExpr OpEQ"
abbreviation "pne \<equiv> PBinaryExpr OpNE"
abbreviation "plt \<equiv> PBinaryExpr OpLT"
abbreviation "ple \<equiv> PBinaryExpr OpLE"
abbreviation "pgt \<equiv> PBinaryExpr OpGT"
abbreviation "pge \<equiv> PBinaryExpr OpGE"
abbreviation "pand \<equiv> PBinaryExpr OpAnd"
abbreviation "por \<equiv> PBinaryExpr OpOr"
abbreviation "pnot \<equiv> PNotExpr"
abbreviation "pselect \<equiv> PSelectExpr"
abbreviation "pramp \<equiv> PRampExpr"
abbreviation "pbroadcast \<equiv> PBroadcastExpr"
abbreviation "plit \<equiv> PConstWithTypeLike"

text \<open>The values \<^verbatim>\<open>c1.Eval()->value\<close>, \<^verbatim>\<open>c2.Eval()->value\<close>, \<^verbatim>\<open>c3.Eval()->value\<close>.\<close>

definition c1v :: "bindings \<Rightarrow> int" where
  "c1v \<sigma> = int_value \<sigma> 8"

definition c2v :: "bindings \<Rightarrow> int" where
  "c2v \<sigma> = int_value \<sigma> 9"

definition c3v :: "bindings \<Rightarrow> int" where
  "c3v \<sigma> = int_value \<sigma> 10"

definition cfv :: "bindings \<Rightarrow> double" where
  "cfv \<sigma> = float_value \<sigma> 11"

text \<open>
  An attempt written as code in the source: a match of one pattern followed by a
  computation on the bindings that returns or falls through.
\<close>

definition on_match :: "pat list \<Rightarrow> (analyzer \<Rightarrow> bindings \<Rightarrow> outcome option) \<Rightarrow> attempt" where
  "on_match src body an ret =
     (case matches_one_of src (\<lambda>\<sigma>. True) ret of Some \<sigma> \<Rightarrow> body an \<sigma> | None \<Rightarrow> None)"

definition side_effect_le :: "analyzer \<Rightarrow> expr \<Rightarrow> CallEffectKind \<Rightarrow> bool" where
  "side_effect_le an e k \<longleftrightarrow> effect_rank (SideEffect an e) \<le> effect_rank k"

text \<open>The rules of the visitor of \<^verbatim>\<open>AddNode\<close> (lines 397-496), for a node of type \<open>t\<close>.\<close>

definition Add_rules :: "dtype \<Rightarrow> attempt list" where
  "Add_rules t =
     gated (is_scalable_or_fixed_length_vector t)
       [rw [padd (pramp pb1 ps1 planes) (pramp pb2 ps2 planes)]
           (pramp (padd pb1 pb2) (padd ps1 ps2) planes),
        rw [padd (pramp pb1 ps1 planes) (pbroadcast px planes)] (pramp (padd pb1 px) ps1 planes),
        rw [padd (pbroadcast px planes) (pramp pb1 ps1 planes)] (pramp (padd px pb1) ps1 planes),
        rw [padd (pbroadcast px planes) (pbroadcast py planes)] (pbroadcast (padd px py) planes),
        rw_if [padd px (pbroadcast pcf planes)] px (\<lambda>an \<sigma>. double_eq (cfv \<sigma>) 0)]
     @ gated (IsIndexType t)
       [rw [padd (psub px py) py] px,
        rw [padd px (psub py px)] py,
        rw [padd (psub px py) (psub py pz)] (psub px pz),
        rw [padd (psub px py) (psub pz px)] (psub pz py),
        rw [padd (pmin px (psub py pz)) pz] (pmin (padd px pz) py),
        rw [padd (pmin (psub px pz) py) pz] (pmin px (padd py pz)),
        rw [padd (pmax px (psub py pz)) pz] (pmax (padd px pz) py),
        rw [padd (pmax (psub px pz) py) pz] (pmax px (padd py pz)),
        rw_if [padd (pmin px (padd py (pmul pz pc1))) (pmul pz pc2)] (pmin (padd px (pmul pz pc2)) py)
          (\<lambda>an \<sigma>. c1v \<sigma> = - c2v \<sigma>),
        rw_if [padd (pmax px (padd py (pmul pz pc1))) (pmul pz pc2)] (pmax (padd px (pmul pz pc2)) py)
          (\<lambda>an \<sigma>. c1v \<sigma> = - c2v \<sigma>),
        rw_if [padd (pmin (padd py (pmul pz pc1)) px) (pmul pz pc2)] (pmin (padd px (pmul pz pc2)) py)
          (\<lambda>an \<sigma>. c1v \<sigma> = - c2v \<sigma>),
        rw_if [padd (pmax (padd py (pmul pz pc1)) px) (pmul pz pc2)] (pmax (padd px (pmul pz pc2)) py)
          (\<lambda>an \<sigma>. c1v \<sigma> = - c2v \<sigma>),
        rw [padd (pmax px py) (pmin px py), padd (pmin px py) (pmax px py),
            padd (pmax px py) (pmin py px), padd (pmin px py) (pmax py px)]
           (padd px py),
        rw_if [padd (pmin px (padd py pc1)) pc2] (pmin (padd px pc2) py) (\<lambda>an \<sigma>. c1v \<sigma> = - c2v \<sigma>),
        rw_if [padd (pmin (padd px pc1) py) pc2] (pmin px (padd py pc2)) (\<lambda>an \<sigma>. c1v \<sigma> = - c2v \<sigma>),
        rw_if [padd (pmax px (padd py pc1)) pc2] (pmax (padd px pc2) py) (\<lambda>an \<sigma>. c1v \<sigma> = - c2v \<sigma>),
        rw_if [padd (pmax (padd px pc1) py) pc2] (pmax px (padd py pc2)) (\<lambda>an \<sigma>. c1v \<sigma> = - c2v \<sigma>),
        rw [padd (padd px pc1) pc2] (padd px (padd pc1 pc2)),
        rw [padd px px] (pmul px (plit px 2)),
        rw [padd (pmul px py) px, padd (pmul py px) px, padd px (pmul py px), padd px (pmul px py)]
           (pmul (padd py (plit py 1)) px),
        rw [padd (pmul px py) (pmul px pz), padd (pmul py px) (pmul px pz),
            padd (pmul px py) (pmul pz px), padd (pmul py px) (pmul pz px)]
           (pmul (padd py pz) px),
        rw [padd (pmul (ptruncdiv px pc1) pc1) (ptruncmod px pc1)] px,
        rw [padd (pmul (pfloordiv px py) py) (pfloormod px py),
            padd (pmul py (pfloordiv px py)) (pfloormod px py),
            padd (pfloormod px py) (pmul (pfloordiv px py) py),
            padd (pfloormod px py) (pmul py (pfloordiv px py))]
           px,
        rw_if [padd (pfloordiv (padd (pfloormod px pc2) pc1) pc2) (pfloordiv px pc2)]
          (pfloordiv (padd px pc1) pc2) (\<lambda>an \<sigma>. c2v \<sigma> > 0),
        rrw [padd (pfloordiv px (plit px 2)) (pfloormod px (plit px 2))]
          (pfloordiv (padd px (plit px 1)) (plit (padd px (plit px 1)) 2)),
        rw_if [padd (pfloormod (padd px pc1) (plit (padd px pc1) 2)) (pfloormod px (plit px 2))]
          (plit px 1) (\<lambda>an \<sigma>. c1v \<sigma> mod 2 = 1),
        rw_if [padd (pfloormod px (plit px 2)) (pfloormod (padd px pc1) (plit (padd px pc1) 2))]
          (plit px 1) (\<lambda>an \<sigma>. c1v \<sigma> mod 2 = 1),
        rrw [padd px (psub pc1 py), padd (psub pc1 py) px] (padd (psub px py) pc1),
        rrw [padd (padd px pc1) py, padd px (padd pc1 py), padd px (padd py pc1)]
          (padd (padd px py) pc1),
        rrw [padd px (pmax py pz)] (padd (pmax py pz) px),
        rrw [padd px (pmin py pz)] (padd (pmin py pz) px),
        rrw [padd (ptruncmod py pc1) (pmul px pc1)] (padd (pmul px pc1) (ptruncmod py pc1)),
        rrw [padd (pfloormod py pc1) (pmul px pc1)] (padd (pmul px pc1) (pfloormod py pc1))]
     @ [rw [padd (pselect px pb1 pb2) (pselect px ps1 ps2)]
           (pselect px (padd pb1 ps1) (padd pb2 ps2))]"

text \<open>The rules of the visitor of \<^verbatim>\<open>MulNode\<close> (lines 737-761).\<close>

definition Mul_rules :: "dtype \<Rightarrow> attempt list" where
  "Mul_rules t =
     gated (is_scalable_or_fixed_length_vector t)
       [rw [pmul (pbroadcast px planes) (pbroadcast py planes)] (pbroadcast (pmul px py) planes),
        rw [pmul (pramp pb1 ps1 planes) (pbroadcast px planes),
            pmul (pbroadcast px planes) (pramp pb1 ps1 planes)]
           (pramp (pmul pb1 px) (pmul ps1 px) planes),
        rw_if [pmul (pbroadcast pcf planes) px] (pbroadcast pcf planes) (\<lambda>an \<sigma>. double_eq (cfv \<sigma>) 0)]
     @ gated (IsIndexType t)
       [rw [pmul (padd px pc1) pc2] (padd (pmul px pc2) (pmul pc1 pc2)),
        rw [pmul (pmul px pc1) pc2] (pmul px (pmul pc1 pc2)),
        rw [pmul (pmin px py) (pmax px py), pmul (pmax px py) (pmin px py)] (pmul px py),
        rw_if [pmul (pfloordiv (psub px (pfloormod px pc2)) pc1) pc1] (psub px (pfloormod px pc2))
          (\<lambda>an \<sigma>. c1v \<sigma> = - c2v \<sigma>),
        rrw [pmul px (pmul pc1 py)] (pmul (pmul px py) pc1),
        rrw [pmul pc1 px] (pmul px pc1),
        rrw_if [pmul (psub px py) pc1] (pmul (psub py px) (psub (plit pc1 0) pc1))
          (\<lambda>an \<sigma>. c1v \<sigma> < 0)]"

text \<open>
  The rules of the visitor of \<^verbatim>\<open>FloorModNode\<close> (lines 1171-1273).  \<open>lanes_int\<close> is
  \<^verbatim>\<open>lanes.Eval().as<IntImmNode>()->value\<close>.
\<close>

definition lanes_int :: "bindings \<Rightarrow> int" where
  "lanes_int \<sigma> = int_value \<sigma> 7"

definition FloorMod_ramp_broadcast :: attempt where
  "FloorMod_ramp_broadcast =
     on_match [pfloormod (pramp pb1 pc1 planes) (pbroadcast pc2 planes)] (\<lambda>an \<sigma>.
       let c1val = c1v \<sigma>; c2val = c2v \<sigma>
       in if c2val = 0 then Some (Abort CheckFailed)
          else if truncmod c1val c2val = 0
          then Some (Return (Eval an \<sigma> (pbroadcast (pfloormod pb1 pc2) planes)))
          else
            (case modular_set an (Eval an \<sigma> pb1) of (coeff, base) \<Rightarrow>
               let folded = pfloormod (pramp (pfloormod (plit pc2 base) pc2) pc1 planes)
                                      (pbroadcast pc2 planes)
               in (case ExtractVscaleFactor an (Eval an \<sigma> planes) of
                     None \<Rightarrow>
                       let ramp_min = base div c2val;
                           ramp_max = (base + (lanes_int \<sigma> - 1) * c1val) div c2val
                       in if ramp_min = ramp_max \<and> truncmod coeff c2val = 0
                          then Some (Return (Eval an \<sigma> (pramp (pfloormod (plit pc2 base) pc2) pc1 planes)))
                          else if ramp_min = ramp_max \<and> truncmod c2val coeff = 0
                                  \<and> base + (lanes_int \<sigma> - 1) * c1val < coeff
                          then Some (Return (Eval an \<sigma> (pramp (pfloormod pb1 pc2) pc1 planes)))
                          else if truncmod coeff c2val = 0 then Some (Return (Eval an \<sigma> folded))
                          else None
                   | Some factor \<Rightarrow>
                       if truncmod coeff c2val = 0 then Some (Return (Eval an \<sigma> folded)) else None)))"

definition FloorMod_modular :: attempt where
  "FloorMod_modular =
     on_match [pfloormod px pc1] (\<lambda>an \<sigma>.
       let c1val = c1v \<sigma>
       in if c1val > 0
          then (case modular_set an (Eval an \<sigma> px) of (coeff, base) \<Rightarrow>
                  if truncmod coeff c1val = 0
                  then Some (Return (Eval an \<sigma> (pfloormod (plit pc1 base) pc1)))
                  else (case const_int_bound an (Eval an \<sigma> px) of (min_value, max_value) \<Rightarrow>
                          if min_value \<ge> 0 \<and> max_value < c1val
                          then Some (Return (Eval an \<sigma> px))
                          else None))
          else None)"

definition FloorMod_rules :: "dtype \<Rightarrow> attempt list" where
  "FloorMod_rules t =
     gated (is_scalable_or_fixed_length_vector t)
       [rw [pfloormod (pbroadcast px planes) (pbroadcast py planes)]
           (pbroadcast (pfloormod px py) planes),
        FloorMod_ramp_broadcast]
     @ gated (IsIndexType t)
       [rw_if [pfloormod (pmul px pc1) pc2] (pfloormod (pmul px (pfloormod pc1 pc2)) pc2)
          (\<lambda>an \<sigma>. c2v \<sigma> \<noteq> 0),
        rw_if [pfloormod (padd (pmul px pc1) py) pc2]
          (padd (pmul (pfloormod px (pfloordiv pc2 pc1)) pc1) py)
          (\<lambda>an \<sigma>. c1v \<sigma> > 0 \<and> c2v \<sigma> > 0 \<and> truncmod (c2v \<sigma>) (c1v \<sigma>) = 0
                   \<and> CanProveEqual an (Eval an \<sigma> (pfloordiv py pc1)) 0),
        rw_if [pfloormod (padd (pmul px pc1) py) pc2]
          (pfloormod (padd (pmul px (pfloormod pc1 pc2)) py) pc2)
          (\<lambda>an \<sigma>. c2v \<sigma> > 0),
        rw_if [pfloormod (padd px pc1) pc2] (pfloormod (padd px (pfloormod pc1 pc2)) pc2)
          (\<lambda>an \<sigma>. c2v \<sigma> > 0 \<and> (c1v \<sigma> \<ge> c2v \<sigma> \<or> c1v \<sigma> < 0)),
        rw_if [pfloormod (padd px (pmul py pc1)) pc2]
          (pfloormod (padd px (pmul py (pfloormod pc1 pc2))) pc2)
          (\<lambda>an \<sigma>. c2v \<sigma> > 0),
        rw_if [pfloormod (pmul px pc1) (pmul px pc2)] (pmul px (pfloormod pc1 pc2))
          (\<lambda>an \<sigma>. c2v \<sigma> \<noteq> 0),
        rw [pfloormod (pmul px py) py, pfloormod (pmul py px) py] (plit py 0),
        rw_if [pfloormod (padd px (pfloormod pz py)) py, pfloormod (padd (pfloormod pz py) px) py]
          (plit px 0)
          (\<lambda>an \<sigma>. CanProveEqual an
                     (op_expr an OpFloorMod (op_expr an OpAdd (Eval an \<sigma> px) (Eval an \<sigma> pz))
                        (Eval an \<sigma> py)) 0),
        rw_if [pfloormod (psub px (pfloormod px pz)) py, pfloormod (psub (pfloormod px pz) px) py]
          (plit px 0)
          (\<lambda>an \<sigma>. CanProveEqual an (op_expr an OpSub (Eval an \<sigma> py) (Eval an \<sigma> pz)) 0
                   \<or> CanProveEqual an (op_expr an OpAdd (Eval an \<sigma> py) (Eval an \<sigma> pz)) 0),
        rw_if [pfloormod (padd (pmul (pmul px pz) pc1) py) (pmul pz pc1)]
          (pfloormod py (pmul pz pc1))
          (\<lambda>an \<sigma>. CanProveGreaterEqual an (op_expr an OpMul (Eval an \<sigma> pz) (Eval an \<sigma> pc1)) 0),
        rw_if [pfloormod px py] px
          (\<lambda>an \<sigma>. ContainsVscaleCall an (Eval an \<sigma> py)
                   \<and> CanProveGreaterEqual an (Eval an \<sigma> px) 0
                   \<and> CanProveGreaterEqual an (Eval an \<sigma> py) 0
                   \<and> CanProve an (op_expr an OpLT (Eval an \<sigma> px) (Eval an \<sigma> py))),
        FloorMod_modular]"

text \<open>
  The rules of the visitor of \<^verbatim>\<open>SubNode\<close> (lines 547-722).  The cancellation rules
  for the types that are not index types are the \<^verbatim>\<open>else\<close> branch of the gate.
\<close>

definition c3_is_c1_times_c2 :: "analyzer \<Rightarrow> bindings \<Rightarrow> bool" where
  "c3_is_c1_times_c2 an \<sigma> \<longleftrightarrow> c1v \<sigma> \<noteq> 0 \<and> c3v \<sigma> = c1v \<sigma> * c2v \<sigma>"

definition Sub_rules :: "dtype \<Rightarrow> attempt list" where
  "Sub_rules t =
     gated (is_scalable_or_fixed_length_vector t)
       [rw [psub (pramp pb1 ps1 planes) (pramp pb2 ps2 planes)]
           (pramp (psub pb1 pb2) (psub ps1 ps2) planes),
        rw [psub (pramp pb1 ps1 planes) (pbroadcast px planes)] (pramp (psub pb1 px) ps1 planes),
        rw [psub (pbroadcast px planes) (pramp pb1 ps1 planes)]
           (pramp (psub px pb1) (psub (plit ps1 0) ps1) planes),
        rw [psub (pbroadcast px planes) (pbroadcast py planes)] (pbroadcast (psub px py) planes)]
     @ gated (IsIndexType t)
       [rw [psub (padd px py) py, psub (padd py px) py] px,
        rw [psub px (padd py px), psub px (padd px py)] (psub (plit py 0) py),
        rw [psub (pmin px py) py, psub px (pmax py px)] (pmin (psub px py) (plit (psub px py) 0)),
        rw [psub px (pmax px py), psub (pmin py px) py] (pmin (plit (psub px py) 0) (psub px py)),
        rw [psub (pmax px py) py, psub px (pmin py px)] (pmax (psub px py) (plit (psub px py) 0)),
        rw [psub px (pmin px py), psub (pmax py px) py] (pmax (plit (psub px py) 0) (psub px py)),
        rw [psub px px] (plit px 0),
        rw [psub (pmul px py) px, psub (pmul py px) px] (pmul (psub py (plit py 1)) px),
        rw [psub px (pmul py px), psub px (pmul px py)] (pmul (psub (plit py 1) py) px),
        rw [psub (pmul px py) (pmul px pz), psub (pmul py px) (pmul px pz),
            psub (pmul px py) (pmul pz px), psub (pmul py px) (pmul pz px)]
           (pmul (psub py pz) px),
        rw [psub (padd px pc1) pc2] (padd px (psub pc1 pc2)),
        rw [psub (psub pc1 px) (psub pc2 py)] (padd (psub py px) (psub pc1 pc2)),
        rw [psub (padd px py) (padd px pz), psub (padd px py) (padd pz px),
            psub (padd py px) (padd pz px), psub (padd py px) (padd px pz)]
           (psub py pz),
        rw [psub (pmin (padd px py) pz) px, psub (pmin (padd py px) pz) px] (pmin py (psub pz px)),
        rw [psub (pmin pz (padd px py)) px, psub (pmin pz (padd py px)) px] (pmin (psub pz px) py),
        rw [psub (pmax (padd px py) pz) px, psub (pmax (padd py px) pz) px] (pmax py (psub pz px)),
        rw [psub (pmax pz (padd px py)) px, psub (pmax pz (padd py px)) px] (pmax (psub pz px) py),
        rw [psub px (pmin (padd px py) pz), psub px (pmin (padd py px) pz)]
           (pmax (psub (plit py 0) py) (psub px pz)),
        rw [psub px (pmin pz (padd px py)), psub px (pmin pz (padd py px))]
           (pmax (psub px pz) (psub (plit py 0) py)),
        rw [psub px (pmax (padd px py) pz), psub px (pmax (padd py px) pz)]
           (pmin (psub (plit py 0) py) (psub px pz)),
        rw [psub px (pmax pz (padd px py)), psub px (pmax pz (padd py px))]
           (pmin (psub px pz) (psub (plit py 0) py)),
        rw [psub (pmin px py) (pmin py px)] (plit px 0),
        rw [psub (pmax px py) (pmax py px)] (plit px 0),
        rw_if [psub (pmin pb1 pb2) (pmin ps1 ps2), psub (pmin pb1 pb2) (pmin ps2 ps1)] (psub pb1 ps1)
          (\<lambda>an \<sigma>. CanProveEqual an (Eval an \<sigma> (psub (psub pb1 ps1) (psub pb2 ps2))) 0),
        rw_if [psub (pmax pb1 pb2) (pmax ps1 ps2), psub (pmax pb1 pb2) (pmax ps2 ps1)] (psub pb1 ps1)
          (\<lambda>an \<sigma>. CanProveEqual an (Eval an \<sigma> (psub (psub pb1 ps1) (psub pb2 ps2))) 0),
        rw_if [psub px (pmul (ptruncdiv px pc1) pc1)] (ptruncmod px pc1) (\<lambda>an \<sigma>. c1v \<sigma> \<noteq> 0),
        rw_if [psub (pmul (ptruncdiv px pc1) pc1) px] (psub (plit (ptruncmod px pc1) 0) (ptruncmod px pc1))
          (\<lambda>an \<sigma>. c1v \<sigma> \<noteq> 0),
        rw_if [psub px (pmul (ptruncdiv (padd px py) pc1) pc1)] (psub (ptruncmod (padd px py) pc1) py)
          (\<lambda>an \<sigma>. c1v \<sigma> \<noteq> 0),
        rw_if [psub (pmul (ptruncdiv (padd px py) pc1) pc1) px] (psub py (ptruncmod (padd px py) pc1))
          (\<lambda>an \<sigma>. c1v \<sigma> \<noteq> 0),
        rw_if [psub px (pmul (ptruncdiv (psub px py) pc1) pc1)] (padd (ptruncmod (psub px py) pc1) py)
          (\<lambda>an \<sigma>. c1v \<sigma> \<noteq> 0),
        rw_if [psub (pmul (ptruncdiv (psub px py) pc1) pc1) px]
          (psub (psub (plit (ptruncmod (psub px py) pc1) 0) (ptruncmod (psub px py) pc1)) py)
          (\<lambda>an \<sigma>. c1v \<sigma> \<noteq> 0),
        rw_if [psub (pmul px pc2) (pmul (ptruncdiv px pc1) pc3)] (pmul (ptruncmod px pc1) pc2)
          c3_is_c1_times_c2,
        rw_if [psub (pmul (ptruncdiv px pc1) pc3) (pmul px pc2)]
          (psub (plit (pmul (ptruncmod px pc1) pc2) 0) (pmul (ptruncmod px pc1) pc2))
          c3_is_c1_times_c2,
        rw_if [psub (pmul px pc2) (pmul (ptruncdiv (padd px py) pc1) pc3)]
          (pmul (psub (ptruncmod (padd px py) pc1) py) pc2)
          c3_is_c1_times_c2,
        rw_if [psub (pmul (ptruncdiv (padd px py) pc1) pc3) (pmul px pc2)]
          (pmul (psub py (ptruncmod (padd px py) pc1)) pc2)
          c3_is_c1_times_c2,
        rw_if [psub (pmul px pc2) (pmul (ptruncdiv (psub px py) pc1) pc3)]
          (pmul (padd (ptruncmod (psub px py) pc1) py) pc2)
          c3_is_c1_times_c2,
        rw_if [psub (pmul (ptruncdiv (psub px py) pc1) pc3) (pmul px pc2)]
          (pmul (psub (psub (plit (ptruncmod (psub px py) pc1) 0) (ptruncmod (psub px py) pc1)) py) pc2)
          c3_is_c1_times_c2,
        rw_if [psub (ptruncdiv (padd px pc1) pc3) (ptruncdiv (padd px pc2) pc3)]
          (ptruncdiv (padd (ptruncmod (padd px (pfloormod pc2 pc3)) pc3) (psub pc1 pc2)) pc3)
          (\<lambda>an \<sigma>. CanProveGreaterEqual an (Eval an \<sigma> px) (- c2v \<sigma>)
                   \<and> c1v \<sigma> \<ge> c2v \<sigma> \<and> c3v \<sigma> > 0),
        rw_if [psub (ptruncdiv (padd px pc1) pc3) (ptruncdiv px pc3)]
          (ptruncdiv (padd (ptruncmod px pc3) pc1) pc3)
          (\<lambda>an \<sigma>. CanProveGreaterEqual an (Eval an \<sigma> px) 0 \<and> c1v \<sigma> \<ge> 0 \<and> c3v \<sigma> > 0),
        rw_if [psub px (pmul (pfloordiv px pc1) pc1)] (pfloormod px pc1) (\<lambda>an \<sigma>. c1v \<sigma> \<noteq> 0),
        rw_if [psub (pmul (pfloordiv px pc1) pc1) px] (psub (plit (pfloormod px pc1) 0) (pfloormod px pc1))
          (\<lambda>an \<sigma>. c1v \<sigma> \<noteq> 0),
        rw_if [psub px (pmul (pfloordiv (padd px py) pc1) pc1)] (psub (pfloormod (padd px py) pc1) py)
          (\<lambda>an \<sigma>. c1v \<sigma> \<noteq> 0),
        rw_if [psub (pmul (pfloordiv (padd px py) pc1) pc1) px] (psub py (pfloormod (padd px py) pc1))
          (\<lambda>an \<sigma>. c1v \<sigma> \<noteq> 0),
        rw_if [psub px (pmul (pfloordiv (psub px py) pc1) pc1)] (padd (pfloormod (psub px py) pc1) py)
          (\<lambda>an \<sigma>. c1v \<sigma> \<noteq> 0),
        rw_if [psub (pmul (pfloordiv (psub px py) pc1) pc1) px]
          (psub (psub (plit (pfloormod (psub px py) pc1) 0) (pfloormod (psub px py) pc1)) py)
          (\<lambda>an \<sigma>. c1v \<sigma> \<noteq> 0),
        rrw [psub (pfloordiv (padd px pc1) (plit (padd px pc1) 2))
                  (pfloordiv (padd px pc2) (plit (padd px pc2) 2))]
          (padd (pmul (pfloormod px (plit px 2))
                      (psub (pfloormod pc1 (plit pc1 2)) (pfloormod pc2 (plit pc2 2))))
                (psub (pfloordiv pc1 (plit pc1 2)) (pfloordiv pc2 (plit pc2 2)))),
        rrw [psub (pfloordiv px (plit px 2)) (pfloordiv (padd px pc2) (plit (padd px pc2) 2))]
          (psub (pmul (pfloormod px (plit px 2))
                      (psub (plit (pfloormod pc2 (plit pc2 2)) 0) (pfloormod pc2 (plit pc2 2))))
                (pfloordiv pc2 (plit pc2 2))),
        rrw [psub (pfloordiv (padd px pc1) (plit (padd px pc1) 2)) (pfloordiv px (plit px 2))]
          (padd (pmul (pfloormod px (plit px 2)) (pfloormod pc1 (plit pc1 2)))
                (pfloordiv pc1 (plit pc1 2))),
        rw_if [psub (pmul px pc2) (pmul (pfloordiv px pc1) pc3)] (pmul (pfloormod px pc1) pc2)
          c3_is_c1_times_c2,
        rw_if [psub (pmul (pfloordiv px pc1) pc3) (pmul px pc2)]
          (psub (plit (pmul (pfloormod px pc1) pc2) 0) (pmul (pfloormod px pc1) pc2))
          c3_is_c1_times_c2,
        rw_if [psub (pmul px pc2) (pmul (pfloordiv (padd px py) pc1) pc3)]
          (pmul (psub (pfloormod (padd px py) pc1) py) pc2)
          c3_is_c1_times_c2,
        rw_if [psub (pmul (pfloordiv (padd px py) pc1) pc3) (pmul px pc2)]
          (pmul (psub py (pfloormod (padd px py) pc1)) pc2)
          c3_is_c1_times_c2,
        rw_if [psub (pmul px pc2) (pmul (pfloordiv (psub px py) pc1) pc3)]
          (pmul (padd (pfloormod (psub px py) pc1) py) pc2)
          c3_is_c1_times_c2,
        rw_if [psub (pmul (pfloordiv (psub px py) pc1) pc3) (pmul px pc2)]
          (pmul (psub (psub (plit (pfloormod (psub px py) pc1) 0) (pfloormod (psub px py) pc1)) py) pc2)
          c3_is_c1_times_c2,
        rrw [psub (pfloordiv (padd px (plit px 1)) (plit (padd px (plit px 1)) 2))
                  (pfloormod px (plit px 2))]
          (pfloordiv px (plit px 2)),
        rw_if [psub (pfloordiv (padd px pc1) pc3) (pfloordiv (padd px pc2) pc3)]
          (pfloordiv (padd (pfloormod (padd px (pfloormod pc2 pc3)) pc3) (psub pc1 pc2)) pc3)
          (\<lambda>an \<sigma>. c3v \<sigma> > 0),
        rw_if [psub (pfloordiv (padd px pc1) pc3) (pfloordiv px pc3)]
          (pfloordiv (padd (pfloormod px pc3) pc1) pc3)
          (\<lambda>an \<sigma>. c3v \<sigma> > 0),
        rw [psub px pc1] (padd px (psub (plit pc1 0) pc1)),
        rrw [psub (padd px pc1) py] (padd (psub px py) pc1),
        rrw [psub px (padd py pc1)] (padd (psub px py) (psub (plit pc1 0) pc1)),
        rrw [psub px (psub py pz)] (psub (padd px pz) py),
        rrw [psub px (pmul py pc1)] (padd px (pmul py (psub (plit pc1 0) pc1)))]
     @ gated (\<not> IsIndexType t)
       [rw_if [psub px px] (plit px 0) (\<lambda>an \<sigma>. side_effect_le an (Eval an \<sigma> px) kReadState),
        rw_if [psub (padd px py) py] px (\<lambda>an \<sigma>. side_effect_le an (Eval an \<sigma> py) kReadState),
        rw_if [psub (padd px py) px] py (\<lambda>an \<sigma>. side_effect_le an (Eval an \<sigma> px) kReadState),
        rw_if [psub px (padd py px)] (psub (plit py 0) py)
          (\<lambda>an \<sigma>. side_effect_le an (Eval an \<sigma> px) kReadState),
        rw_if [psub px (padd px py)] (psub (plit py 0) py)
          (\<lambda>an \<sigma>. side_effect_le an (Eval an \<sigma> px) kReadState)]
     @ [rw [psub (pselect px pb1 pb2) (pselect px ps1 ps2)]
           (pselect px (psub pb1 ps1) (psub pb2 ps2)),
        rw [psub (pselect px py pz) pz] (pselect px (psub py pz) (plit pz 0)),
        rw [psub (pselect px py pz) py] (pselect px (plit py 0) (psub pz py))]"

text \<open>
  The rules of the visitor of \<^verbatim>\<open>DivNode\<close> (lines 775-921).  C++ integer division by
  zero, which the source does not guard at line 819, ends the call with
  \<open>DivideByZero\<close>.  The type tests of the check at line 777 are declared outside this
  source file; a custom type is one whose code is in the registry.  At line 779 the
  reciprocal \<^verbatim>\<open>1.0 / ptr->value\<close> is a division of doubles, and \<^verbatim>\<open>make_const\<close> of
  the type of a float literal and a double is the float literal of that type and
  value; the product is built by the operator \<^verbatim>\<open>*\<close>.
\<close>

definition float_div_type_ok :: "analyzer \<Rightarrow> dtype \<Rightarrow> bool" where
  "float_div_type_ok an t \<longleftrightarrow>
     code t = kFloat \<or> (code t = kBFloat \<and> bits t = 16)
     \<or> (case code t of kCustom n \<Rightarrow> custom_type_registered an n | _ \<Rightarrow> False)"

definition Div_float_divisor :: "dtype \<Rightarrow> attempt" where
  "Div_float_divisor t an ret =
     (case ret of
        Div a (FloatImm tb v) \<Rightarrow>
          if float_div_type_ok an t
          then Some (Return (op_expr an OpMul a (FloatImm tb (double_reciprocal v))))
          else Some (Abort CheckFailed)
      | _ \<Rightarrow> None)"

definition Div_ramp_broadcast :: attempt where
  "Div_ramp_broadcast =
     on_match [ptruncdiv (pramp pb1 pc1 planes) (pbroadcast pc2 planes)] (\<lambda>an \<sigma>.
       let c1val = c1v \<sigma>; c2val = c2v \<sigma>
       in if c2val = 0 then Some (Abort CheckFailed)
          else if truncmod c1val c2val = 0
          then Some (Return (Eval an \<sigma> (pramp (ptruncdiv pb1 pc2) (ptruncdiv pc1 pc2) planes)))
          else if CanProveGreaterEqual an (Eval an \<sigma> pb1) 0
                  \<and> ExtractVscaleFactor an (Eval an \<sigma> planes) = None
          then (case modular_set an (Eval an \<sigma> pb1) of (coeff, base) \<Rightarrow>
                  let ramp_min = truncdiv base c2val;
                      ramp_max = truncdiv (base + (lanes_int \<sigma> - 1) * c1val) c2val
                  in if truncmod coeff c2val = 0 \<and> ramp_min = ramp_max
                     then Some (Return (Eval an \<sigma> (pbroadcast (ptruncdiv pb1 pc2) planes)))
                     else None)
          else None)"

definition Div_refold :: "dtype \<Rightarrow> attempt" where
  "Div_refold t =
     on_match [ptruncdiv pc1 pc2] (\<lambda>an \<sigma>.
       let c1val = c1v \<sigma>; c2val = c2v \<sigma>
       in if c2val = 0 then Some (Abort DivideByZero)
          else Some (Return (make_const t (truncdiv c1val c2val))))"

definition Div_mul_const :: attempt where
  "Div_mul_const =
     on_match [ptruncdiv (pmul px pc1) pc2] (\<lambda>an \<sigma>.
       let c1val = c1v \<sigma>; c2val = c2v \<sigma>
       in if c1val > 0 \<and> c2val > 0
          then (if truncmod c1val c2val = 0 then Some (Return (Eval an \<sigma> (pmul px (ptruncdiv pc1 pc2))))
                else if truncmod c2val c1val = 0
                then Some (Return (Eval an \<sigma> (ptruncdiv px (ptruncdiv pc2 pc1))))
                else None)
          else None)"

definition nonneg :: "analyzer \<Rightarrow> bindings \<Rightarrow> pat \<Rightarrow> bool" where
  "nonneg an \<sigma> p \<longleftrightarrow> CanProveGreaterEqual an (Eval an \<sigma> p) 0"

definition c1_divisible_by_c2 :: "bindings \<Rightarrow> bool" where
  "c1_divisible_by_c2 \<sigma> \<longleftrightarrow> truncmod (c1v \<sigma>) (c2v \<sigma>) = 0"

definition Div_rules :: "dtype \<Rightarrow> attempt list" where
  "Div_rules t =
     [Div_float_divisor t]
     @ gated (is_scalable_or_fixed_length_vector t)
       [rw [ptruncdiv (pbroadcast px planes) (pbroadcast py planes)]
           (pbroadcast (ptruncdiv px py) planes),
        Div_ramp_broadcast]
     @ gated (IsIndexType t)
       [Div_refold t,
        rw_if [ptruncdiv (ptruncdiv px pc1) pc2] (ptruncdiv px (pmul pc1 pc2))
          (\<lambda>an \<sigma>. c1v \<sigma> > 0 \<and> c2v \<sigma> > 0),
        rw_if [ptruncdiv (padd (ptruncdiv px pc1) pc2) pc3]
          (ptruncdiv (padd px (pmul pc1 pc2)) (pmul pc1 pc3))
          (\<lambda>an \<sigma>. c1v \<sigma> > 0 \<and> c2v \<sigma> \<ge> 0 \<and> c3v \<sigma> > 0 \<and> nonneg an \<sigma> px),
        Div_mul_const,
        rw [ptruncdiv px px] (plit px 1),
        rw [ptruncdiv (pmul px pc1) px, ptruncdiv (pmul pc1 px) px] pc1,
        rw_if [ptruncdiv (padd (pmul px pc1) py) pc2]
          (padd (pmul px (ptruncdiv pc1 pc2)) (ptruncdiv py pc2))
          (\<lambda>an \<sigma>. c1v \<sigma> \<ge> 0 \<and> c2v \<sigma> > 0 \<and> c1_divisible_by_c2 \<sigma>
                   \<and> nonneg an \<sigma> px \<and> nonneg an \<sigma> py),
        rw_if [ptruncdiv (pmin (pmul px pc1) py) pc2]
          (pmin (pmul px (ptruncdiv pc1 pc2)) (ptruncdiv py pc2))
          (\<lambda>an \<sigma>. c1v \<sigma> \<ge> 0 \<and> c2v \<sigma> > 0 \<and> c1_divisible_by_c2 \<sigma>
                   \<and> nonneg an \<sigma> px \<and> nonneg an \<sigma> py),
        rw_if [ptruncdiv (pmax (pmul px pc1) py) pc2]
          (pmax (pmul px (ptruncdiv pc1 pc2)) (ptruncdiv py pc2))
          (\<lambda>an \<sigma>. c1v \<sigma> \<ge> 0 \<and> c2v \<sigma> > 0 \<and> c1_divisible_by_c2 \<sigma>
                   \<and> nonneg an \<sigma> px \<and> nonneg an \<sigma> py),
        rw_if [ptruncdiv (padd py (pmul px pc1)) pc2]
          (padd (ptruncdiv py pc2) (pmul px (ptruncdiv pc1 pc2)))
          (\<lambda>an \<sigma>. c1v \<sigma> \<ge> 0 \<and> c2v \<sigma> > 0 \<and> c1_divisible_by_c2 \<sigma>
                   \<and> nonneg an \<sigma> px \<and> nonneg an \<sigma> py),
        rw_if [ptruncdiv (pmin py (pmul px pc1)) pc2]
          (pmin (ptruncdiv py pc2) (pmul px (ptruncdiv pc1 pc2)))
          (\<lambda>an \<sigma>. c1v \<sigma> \<ge> 0 \<and> c2v \<sigma> > 0 \<and> c1_divisible_by_c2 \<sigma>
                   \<and> nonneg an \<sigma> px \<and> nonneg an \<sigma> py),
        rw_if [ptruncdiv (pmax py (pmul px pc1)) pc2]
          (pmax (ptruncdiv py pc2) (pmul px (ptruncdiv pc1 pc2)))
          (\<lambda>an \<sigma>. c1v \<sigma> \<ge> 0 \<and> c2v \<sigma> > 0 \<and> c1_divisible_by_c2 \<sigma>
                   \<and> nonneg an \<sigma> px \<and> nonneg an \<sigma> py),
        rw_if [ptruncdiv (padd (padd (pmul px pc1) py) pz) pc2]
          (padd (pmul px (ptruncdiv pc1 pc2)) (ptruncdiv (padd py pz) pc2))
          (\<lambda>an \<sigma>. c1v \<sigma> \<ge> 0 \<and> c2v \<sigma> > 0 \<and> c1_divisible_by_c2 \<sigma>
                   \<and> nonneg an \<sigma> px \<and> nonneg an \<sigma> (padd py pz)),
        rw_if [ptruncdiv (padd (psub (pmul px pc1) py) pz) pc2]
          (padd (pmul px (ptruncdiv pc1 pc2)) (ptruncdiv (psub pz py) pc2))
          (\<lambda>an \<sigma>. c1v \<sigma> \<ge> 0 \<and> c2v \<sigma> > 0 \<and> c1_divisible_by_c2 \<sigma>
                   \<and> nonneg an \<sigma> px \<and> nonneg an \<sigma> (psub pz py)),
        rw_if [ptruncdiv (psub (padd (pmul px pc1) py) pz) pc2]
          (padd (pmul px (ptruncdiv pc1 pc2)) (ptruncdiv (psub py pz) pc2))
          (\<lambda>an \<sigma>. c1v \<sigma> \<ge> 0 \<and> c2v \<sigma> > 0 \<and> c1_divisible_by_c2 \<sigma>
                   \<and> nonneg an \<sigma> px \<and> nonneg an \<sigma> (psub py pz)),
        rw_if [ptruncdiv (padd (padd py (pmul px pc1)) pz) pc2]
          (padd (pmul px (ptruncdiv pc1 pc2)) (ptruncdiv (padd py pz) pc2))
          (\<lambda>an \<sigma>. c1v \<sigma> > 0 \<and> c2v \<sigma> > 0 \<and> c1_divisible_by_c2 \<sigma>
                   \<and> nonneg an \<sigma> px \<and> nonneg an \<sigma> (padd py pz)),
        rw_if [ptruncdiv (padd px pc1) pc2] (padd (ptruncdiv px pc2) (ptruncdiv pc1 pc2))
          (\<lambda>an \<sigma>. c1v \<sigma> > 0 \<and> c2v \<sigma> > 0 \<and> c1_divisible_by_c2 \<sigma> \<and> nonneg an \<sigma> px),
        rw_if [ptruncdiv (padd px py) px, ptruncdiv (padd py px) px]
          (padd (ptruncdiv py px) (plit (ptruncdiv py px) 1))
          (\<lambda>an \<sigma>. nonneg an \<sigma> px \<and> nonneg an \<sigma> py),
        rw_if [ptruncdiv (padd (padd px py) pz) px, ptruncdiv (padd (padd py px) pz) px,
               ptruncdiv (padd py (padd pz px)) px, ptruncdiv (padd py (padd px pz)) px]
          (padd (ptruncdiv (padd py pz) px) (plit (ptruncdiv (padd py pz) px) 1))
          (\<lambda>an \<sigma>. nonneg an \<sigma> px \<and> nonneg an \<sigma> (padd py pz)),
        rw_if [ptruncdiv (pmul px py) py, ptruncdiv (pmul py px) py] px
          (\<lambda>an \<sigma>. nonneg an \<sigma> px \<and> nonneg an \<sigma> py),
        rw_if [ptruncdiv (padd (pmul px pz) py) pz, ptruncdiv (padd (pmul pz px) py) pz]
          (padd px (ptruncdiv py pz))
          (\<lambda>an \<sigma>. nonneg an \<sigma> px \<and> nonneg an \<sigma> py \<and> nonneg an \<sigma> pz),
        rw_if [ptruncdiv (padd py (pmul px pz)) pz, ptruncdiv (padd py (pmul pz px)) pz]
          (padd (ptruncdiv py pz) px)
          (\<lambda>an \<sigma>. nonneg an \<sigma> px \<and> nonneg an \<sigma> py \<and> nonneg an \<sigma> pz)]"

text \<open>
  The rules of the visitor of \<^verbatim>\<open>ModNode\<close> (lines 936-1011).  In the last attempt the
  source evaluates \<^verbatim>\<open>mod->coeff % c1val\<close> before it tests \<^verbatim>\<open>c1val > 0\<close>.
\<close>

definition Mod_ramp_broadcast :: attempt where
  "Mod_ramp_broadcast =
     on_match [ptruncmod (pramp pb1 pc1 planes) (pbroadcast pc2 planes)] (\<lambda>an \<sigma>.
       let c1val = c1v \<sigma>; c2val = c2v \<sigma>
       in if c2val = 0 then Some (Abort CheckFailed)
          else if truncmod c1val c2val = 0
          then Some (Return (Eval an \<sigma> (pbroadcast (ptruncmod pb1 pc2) planes)))
          else if CanProveGreaterEqual an (Eval an \<sigma> pb1) 0
          then (case modular_set an (Eval an \<sigma> pb1) of (coeff, base) \<Rightarrow>
                  let inner = pramp (ptruncmod (plit pc2 base) pc2) pc1 planes
                  in (case ExtractVscaleFactor an (Eval an \<sigma> planes) of
                        None \<Rightarrow>
                          let ramp_min = truncdiv base c2val;
                              ramp_max = truncdiv (base + (lanes_int \<sigma> - 1) * c1val) c2val
                          in if truncmod coeff c2val = 0
                             then (if ramp_min = ramp_max then Some (Return (Eval an \<sigma> inner))
                                   else Some (Return (Eval an \<sigma>
                                          (ptruncmod inner (pbroadcast pc2 planes)))))
                             else None
                      | Some factor \<Rightarrow>
                          if truncmod coeff c2val = 0
                          then Some (Return (Eval an \<sigma> (ptruncmod inner (pbroadcast pc2 planes))))
                          else None))
          else None)"

definition Mod_negative_divisor :: "dtype \<Rightarrow> attempt" where
  "Mod_negative_divisor t =
     on_match [ptruncmod px pc1] (\<lambda>an \<sigma>.
       if c1v \<sigma> < 0
       then Some (Recursive (Eval an \<sigma> (ptruncmod px (PConst (make_const t (- c1v \<sigma>))))))
       else None)"

definition Mod_modular :: attempt where
  "Mod_modular =
     on_match [ptruncmod px pc1] (\<lambda>an \<sigma>.
       case modular_set an (Eval an \<sigma> px) of (coeff, base) \<Rightarrow>
         let c1val = c1v \<sigma>
         in if c1val = 0 then Some (Abort DivideByZero)
            else if truncmod coeff c1val = 0 \<and> c1val > 0 \<and> nonneg an \<sigma> px
            then Some (Return (Eval an \<sigma> (ptruncmod (plit pc1 base) pc1)))
            else None)"

definition Mod_rules :: "dtype \<Rightarrow> attempt list" where
  "Mod_rules t =
     gated (is_scalable_or_fixed_length_vector t)
       [rw [ptruncmod (pbroadcast px planes) (pbroadcast py planes)]
           (pbroadcast (ptruncmod px py) planes),
        Mod_ramp_broadcast]
     @ gated (IsIndexType t)
       [rw_if [ptruncmod (pmul px pc1) pc2] (plit px 0)
          (\<lambda>an \<sigma>. c2v \<sigma> \<noteq> 0 \<and> c1_divisible_by_c2 \<sigma>),
        rw_if [ptruncmod (padd (pmul px pc1) py) pc2] (ptruncmod py pc2)
          (\<lambda>an \<sigma>. c2v \<sigma> > 0 \<and> c1_divisible_by_c2 \<sigma>
                   \<and> nonneg an \<sigma> (pmul px pc1) \<and> nonneg an \<sigma> py),
        rw_if [ptruncmod (padd px pc1) pc2] (ptruncmod px pc2)
          (\<lambda>an \<sigma>. c2v \<sigma> > 0 \<and> c1v \<sigma> \<ge> 0 \<and> c1_divisible_by_c2 \<sigma> \<and> nonneg an \<sigma> px),
        rw_if [ptruncmod (padd px (pmul py pc1)) pc2] (ptruncmod px pc2)
          (\<lambda>an \<sigma>. c2v \<sigma> > 0 \<and> c1_divisible_by_c2 \<sigma>
                   \<and> nonneg an \<sigma> px \<and> nonneg an \<sigma> (pmul py pc1)),
        Mod_negative_divisor t,
        Mod_modular]"

text \<open>
  The rules of the visitor of \<^verbatim>\<open>FloorDivNode\<close> (lines 1026-1156).  The attempt of
  lines 1065-1092 binds \<open>y\<close> in two of its three patterns; \<^verbatim>\<open>y.EvalOr(Integer(0))\<close>
  is the 32-bit literal zero where it is unbound.
\<close>

definition FloorDiv_ramp_broadcast :: attempt where
  "FloorDiv_ramp_broadcast =
     on_match [pfloordiv (pramp pb1 pc1 planes) (pbroadcast pc2 planes)] (\<lambda>an \<sigma>.
       let c1val = c1v \<sigma>; c2val = c2v \<sigma>
       in if c2val = 0 then Some (Abort CheckFailed)
          else if truncmod c1val c2val = 0
          then Some (Return (Eval an \<sigma> (pramp (pfloordiv pb1 pc2) (pfloordiv pc1 pc2) planes)))
          else if ExtractVscaleFactor an (Eval an \<sigma> planes) = None
          then (case modular_set an (Eval an \<sigma> pb1) of (coeff, base) \<Rightarrow>
                  let ramp_min = base div c2val;
                      ramp_max = (base + (lanes_int \<sigma> - 1) * c1val) div c2val
                  in if ramp_min = ramp_max
                     then (if truncmod coeff c2val = 0
                           then Some (Return (Eval an \<sigma> (pbroadcast (pfloordiv pb1 pc2) planes)))
                           else if truncmod c2val coeff = 0
                                   \<and> base + (lanes_int \<sigma> - 1) * c1val < coeff
                           then Some (Return (Eval an \<sigma> (pbroadcast (pfloordiv pb1 pc2) planes)))
                           else None)
                     else None)
          else None)"

definition op_const :: "analyzer \<Rightarrow> binop \<Rightarrow> expr \<Rightarrow> int \<Rightarrow> expr" where
  "op_const an op a v = op_expr an op a (make_const (dtype_of a) v)"

definition FloorDiv_affine :: attempt where
  "FloorDiv_affine an ret =
     (case matches_one_of [pfloordiv (padd (pmul px pc1) py) pc2, pfloordiv (pmul px pc1) pc2,
                           pfloordiv (padd py (pmul px pc1)) pc2] (\<lambda>\<sigma>. True) ret of
        None \<Rightarrow> None
      | Some \<sigma> \<Rightarrow>
          let c1val = c1v \<sigma>; c2val = c2v \<sigma>;
              yval = (case map_of \<sigma> 1 of Some y \<Rightarrow> y | None \<Rightarrow> IntImm Int32 0);
              x = Eval an \<sigma> px
          in if c2val = 0 then Some (Return ret)
             else
               let residue = op_const an OpFloorDiv
                               (op_expr an OpAdd
                                  (op_expr an OpMul x (op_const an OpFloorMod (Eval an \<sigma> pc1) c2val))
                                  (op_const an OpFloorMod yval c2val))
                               c2val;
                   y_div = (if CanProveEqual an (op_const an OpFloorDiv yval c2val) 0
                            then IntImm Int32 0 else op_const an OpFloorDiv yval c2val)
               in (case const_int_bound an residue of (min_value, max_value) \<Rightarrow>
                     if max_value = min_value
                     then Some (Return
                            (op_expr an OpAdd
                               (op_expr an OpMul x
                                  (op_expr an OpFloorDiv (make_const (dtype_of (Eval an \<sigma> pc2)) c1val)
                                     (Eval an \<sigma> pc2)))
                               (op_expr an OpAdd y_div (IntImm Int32 max_value))))
                     else if c1val > 0 \<and> c2val > 0 \<and> truncmod c2val c1val = 0
                             \<and> CanProveLess an (op_const an OpFloorMod yval c2val) c1val
                     then Some (Return
                            (op_expr an OpAdd (op_const an OpFloorDiv x (c2val div c1val)) y_div))
                     else None))"

definition FloorDiv_rules :: "dtype \<Rightarrow> attempt list" where
  "FloorDiv_rules t =
     gated (is_scalable_or_fixed_length_vector t)
       [rw [pfloordiv (pbroadcast px planes) (pbroadcast py planes)]
           (pbroadcast (pfloordiv px py) planes),
        FloorDiv_ramp_broadcast]
     @ gated (IsIndexType t)
       [rw_if [pfloordiv (pfloordiv px pc1) pc2] (pfloordiv px (pmul pc1 pc2))
          (\<lambda>an \<sigma>. c1v \<sigma> > 0 \<and> c2v \<sigma> > 0),
        rw_if [pfloordiv (padd (pfloordiv px pc1) pc2) pc3]
          (pfloordiv (padd px (pmul pc1 pc2)) (pmul pc1 pc3))
          (\<lambda>an \<sigma>. c1v \<sigma> > 0 \<and> c3v \<sigma> > 0),
        FloorDiv_affine,
        rw [pfloordiv px px] (plit px 1),
        rw [pfloordiv (pmul px pc1) px, pfloordiv (pmul pc1 px) px] pc1,
        rw [pfloordiv (padd (pfloormod px (plit px 2)) (plit (pfloormod px (plit px 2)) 1))
                      (plit (padd (pfloormod px (plit px 2)) (plit (pfloormod px (plit px 2)) 1)) 2)]
           (pfloormod px (plit px 2)),
        rw_if [pfloordiv (pmin (pmul px pc1) py) pc2]
          (pmin (pmul px (pfloordiv pc1 pc2)) (pfloordiv py pc2))
          (\<lambda>an \<sigma>. c2v \<sigma> > 0 \<and> c1_divisible_by_c2 \<sigma>),
        rw_if [pfloordiv (pmax (pmul px pc1) py) pc2]
          (pmax (pmul px (pfloordiv pc1 pc2)) (pfloordiv py pc2))
          (\<lambda>an \<sigma>. c2v \<sigma> > 0 \<and> c1_divisible_by_c2 \<sigma>),
        rw_if [pfloordiv (pmin py (pmul px pc1)) pc2]
          (pmin (pfloordiv py pc2) (pmul px (pfloordiv pc1 pc2)))
          (\<lambda>an \<sigma>. c2v \<sigma> > 0 \<and> c1_divisible_by_c2 \<sigma>),
        rw_if [pfloordiv (pmax py (pmul px pc1)) pc2]
          (pmax (pfloordiv py pc2) (pmul px (pfloordiv pc1 pc2)))
          (\<lambda>an \<sigma>. c2v \<sigma> > 0 \<and> c1_divisible_by_c2 \<sigma>),
        rw_if [pfloordiv (padd (padd (pmul px pc1) py) pz) pc2]
          (padd (pmul px (pfloordiv pc1 pc2)) (pfloordiv (padd py pz) pc2))
          (\<lambda>an \<sigma>. c2v \<sigma> > 0 \<and> c1_divisible_by_c2 \<sigma>),
        rw_if [pfloordiv (padd (padd (pmul px pc1) py) pz) pc2]
          (pfloordiv px (pfloordiv pc2 pc1))
          (\<lambda>an \<sigma>. c1v \<sigma> > 0 \<and> c2v \<sigma> > 0 \<and> truncmod (c2v \<sigma>) (c1v \<sigma>) = 0
                   \<and> CanProveEqual an
                        (op_expr an OpFloorDiv (op_expr an OpAdd (Eval an \<sigma> py) (Eval an \<sigma> pz))
                           (Eval an \<sigma> pc1)) 0),
        rw_if [pfloordiv (padd (psub (pmul px pc1) py) pz) pc2,
               pfloordiv (psub (padd (pmul px pc1) pz) py) pc2]
          (padd (pmul px (pfloordiv pc1 pc2)) (pfloordiv (psub pz py) pc2))
          (\<lambda>an \<sigma>. c2v \<sigma> > 0 \<and> c1_divisible_by_c2 \<sigma>),
        rw_if [pfloordiv (padd (padd py (pmul px pc1)) pz) pc2]
          (padd (pmul px (pfloordiv pc1 pc2)) (pfloordiv (padd py pz) pc2))
          (\<lambda>an \<sigma>. c2v \<sigma> > 0 \<and> c1_divisible_by_c2 \<sigma>),
        rw_if [pfloordiv (padd px pc1) pc2] (padd (pfloordiv px pc2) (pfloordiv pc1 pc2))
          (\<lambda>an \<sigma>. c2v \<sigma> > 0 \<and> c1_divisible_by_c2 \<sigma>),
        rw_if [pfloordiv (pmul px pc1) (pmul px pc2)] (pfloordiv pc1 pc2) (\<lambda>an \<sigma>. c2v \<sigma> > 0),
        rw_if [pfloordiv (padd px py) px, pfloordiv (padd py px) px]
          (padd (pfloordiv py px) (plit (pfloordiv py px) 1))
          (\<lambda>an \<sigma>. nonneg an \<sigma> px),
        rw_if [pfloordiv (padd (padd px py) pz) px, pfloordiv (padd (padd py px) pz) px,
               pfloordiv (padd py (padd pz px)) px, pfloordiv (padd py (padd px pz)) px]
          (padd (pfloordiv (padd py pz) px) (plit (pfloordiv (padd py pz) px) 1))
          (\<lambda>an \<sigma>. nonneg an \<sigma> px),
        rw_if [pfloordiv (pmul px py) py, pfloordiv (pmul py px) py] px (\<lambda>an \<sigma>. nonneg an \<sigma> py),
        rw_if [pfloordiv (padd (pmul px pz) py) pz, pfloordiv (padd (pmul pz px) py) pz]
          (padd px (pfloordiv py pz)) (\<lambda>an \<sigma>. nonneg an \<sigma> pz),
        rw_if [pfloordiv (padd py (pmul px pz)) pz, pfloordiv (padd py (pmul pz px)) pz]
          (padd (pfloordiv py pz) px) (\<lambda>an \<sigma>. nonneg an \<sigma> pz),
        rw_if [pfloordiv (padd (pmul (pmul px pz) pc1) py) (pmul pz pc1)]
          (padd px (pfloordiv py (pmul pz pc1)))
          (\<lambda>an \<sigma>. CanProveGreaterEqual an (op_expr an OpMul (Eval an \<sigma> pz) (Eval an \<sigma> pc1)) 0),
        rw_if [pfloordiv (psub px (pfloormod px pc1)) pc1] (pfloordiv px pc1) (\<lambda>an \<sigma>. c1v \<sigma> \<noteq> 0),
        rw_if [pfloordiv px py] (plit px 0)
          (\<lambda>an \<sigma>. ContainsVscaleCall an (Eval an \<sigma> py) \<and> nonneg an \<sigma> px \<and> nonneg an \<sigma> py
                   \<and> CanProve an (op_expr an OpLT (Eval an \<sigma> px) (Eval an \<sigma> py)))]"

text \<open>The rules of the visitor of \<^verbatim>\<open>MinNode\<close> (lines 1287-1454).\<close>

definition Min_bounds :: attempt where
  "Min_bounds an ret =
     (case ret of
        MinNode a b \<Rightarrow>
          (case (const_int_bound an a, const_int_bound an b) of
             ((a_min, a_max), (b_min, b_max)) \<Rightarrow>
               if a_max \<le> b_min then Some (Return a)
               else if b_max \<le> a_min then Some (Return b)
               else None)
      | _ \<Rightarrow> None)"

definition branch_on :: "(bindings \<Rightarrow> bool) \<Rightarrow> pat \<Rightarrow> pat \<Rightarrow> analyzer \<Rightarrow> bindings \<Rightarrow> outcome option" where
  "branch_on c p q an \<sigma> = Some (Return (Eval an \<sigma> (if c \<sigma> then p else q)))"

definition Min_mul_const :: attempt where
  "Min_mul_const =
     on_match [pmin (pmul px pc1) pc2] (\<lambda>an \<sigma>.
       let c1val = c1v \<sigma>; c2val = c2v \<sigma>
       in if c1val = 0 then Some (Return (Eval an \<sigma> (if c2val < 0 then pc2 else pc1)))
          else if truncmod c2val c1val = 0
          then (if c1val > 0
                then Some (Return (Eval an \<sigma>
                       (pmul (pmin px (plit px (truncdiv c2val c1val)))
                             (plit (pmin px (plit px (truncdiv c2val c1val))) c1val))))
                else Some (Return (Eval an \<sigma>
                       (pmul (pmax px (plit px (truncdiv c2val c1val)))
                             (plit (pmax px (plit px (truncdiv c2val c1val))) c1val)))))
          else None)"

definition Min_vscale :: attempt where
  "Min_vscale an ret =
     (case ret of
        MinNode a b \<Rightarrow>
          if ContainsVscaleCall an a \<or> ContainsVscaleCall an b
          then (if CanProve an (op_expr an OpLE a b) then Some (Return a)
                else if CanProve an (op_expr an OpLE b a) then Some (Return b)
                else None)
          else None
      | _ \<Rightarrow> None)"

definition c1_plus_1_is_c2 :: "analyzer \<Rightarrow> bindings \<Rightarrow> bool" where
  "c1_plus_1_is_c2 an \<sigma> \<longleftrightarrow> c2v \<sigma> > 0 \<and> c1v \<sigma> + 1 = c2v \<sigma>"

definition Min_rules :: "dtype \<Rightarrow> attempt list" where
  "Min_rules t =
     gated (is_scalable_or_fixed_length_vector t)
       [rw [pmin (pbroadcast px planes) (pbroadcast py planes)] (pbroadcast (pmin px py) planes),
        rw [pmin (pmin px (pbroadcast py planes)) (pbroadcast pz planes)]
           (pmin px (pbroadcast (pmin py pz) planes))]
     @ gated (IsIndexType t)
       [rw [pmin px px] px,
        Min_bounds,
        on_match [pmin (padd px pc1) (padd px pc2)]
          (branch_on (\<lambda>\<sigma>. c1v \<sigma> < c2v \<sigma>) (padd px pc1) (padd px pc2)),
        on_match [pmin (padd px pc1) px, pmin px (padd px pc1)]
          (branch_on (\<lambda>\<sigma>. c1v \<sigma> < 0) (padd px pc1) px),
        on_match [pmin (psub pc1 px) (psub pc2 px)]
          (branch_on (\<lambda>\<sigma>. c1v \<sigma> < c2v \<sigma>) (psub pc1 px) (psub pc2 px)),
        rw_if [pmin (pmul (ptruncdiv (padd px pc1) pc2) pc2) px,
               pmin px (pmul (ptruncdiv (padd px pc1) pc2) pc2),
               pmin (pmul (pfloordiv (padd px pc1) pc2) pc2) px,
               pmin px (pmul (pfloordiv (padd px pc1) pc2) pc2)]
          px c1_plus_1_is_c2,
        rw_if [pmin (pmul (ptruncdiv (padd px pc1) pc2) pc2) (pmax px pc2),
               pmin (pmax px pc2) (pmul (ptruncdiv (padd px pc1) pc2) pc2),
               pmin (pmul (pfloordiv (padd px pc1) pc2) pc2) (pmax px pc2),
               pmin (pmax px pc2) (pmul (pfloordiv (padd px pc1) pc2) pc2)]
          (pmax px pc2)
          (\<lambda>an \<sigma>. c1_plus_1_is_c2 an \<sigma> \<and> CanProveGreaterEqual an (Eval an \<sigma> px) 1),
        rw_if [pmin px (pmul (pfloordiv px pc2) pc2), pmin (pmul (pfloordiv px pc2) pc2) px]
          (pmul (pfloordiv px pc2) pc2) (\<lambda>an \<sigma>. c2v \<sigma> > 0),
        rw [pmin (pmax px py) (pmin px py), pmin (pmax px py) (pmin py px),
            pmin (pmin px py) (pmax px py), pmin (pmin px py) (pmax py px),
            pmin (pmin px py) px, pmin (pmin px py) py,
            pmin px (pmin px py), pmin py (pmin px py)]
           (pmin px py),
        rw [pmin (pmax px py) px, pmin (pmax py px) px, pmin px (pmax px py), pmin px (pmax py px)] px,
        rw [pmin (pmin (pmin px py) pz) py] (pmin (pmin px py) pz),
        rw [pmin (pmin (pmin (pmin px py) pz) ps1) py] (pmin (pmin (pmin px py) pz) ps1),
        rw [pmin (pmin (pmin (pmin (pmin px py) pz) ps1) ps2) py]
           (pmin (pmin (pmin (pmin px py) pz) ps1) ps2),
        rw [pmin (pmax px py) (pmax px pz), pmin (pmax px py) (pmax pz px),
            pmin (pmax py px) (pmax px pz), pmin (pmax py px) (pmax pz px)]
           (pmax (pmin py pz) px),
        rw [pmin (pmin px py) (pmin px pz), pmin (pmin px py) (pmin pz px),
            pmin (pmin py px) (pmin px pz), pmin (pmin py px) (pmin pz px)]
           (pmin (pmin py pz) px),
        rw [pmin (padd py px) (padd pz px), pmin (padd py px) (padd px pz),
            pmin (padd px py) (padd px pz), pmin (padd px py) (padd pz px)]
           (padd (pmin py pz) px),
        rw [pmin (psub py px) (psub pz px)] (psub (pmin py pz) px),
        rw [pmin (psub px py) (psub px pz)] (psub px (pmax py pz)),
        rw [pmin (pmin px pc1) pc2] (pmin px (pmin pc1 pc2)),
        on_match [pmin (ptruncdiv px pc1) (ptruncdiv py pc1)]
          (branch_on (\<lambda>\<sigma>. c1v \<sigma> > 0) (ptruncdiv (pmin px py) pc1) (ptruncdiv (pmax px py) pc1)),
        on_match [pmin (pfloordiv px pc1) (pfloordiv py pc1)]
          (branch_on (\<lambda>\<sigma>. c1v \<sigma> > 0) (pfloordiv (pmin px py) pc1) (pfloordiv (pmax px py) pc1)),
        on_match [pmin (pmul px pc1) (pmul py pc1)]
          (branch_on (\<lambda>\<sigma>. c1v \<sigma> > 0) (pmul (pmin px py) pc1) (pmul (pmax px py) pc1)),
        Min_mul_const,
        Min_vscale,
        rrw [pmin (pmin px pc1) py] (pmin (pmin px py) pc1),
        rrw_if [pmin (psub pc1 px) pc2] (psub pc1 (pmax px (psub pc1 pc2))) (\<lambda>an \<sigma>. c2v \<sigma> \<noteq> 0)]
     @ [rw [pmin (pselect px py pz) (pselect px ps1 ps2)]
           (pselect px (pmin py ps1) (pmin pz ps2))]"

text \<open>The rules of the visitor of \<^verbatim>\<open>MaxNode\<close> (lines 1468-1650).\<close>

definition Max_bounds :: attempt where
  "Max_bounds an ret =
     (case ret of
        MaxNode a b \<Rightarrow>
          (case (const_int_bound an a, const_int_bound an b) of
             ((a_min, a_max), (b_min, b_max)) \<Rightarrow>
               if a_min \<ge> b_max then Some (Return a)
               else if b_min \<ge> a_max then Some (Return b)
               else None)
      | _ \<Rightarrow> None)"

definition Max_mul_const :: attempt where
  "Max_mul_const =
     on_match [pmax (pmul px pc1) pc2] (\<lambda>an \<sigma>.
       let c1val = c1v \<sigma>; c2val = c2v \<sigma>
       in if c1val = 0 then Some (Return (Eval an \<sigma> (if c2val > 0 then pc2 else pc1)))
          else if truncmod c2val c1val = 0
          then (if c1val > 0
                then Some (Return (Eval an \<sigma>
                       (pmul (pmax px (plit px (truncdiv c2val c1val)))
                             (plit (pmax px (plit px (truncdiv c2val c1val))) c1val))))
                else Some (Return (Eval an \<sigma>
                       (pmul (pmin px (plit px (truncdiv c2val c1val)))
                             (plit (pmin px (plit px (truncdiv c2val c1val))) c1val)))))
          else None)"

definition Max_vscale :: attempt where
  "Max_vscale an ret =
     (case ret of
        MaxNode a b \<Rightarrow>
          if ContainsVscaleCall an a \<or> ContainsVscaleCall an b
          then (if CanProve an (op_expr an OpGE a b) then Some (Return a)
                else if CanProve an (op_expr an OpGE b a) then Some (Return b)
                else None)
          else None
      | _ \<Rightarrow> None)"

definition Max_rules :: "dtype \<Rightarrow> attempt list" where
  "Max_rules t =
     gated (is_scalable_or_fixed_length_vector t)
       [rw [pmax (pbroadcast px planes) (pbroadcast py planes)] (pbroadcast (pmax px py) planes),
        rw [pmax (pmax px (pbroadcast py planes)) (pbroadcast pz planes)]
           (pmax px (pbroadcast (pmax py pz) planes))]
     @ gated (IsIndexType t)
       [rw [pmax px px] px,
        Max_bounds,
        on_match [pmax (padd px pc1) (padd px pc2)]
          (branch_on (\<lambda>\<sigma>. c1v \<sigma> > c2v \<sigma>) (padd px pc1) (padd px pc2)),
        on_match [pmax (padd px pc1) px, pmax px (padd px pc1)]
          (branch_on (\<lambda>\<sigma>. c1v \<sigma> > 0) (padd px pc1) px),
        on_match [pmax (psub pc1 px) (psub pc2 px)]
          (branch_on (\<lambda>\<sigma>. c1v \<sigma> > c2v \<sigma>) (psub pc1 px) (psub pc2 px)),
        rw_if [pmax (pmul (ptruncdiv (padd px pc1) pc2) pc2) px,
               pmax px (pmul (ptruncdiv (padd px pc1) pc2) pc2)]
          (pmul (ptruncdiv (padd px pc1) pc2) pc2) c1_plus_1_is_c2,
        rw_if [pmax (pmul (pfloordiv (padd px pc1) pc2) pc2) px,
               pmax px (pmul (pfloordiv (padd px pc1) pc2) pc2)]
          (pmul (pfloordiv (padd px pc1) pc2) pc2) c1_plus_1_is_c2,
        rw_if [pmax (pmul (pfloordiv px pc2) pc2) px, pmax px (pmul (pfloordiv px pc2) pc2)]
          px (\<lambda>an \<sigma>. c2v \<sigma> > 0),
        rw [pmax (pmin px py) px, pmax (pmin py px) px, pmax px (pmin px py), pmax px (pmin py px)] px,
        rw [pmax (pmin px py) (pmax px py), pmax (pmin px py) (pmax py px),
            pmax (pmax px py) (pmin px py), pmax (pmax px py) (pmin py px),
            pmax (pmax px py) px, pmax (pmax px py) py,
            pmax px (pmax px py), pmax py (pmax px py)]
           (pmax px py),
        rw [pmax (pmax (pmax px py) pz) py] (pmax (pmax px py) pz),
        rw [pmax (pmax (pmax (pmax px py) pz) ps1) py] (pmax (pmax (pmax px py) pz) ps1),
        rw [pmax (pmax (pmax (pmax (pmax px py) pz) ps1) ps2) py]
           (pmax (pmax (pmax (pmax px py) pz) ps1) ps2),
        rw [pmax (pmax px py) (pmax px pz), pmax (pmax px py) (pmax pz px),
            pmax (pmax py px) (pmax px pz), pmax (pmax py px) (pmax pz px)]
           (pmax (pmax py pz) px),
        rw [pmax (pmin px py) (pmin px pz), pmax (pmin px py) (pmin pz px),
            pmax (pmin py px) (pmin px pz), pmax (pmin py px) (pmin pz px)]
           (pmin (pmax py pz) px),
        rw [pmax (padd py px) (padd pz px), pmax (padd py px) (padd px pz),
            pmax (padd px py) (padd px pz), pmax (padd px py) (padd pz px)]
           (padd (pmax py pz) px),
        rw [pmax (psub py px) (psub pz px)] (psub (pmax py pz) px),
        rw [pmax (psub px py) (psub px pz)] (psub px (pmin py pz)),
        rw [pmax (pmax px pc1) pc2] (pmax px (pmax pc1 pc2)),
        on_match [pmax (ptruncdiv px pc1) (ptruncdiv py pc1)]
          (branch_on (\<lambda>\<sigma>. c1v \<sigma> > 0) (ptruncdiv (pmax px py) pc1) (ptruncdiv (pmin px py) pc1)),
        on_match [pmax (pfloordiv px pc1) (pfloordiv py pc1)]
          (branch_on (\<lambda>\<sigma>. c1v \<sigma> > 0) (pfloordiv (pmax px py) pc1) (pfloordiv (pmin px py) pc1)),
        on_match [pmax (pmul px pc1) (pmul py pc1)]
          (branch_on (\<lambda>\<sigma>. c1v \<sigma> > 0) (pmul (pmax px py) pc1) (pmul (pmin px py) pc1)),
        Max_mul_const,
        Max_vscale,
        rrw [pmax (pmax px pc1) py] (pmax (pmax px py) pc1),
        rrw_if [pmax (psub pc1 px) pc2] (psub pc1 (pmin px (psub pc1 pc2))) (\<lambda>an \<sigma>. c2v \<sigma> \<noteq> 0)]
     @ [rw [pmax (pselect px py pz) (pselect px ps1 ps2)]
           (pselect px (pmax py ps1) (pmax pz ps2))]"

section \<open>Comparison engine\<close>

text \<open>
  \<^verbatim>\<open>ExtractConstantOffset\<close> (lines 133-148).
\<close>

definition ExtractConstantOffset :: "expr \<Rightarrow> expr \<times> int" where
  "ExtractConstantOffset e =
     (case Match (padd px pc1) e [] of
        Some \<sigma> \<Rightarrow> (var_value \<sigma> 0, c1v \<sigma>)
      | None \<Rightarrow>
          (case Match (psub px pc1) e [] of
             Some \<sigma> \<Rightarrow> (var_value \<sigma> 0, - c1v \<sigma>)
           | None \<Rightarrow>
               (case Match (psub pc1 px) e [] of
                  Some \<sigma> \<Rightarrow> (var_value \<sigma> 0, c1v \<sigma>)
                | None \<Rightarrow> (e, 0))))"

text \<open>
  \<^verbatim>\<open>TryCompare(x, val)\<close> (lines 324-366).  \<open>visit\<close> is \<^verbatim>\<open>this->VisitExpr\<close>.
\<close>

definition compare_with_value :: "analyzer \<Rightarrow> expr \<Rightarrow> int \<Rightarrow> CompareResult" where
  "compare_with_value an diff val =
     (case literal_value diff of
        Some v \<Rightarrow> if v = val then kEQ else if v > val then kGT else kLT
      | None \<Rightarrow>
          (case const_int_bound an diff of (min_value, max_value) \<Rightarrow>
             if min_value = val \<and> max_value = val then kEQ
             else if min_value > val then kGT
             else if max_value < val then kLT
             else if min_value \<ge> val then kGE
             else if max_value \<le> val then kLE
             else if val = 0 \<and> snd (modular_set an diff) \<noteq> 0 then kNE
             else kUnknown))"

definition TryCompare_value ::
  "analyzer \<Rightarrow> (expr \<Rightarrow> failure + expr) \<Rightarrow> expr \<Rightarrow> int \<Rightarrow> failure + CompareResult" where
  "TryCompare_value an visit x val =
     (case visit x of Inl f \<Rightarrow> Inl f | Inr diff \<Rightarrow> Inr (compare_with_value an diff val))"

text \<open>
  \<^verbatim>\<open>TryCompareUsingConstIntBounds\<close> and \<^verbatim>\<open>TryCompareUsingKnownInequalities\<close>
  (lines 169-178).
\<close>

definition TryCompareUsingConstIntBounds ::
  "analyzer \<Rightarrow> (expr \<Rightarrow> failure + expr) \<Rightarrow> expr \<Rightarrow> expr \<Rightarrow> failure + CompareResult" where
  "TryCompareUsingConstIntBounds an visit x y = TryCompare_value an visit (op_expr an OpSub x y) 0"

definition TryCompareUsingKnownInequalities :: "analyzer \<Rightarrow> expr \<Rightarrow> expr \<Rightarrow> CompareResult" where
  "TryCompareUsingKnownInequalities an x y =
     transitive_comparisons an x y (kTransitivelyProveInequalities an)"

text \<open>
  \<^verbatim>\<open>TryComparisonOfProductAndSum\<close> (lines 180-321).  The pattern variables
  \<^verbatim>\<open>A, B, C, D\<close> are the cells 0 to 3.  The products of bounds are \<^verbatim>\<open>int64_t\<close>
  products and wrap.
\<close>

abbreviation "pA \<equiv> PVar 0"
abbreviation "pB \<equiv> PVar 1"
abbreviation "pC \<equiv> PVar 2"
abbreviation "pD \<equiv> PVar 3"

definition Int64 :: dtype where
  "Int64 = DataType kInt 64 1"

definition mul64 :: "int \<Rightarrow> int \<Rightarrow> int" where
  "mul64 a b = wrap Int64 (a * b)"

definition add64 :: "int \<Rightarrow> int \<Rightarrow> int" where
  "add64 a b = wrap Int64 (a + b)"

definition opt_special_case :: "analyzer \<Rightarrow> expr \<Rightarrow> (expr \<times> expr \<times> expr \<times> expr) option" where
  "opt_special_case an diff =
     (case matches_one_of
             [padd (pmul (padd pA pB) pC) (pmul (pmul pA pB) pD),
              padd (pmul (padd pA pB) pC) (pmul (pmul pB pA) pD),
              padd (pmul (pmul pA pB) pD) (pmul (padd pA pB) pC),
              padd (pmul (pmul pB pA) pD) (pmul (padd pA pB) pC)] (\<lambda>\<sigma>. True) diff of
        Some \<sigma> \<Rightarrow> Some (var_value \<sigma> 0, var_value \<sigma> 1, var_value \<sigma> 2, neg_expr an (var_value \<sigma> 3))
      | None \<Rightarrow>
          (case matches_one_of
                  [padd (pmul (padd pA pB) pC) (pmul pA pB),
                   padd (pmul (padd pA pB) pC) (pmul pB pA),
                   padd (pmul pA pB) (pmul (padd pA pB) pC),
                   padd (pmul pB pA) (pmul (padd pA pB) pC)] (\<lambda>\<sigma>. True) diff of
             Some \<sigma> \<Rightarrow> Some (var_value \<sigma> 0, var_value \<sigma> 1, var_value \<sigma> 2, IntImm Int32 (- 1))
           | None \<Rightarrow> None))"

definition negate :: "int \<times> int \<Rightarrow> int \<times> int" where
  "negate bound = (- snd bound, - fst bound)"

definition is_negative :: "int \<times> int \<Rightarrow> bool" where
  "is_negative bound \<longleftrightarrow> snd bound < 0"

definition is_positive :: "int \<times> int \<Rightarrow> bool" where
  "is_positive bound \<longleftrightarrow> fst bound > 0"

definition reciprocal_term_is_positive ::
  "int \<times> int \<Rightarrow> int \<times> int \<Rightarrow> int \<times> int \<Rightarrow> int \<times> int \<Rightarrow> bool" where
  "reciprocal_term_is_positive A_bound B_bound C_bound D_bound =
     (if snd D_bound = kPosInf then False
      else if mul64 (min (snd A_bound) (snd B_bound)) (snd D_bound) \<le> fst C_bound then True
      else if snd A_bound \<noteq> kPosInf \<and> snd B_bound \<noteq> kPosInf
              \<and> mul64 (mul64 (snd A_bound) (snd B_bound)) (snd D_bound)
                  < mul64 (fst C_bound) (add64 (snd A_bound) (snd B_bound))
      then True
      else False)"

definition product_and_sum_decision ::
  "int \<times> int \<Rightarrow> int \<times> int \<Rightarrow> int \<times> int \<Rightarrow> int \<times> int \<Rightarrow> CompareResult" where
  "product_and_sum_decision A_bound0 B_bound0 C_bound0 D_bound0 =
     (let is_upper_bound = is_negative D_bound0;
          C_bound1 = (if is_upper_bound then negate C_bound0 else C_bound0);
          D_bound = (if is_upper_bound then negate D_bound0 else D_bound0);
          flip = is_negative C_bound1;
          A_bound = (if flip then negate A_bound0 else A_bound0);
          B_bound = (if flip then negate B_bound0 else B_bound0);
          C_bound = (if flip then negate C_bound1 else C_bound1);
          all_terms_positive = (is_positive A_bound \<and> is_positive B_bound
                                \<and> is_positive C_bound \<and> is_positive D_bound)
      in if \<not> all_terms_positive then kUnknown
         else if \<not> reciprocal_term_is_positive A_bound B_bound C_bound D_bound then kUnknown
         else if is_upper_bound then kLT
         else kGT)"

definition TryComparisonOfProductAndSum ::
  "analyzer \<Rightarrow> (expr \<Rightarrow> failure + expr) \<Rightarrow> expr \<Rightarrow> expr \<Rightarrow> failure + CompareResult" where
  "TryComparisonOfProductAndSum an visit x y =
     (if \<not> kComparisonOfProductAndSum an then Inr kUnknown
      else
        (case visit (op_expr an OpSub x y) of
           Inl f \<Rightarrow> Inl f
         | Inr diff \<Rightarrow>
             (case opt_special_case an diff of
                None \<Rightarrow> Inr kUnknown
              | Some (A, B, C, D) \<Rightarrow>
                  Inr (product_and_sum_decision (const_int_bound an A) (const_int_bound an B)
                         (const_int_bound an C) (const_int_bound an D)))))"

text \<open>\<^verbatim>\<open>TryCompare(x, y)\<close> (lines 150-167).\<close>

definition is_finished :: "CompareResult \<Rightarrow> bool" where
  "is_finished output \<longleftrightarrow> output = kEQ \<or> output = kLT \<or> output = kGT"

definition TryCompare ::
  "analyzer \<Rightarrow> (expr \<Rightarrow> failure + expr) \<Rightarrow> expr \<Rightarrow> expr \<Rightarrow> failure + CompareResult" where
  "TryCompare an visit x y =
     (case TryCompareUsingConstIntBounds an visit x y of
        Inl f \<Rightarrow> Inl f
      | Inr r1 \<Rightarrow>
          let output1 = compare_and kUnknown r1
          in if is_finished output1 then Inr output1
             else
               let output2 = compare_and output1 (TryCompareUsingKnownInequalities an x y)
               in if is_finished output2 then Inr output2
                  else
                    (case TryComparisonOfProductAndSum an visit x y of
                       Inl f \<Rightarrow> Inl f
                     | Inr r3 \<Rightarrow> Inr (compare_and output2 r3)))"

section \<open>Rule tables of the comparisons and of the logical connectives\<close>

text \<open>
  The rules of \<^verbatim>\<open>ApplyRewriteRules(LT)\<close> that follow the call of \<^verbatim>\<open>TryCompare\<close>
  (lines 1846-1945).
\<close>

definition c1_pos :: "analyzer \<Rightarrow> bindings \<Rightarrow> bool" where
  "c1_pos an \<sigma> \<longleftrightarrow> c1v \<sigma> > 0"

definition LT_index_rules :: "attempt list" where
  "LT_index_rules =
     [rw [plt (padd px py) (padd px pz)] (plt py pz),
      rw [plt (padd px py) (padd pz px)] (plt py pz),
      rw [plt (padd py px) (padd px pz)] (plt py pz),
      rw [plt (padd py px) (padd pz px)] (plt py pz),
      rw [plt (psub py px) (psub pz px)] (plt py pz),
      rw [plt (psub px py) (psub px pz)] (plt pz py),
      rw [plt px (padd px pz)] (plt (plit pz 0) pz),
      rw [plt px (padd pz px)] (plt (plit pz 0) pz),
      rw [plt px (psub px pz)] (plt pz (plit pz 0)),
      rw_if [plt (pmul px pc1) (pmul py pc1)] (plt px py) (\<lambda>an \<sigma>. c1v \<sigma> > 0),
      rw_if [plt (pmul px pc1) (pmul py pc1)] (plt py px) (\<lambda>an \<sigma>. c1v \<sigma> < 0),
      rw_if [plt (pmul px pc2) pc1]
        (plt px (padd (ptruncdiv (psub pc1 (plit pc1 1)) pc2)
                      (plit (ptruncdiv (psub pc1 (plit pc1 1)) pc2) 1)))
        (\<lambda>an \<sigma>. c1v \<sigma> > 0 \<and> c2v \<sigma> > 0),
      rw_if [plt (pmul px pc2) pc1] (plt px (ptruncdiv pc1 pc2))
        (\<lambda>an \<sigma>. c1v \<sigma> \<le> 0 \<and> c2v \<sigma> > 0),
      rw_if [plt (pmul px pc2) pc1]
        (plt (psub (ptruncdiv (psub pc1 (plit pc1 1)) pc2)
                   (plit (ptruncdiv (psub pc1 (plit pc1 1)) pc2) 1)) px)
        (\<lambda>an \<sigma>. c1v \<sigma> > 0 \<and> c2v \<sigma> < 0),
      rw_if [plt (pmul px pc2) pc1] (plt (ptruncdiv pc1 pc2) px)
        (\<lambda>an \<sigma>. c1v \<sigma> \<le> 0 \<and> c2v \<sigma> < 0),
      rw_if [plt pc1 (pmul px pc2)]
        (plt (psub (ptruncdiv (padd pc1 (plit pc1 1)) pc2)
                   (plit (ptruncdiv (padd pc1 (plit pc1 1)) pc2) 1)) px)
        (\<lambda>an \<sigma>. c1v \<sigma> < 0 \<and> c2v \<sigma> > 0),
      rw_if [plt pc1 (pmul px pc2)] (plt (ptruncdiv pc1 pc2) px)
        (\<lambda>an \<sigma>. c1v \<sigma> \<ge> 0 \<and> c2v \<sigma> > 0),
      rw_if [plt pc1 (pmul px pc2)]
        (plt px (padd (ptruncdiv (padd pc1 (plit pc1 1)) pc2)
                      (plit (ptruncdiv (padd pc1 (plit pc1 1)) pc2) 1)))
        (\<lambda>an \<sigma>. c1v \<sigma> < 0 \<and> c2v \<sigma> < 0),
      rw_if [plt pc1 (pmul px pc2)] (plt px (ptruncdiv pc1 pc2))
        (\<lambda>an \<sigma>. c1v \<sigma> \<ge> 0 \<and> c2v \<sigma> < 0),
      rw_if [plt (ptruncdiv px pc1) pc2] (plt px (pmul pc1 pc2))
        (\<lambda>an \<sigma>. c1v \<sigma> > 0 \<and> c2v \<sigma> > 0),
      rw_if [plt (ptruncdiv px pc1) pc2]
        (plt px (padd (pmul pc1 (psub pc2 (plit pc2 1)))
                      (plit (pmul pc1 (psub pc2 (plit pc2 1))) 1)))
        (\<lambda>an \<sigma>. c1v \<sigma> > 0 \<and> c2v \<sigma> \<le> 0),
      rw_if [plt pc1 (ptruncdiv px pc2)]
        (plt (psub (pmul (padd pc1 (plit pc1 1)) pc2)
                   (plit (pmul (padd pc1 (plit pc1 1)) pc2) 1)) px)
        (\<lambda>an \<sigma>. c1v \<sigma> \<ge> 0 \<and> c2v \<sigma> > 0),
      rw_if [plt pc1 (ptruncdiv px pc2)] (plt (pmul pc1 pc2) px)
        (\<lambda>an \<sigma>. c1v \<sigma> < 0 \<and> c2v \<sigma> > 0),
      rw_if [plt (pmul (ptruncdiv px pc1) pc1) px]
        (plt (plit (ptruncmod px pc1) 0) (ptruncmod px pc1)) c1_pos,
      rw_if [plt (pmul (ptruncdiv px pc1) pc1) (padd px py)]
        (plt (plit (padd (ptruncmod px pc1) py) 0) (padd (ptruncmod px pc1) py)) c1_pos,
      rw_if [plt (pmul (ptruncdiv px pc1) pc1) (psub px py)] (plt py (ptruncmod px pc1)) c1_pos,
      rw_if [plt (pmul (ptruncdiv (padd px pc2) pc1) pc1) px]
        (plt pc2 (ptruncmod (padd px pc2) pc1)) c1_pos,
      rw_if [plt (pmul (ptruncdiv (padd px pc2) pc1) pc1) (padd px py)]
        (plt pc2 (padd (ptruncmod (padd px pc2) pc1) py)) c1_pos,
      rw_if [plt (pmul (ptruncdiv (padd px pc2) pc1) pc1) (psub px py)]
        (plt py (padd (ptruncmod (padd px pc2) pc1) (psub (plit pc2 0) pc2))) c1_pos,
      rw_if [plt (pfloordiv px pc1) pc2] (plt px (pmul pc1 pc2)) c1_pos,
      rw_if [plt pc1 (pfloordiv px pc2)]
        (plt (psub (pmul (padd pc1 (plit pc1 1)) pc2)
                   (plit (pmul (padd pc1 (plit pc1 1)) pc2) 1)) px)
        (\<lambda>an \<sigma>. c2v \<sigma> > 0),
      rw_if [plt (pmul (pfloordiv px pc1) pc1) px]
        (plt (plit (pfloormod px pc1) 0) (pfloormod px pc1)) c1_pos,
      rw_if [plt (pmul (pfloordiv px pc1) pc1) (padd px py)]
        (plt (plit (padd (pfloormod px pc1) py) 0) (padd (pfloormod px pc1) py)) c1_pos,
      rw_if [plt (pmul (pfloordiv px pc1) pc1) (psub px py)] (plt py (pfloormod px pc1)) c1_pos,
      rw_if [plt (pmul (pfloordiv (padd px pc2) pc1) pc1) px]
        (plt pc2 (pfloormod (padd px pc2) pc1)) c1_pos,
      rw_if [plt (pmul (pfloordiv (padd px pc2) pc1) pc1) (padd px py)]
        (plt pc2 (padd (pfloormod (padd px pc2) pc1) py)) c1_pos,
      rw_if [plt (pmul (pfloordiv (padd px pc2) pc1) pc1) (psub px py)]
        (plt py (padd (pfloormod (padd px pc2) pc1) (psub (plit pc2 0) pc2))) c1_pos,
      rrw [plt (pmin px py) pz] (por (plt px pz) (plt py pz)),
      rrw [plt (pmax px py) pz] (pand (plt px pz) (plt py pz)),
      rrw [plt pz (pmin px py)] (pand (plt pz px) (plt pz py)),
      rrw [plt pz (pmax px py)] (por (plt pz px) (plt pz py)),
      rrw [plt pc1 (padd px pc2), plt (psub pc1 px) pc2] (plt (psub pc1 pc2) px),
      rrw [plt pc1 (psub pc2 px), plt (padd px pc1) pc2] (plt px (psub pc2 pc1)),
      rrw [plt pc1 (psub px pc2)] (plt (padd pc1 pc2) px),
      rrw [plt (psub px pc2) pc1] (plt px (padd pc1 pc2)),
      rrw [plt px (psub pc1 py)] (plt (padd px py) pc1),
      rrw [plt (psub pc1 py) px] (plt pc1 (padd px py)),
      rrw [plt px (padd pc1 py)] (plt (psub px py) pc1),
      rrw [plt (padd pc1 py) px] (plt pc1 (psub px py))]"

text \<open>
  The two closures at the end of \<^verbatim>\<open>ApplyRewriteRules(LT)\<close> (lines 1947-1980).
  Modelled from the spec: \<^verbatim>\<open>ZeroAwareGCD(a, b)\<close> is \<open>gcd(|a|, |b|)\<close> with
  \<open>gcd(0, x) = |x|\<close> and \<open>gcd(0, 0) = 0\<close>, which is \<open>gcd\<close> on \<open>int\<close>.
\<close>

definition ZeroAwareGCD :: "int \<Rightarrow> int \<Rightarrow> int" where
  "ZeroAwareGCD a b = gcd a b"

definition merge_constants :: attempt where
  "merge_constants an ret =
     (case ret of
        LT a b \<Rightarrow>
          (case (ExtractConstantOffset a, ExtractConstantOffset b) of
             ((lhs, lhs_offset), (rhs, rhs_offset)) \<Rightarrow>
               if lhs_offset = 0 \<and> rhs_offset = 0 then None
               else
                 let diff = rhs_offset - lhs_offset
                 in if diff = 0 then Some (Recursive (op_expr an OpLT lhs rhs))
                    else if diff = 1 then Some (Recursive (op_expr an OpLE lhs rhs))
                    else if diff < 0 \<and> rhs_offset \<noteq> 0
                    then Some (Recursive
                           (op_expr an OpLT (op_expr an OpAdd lhs (make_const (dtype_of lhs) (- diff))) rhs))
                    else if diff > 0 \<and> lhs_offset \<noteq> 0
                    then Some (Recursive
                           (op_expr an OpLT lhs (op_expr an OpAdd rhs (make_const (dtype_of rhs) diff))))
                    else None)
      | _ \<Rightarrow> None)"

definition common_factor :: attempt where
  "common_factor an ret =
     (case ret of
        LT a b \<Rightarrow>
          (case (modular_set an a, modular_set an b) of
             ((coeff_a, base_a), (coeff_b, base_b)) \<Rightarrow>
               let factor = ZeroAwareGCD (ZeroAwareGCD base_a coeff_a) (ZeroAwareGCD base_b coeff_b)
               in if factor > 1
                  then Some (Recursive
                         (op_expr an OpLT (op_const an OpFloorDiv a factor) (op_const an OpFloorDiv b factor)))
                  else None)
      | _ \<Rightarrow> None)"

text \<open>The rules of \<^verbatim>\<open>ApplyRewriteRules(EQ)\<close> (lines 1703-1719).\<close>

definition EQ_index_rules :: "dtype \<Rightarrow> attempt list" where
  "EQ_index_rules t =
     [rw [peq pc1 px] (peq px pc1),
      rw [peq (psub px pc1) pc2] (peq px (padd pc2 pc1)),
      rw [peq (psub pc1 px) pc2] (peq px (psub pc1 pc2)),
      rw [peq (padd px pc1) pc2] (peq px (psub pc2 pc1)),
      rrw [peq (pmul px py) (plit (pmul px py) 0)] (por (peq px (plit px 0)) (peq py (plit py 0))),
      rw [peq px px] (PConst (make_const t 1))]"

definition EQ_other_rules :: "dtype \<Rightarrow> attempt list" where
  "EQ_other_rules t =
     [rw_if [peq px px] (PConst (make_const t 1))
        (\<lambda>an \<sigma>. side_effect_le an (Eval an \<sigma> px) kReadState)]"

text \<open>The rules of \<^verbatim>\<open>ApplyRewriteRules(Not)\<close> (lines 1997-2009).\<close>

definition Not_rules :: "dtype \<Rightarrow> attempt list" where
  "Not_rules t =
     gated (is_scalable_or_fixed_length_vector t)
       [rw [pnot (pbroadcast px planes)] (pbroadcast (pnot px) planes)]
     @ [rw [pnot (pnot px)] px,
        rw [pnot (ple px py)] (plt py px),
        rw [pnot (pge px py)] (plt px py),
        rw [pnot (plt px py)] (ple py px),
        rw [pnot (pgt px py)] (ple px py),
        rw [pnot (peq px py)] (pne px py),
        rw [pnot (pne px py)] (peq px py),
        rrw [pnot (por px py)] (pand (pnot px) (pnot py)),
        rrw [pnot (pand px py)] (por (pnot px) (pnot py))]"

text \<open>
  The rules of the visitor of \<^verbatim>\<open>AndNode\<close> (lines 2073-2157).  The conditions of
  lines 2125-2139 compute C++ remainders by \<open>c2\<close> without a test of \<open>c2\<close>: a zero
  \<open>c2\<close> ends the call.
\<close>

definition And_floormod_bound ::
  "pat \<Rightarrow> pat \<Rightarrow> (int \<Rightarrow> int \<Rightarrow> int \<Rightarrow> bool) \<Rightarrow> attempt" where
  "And_floormod_bound src res cond =
     on_match [src] (\<lambda>an \<sigma>.
       if c2v \<sigma> = 0 then Some (Abort DivideByZero)
       else if cond (c1v \<sigma>) (c2v \<sigma>) (c3v \<sigma>) then Some (Recursive (Eval an \<sigma> res))
       else None)"

definition And_rules :: "dtype \<Rightarrow> attempt list" where
  "And_rules t =
     gated (is_scalable_or_fixed_length_vector t)
       [rw [pand (pbroadcast px planes) (pbroadcast py planes)] (pbroadcast (pand px py) planes)]
     @ [rw [pand (peq px py) (pne px py)] (PConst (make_const t 0)),
        rw [pand (pne px py) (peq px py)] (PConst (make_const t 0)),
        rw [pand px (pnot px)] (PConst (make_const t 0)),
        rw [pand (ple px py) (plt py px)] (PConst (make_const t 0)),
        rw [pand (plt py px) (ple px py)] (PConst (make_const t 0)),
        rw_if [pand (plt px pc1) (plt pc2 px)] (PConst (make_const t 0))
          (\<lambda>an \<sigma>. c2v \<sigma> + 1 \<ge> c1v \<sigma>),
        rw_if [pand (plt pc2 px) (plt px pc1)] (PConst (make_const t 0))
          (\<lambda>an \<sigma>. c2v \<sigma> + 1 \<ge> c1v \<sigma>),
        rw_if [pand (plt px pc1) (ple pc2 px), pand (ple pc2 px) (plt px pc1),
               pand (ple px pc1) (plt pc2 px), pand (plt pc2 px) (ple px pc1)]
          (PConst (make_const t 0)) (\<lambda>an \<sigma>. c2v \<sigma> \<ge> c1v \<sigma>),
        rw_if [pand (ple px pc1) (ple pc2 px), pand (ple pc2 px) (ple px pc1)]
          (PConst (make_const t 0)) (\<lambda>an \<sigma>. c2v \<sigma> > c1v \<sigma>),
        rw [pand (peq px pc1) (peq px pc2)] (pand (peq px pc1) (peq pc1 pc2)),
        rw [pand (peq px pc1) (pne px pc2), pand (pne px pc2) (peq px pc1)]
           (pand (peq px pc1) (pne pc1 pc2)),
        rrw [pand (peq (pfloordiv px pc2) pc1) (peq (pfloormod px pc2) pc3),
             pand (peq (pfloormod px pc2) pc3) (peq (pfloordiv px pc2) pc1)]
          (peq px (padd (pmul pc1 pc2) pc3)),
        rrw_if [pand (ple (plit (psub px (pmul py pc1)) 0) (psub px (pmul py pc1)))
                     (plt (psub px (pmul py pc1)) pc1),
                pand (plt (psub px (pmul py pc1)) pc1)
                     (ple (plit (psub px (pmul py pc1)) 0) (psub px (pmul py pc1)))]
          (peq py (pfloordiv px pc1)) (\<lambda>an \<sigma>. c1v \<sigma> > 0),
        rrw [pand (plt pc1 (psub px (pmul py pc1)))
                  (ple (psub px (pmul py pc1)) (plit (psub px (pmul py pc1)) 0)),
             pand (plt (psub px (pmul py pc1)) pc1)
                  (ple (plit (psub px (pmul py pc1)) 0) (psub px (pmul py pc1)))]
          (peq py (pfloordiv px pc1)),
        rrw_if [pand (ple (plit (padd px (pmul py pc2)) 0) (padd px (pmul py pc2)))
                     (plt (padd px (pmul py pc2)) pc1),
                pand (plt (padd px (pmul py pc2)) pc1)
                     (ple (plit (padd px (pmul py pc2)) 0) (padd px (pmul py pc2)))]
          (peq py (pfloordiv px pc1)) (\<lambda>an \<sigma>. c2v \<sigma> = - c1v \<sigma>),
        And_floormod_bound (pand (plt px pc1) (plt (pfloormod px pc2) pc3))
          (pand (plt px (padd (psub pc1 pc2) pc3)) (plt (pfloormod px pc2) pc3))
          (\<lambda>c1 c2 c3. truncmod c1 c2 = 0),
        And_floormod_bound (pand (plt px pc1) (plt (pfloormod px pc2) pc3))
          (pand (plt px (padd (psub pc1 (pfloormod pc1 pc2)) pc3)) (plt (pfloormod px pc2) pc3))
          (\<lambda>c1 c2 c3. truncmod (truncmod c1 c2 + c2) c2 > c3),
        And_floormod_bound (pand (ple px pc1) (plt (pfloormod px pc2) pc3))
          (pand (plt px (padd (psub (padd pc1 (plit pc1 1)) pc2) pc3)) (plt (pfloormod px pc2) pc3))
          (\<lambda>c1 c2 c3. truncmod (c1 + 1) c2 = 0),
        And_floormod_bound (pand (ple px pc1) (plt (pfloormod px pc2) pc3))
          (pand (plt px (padd (psub (padd pc1 (plit pc1 1)) (pfloormod pc1 pc2)) pc3))
                (plt (pfloormod px pc2) pc3))
          (\<lambda>c1 c2 c3. truncmod (truncmod (c1 + 1) c2 + c2) c2 > c3),
        rrw [pand (peq (pfloordiv px pc2) pc1) (plt (pfloormod px pc2) pc3),
             pand (plt (pfloormod px pc2) pc3) (peq (pfloordiv px pc2) pc1)]
          (pand (ple (pmul pc1 pc2) px) (plt px (padd (pmul pc1 pc2) pc3))),
        rrw [pand (peq (pfloordiv px pc2) pc1) (ple (pfloormod px pc2) pc3),
             pand (ple (pfloormod px pc2) pc3) (peq (pfloordiv px pc2) pc1)]
          (pand (ple (pmul pc1 pc2) px) (ple px (padd (pmul pc1 pc2) pc3))),
        rrw [pand (peq (pfloordiv px pc2) pc1) (ple pc3 (pfloormod px pc2)),
             pand (ple pc3 (pfloormod px pc2)) (peq (pfloordiv px pc2) pc1)]
          (pand (ple (padd (pmul pc1 pc2) pc3) px)
                (plt px (pmul (padd pc1 (plit pc1 1)) pc2))),
        rrw [pand (peq (pfloordiv px pc2) pc1) (plt pc3 (pfloormod px pc2)),
             pand (plt pc3 (pfloormod px pc2)) (peq (pfloordiv px pc2) pc1)]
          (pand (plt (padd (pmul pc1 pc2) pc3) px)
                (plt px (pmul (padd pc1 (plit pc1 1)) pc2))),
        rrw [pand px (pand py pz)] (pand (pand px py) pz)]"

text \<open>The rules of the visitor of \<^verbatim>\<open>OrNode\<close> (lines 2221-2257).\<close>

definition Or_rules :: "dtype \<Rightarrow> attempt list" where
  "Or_rules t =
     gated (is_scalable_or_fixed_length_vector t)
       [rw [por (pbroadcast px planes) (pbroadcast py planes)] (pbroadcast (por px py) planes)]
     @ [rw [por (peq px py) (pne px py)] (PConst (make_const t 1)),
        rw [por (pne px py) (peq px py)] (PConst (make_const t 1)),
        rw [por px (pnot px)] (PConst (make_const t 1)),
        rw [por (ple px py) (plt py px)] (PConst (make_const t 1)),
        rw [por (plt py px) (ple px py)] (PConst (make_const t 1)),
        rw [por (plt px py) (plt py px)] (pne px py),
        rw_if [por (plt px pc1) (plt pc2 px)] (PConst (make_const t 1)) (\<lambda>an \<sigma>. c2v \<sigma> < c1v \<sigma>),
        rw_if [por (plt pc2 px) (plt px pc1)] (PConst (make_const t 1)) (\<lambda>an \<sigma>. c2v \<sigma> < c1v \<sigma>),
        rw_if [por (ple px pc1) (plt pc2 px)] (PConst (make_const t 1)) (\<lambda>an \<sigma>. c2v \<sigma> \<le> c1v \<sigma>),
        rw_if [por (plt pc2 px) (ple px pc1)] (PConst (make_const t 1)) (\<lambda>an \<sigma>. c2v \<sigma> \<le> c1v \<sigma>),
        rw_if [por (plt px pc1) (ple pc2 px)] (PConst (make_const t 1)) (\<lambda>an \<sigma>. c2v \<sigma> \<le> c1v \<sigma>),
        rw_if [por (ple pc2 px) (plt px pc1)] (PConst (make_const t 1)) (\<lambda>an \<sigma>. c2v \<sigma> \<le> c1v \<sigma>),
        rw_if [por (ple px pc1) (ple pc2 px)] (PConst (make_const t 1))
          (\<lambda>an \<sigma>. c2v \<sigma> \<le> c1v \<sigma> + 1),
        rw_if [por (ple pc2 px) (ple px pc1)] (PConst (make_const t 1))
          (\<lambda>an \<sigma>. c2v \<sigma> \<le> c1v \<sigma> + 1),
        rw [por (pne px pc1) (pne px pc2)] (por (pne px pc1) (pne pc1 pc2)),
        rw [por (pne px pc1) (peq px pc2)] (por (pne px pc1) (peq pc1 pc2)),
        rw [por (peq px pc2) (pne px pc1)] (por (pne px pc1) (peq pc1 pc2)),
        rrw [por (plt px py) (peq px py)] (ple px py),
        rrw [por (plt px py) (peq py px)] (ple px py),
        rrw [por (peq px py) (plt px py)] (ple px py),
        rrw [por (peq py px) (plt px py)] (ple px py),
        rrw [por px (por py pz)] (por (por px py) pz)]"

section \<open>Visitors\<close>

text \<open>
  The visitor of a selection (lines 2260-2268).  \<open>mutate\<close> is the inherited
  \<^verbatim>\<open>IRMutatorWithAnalyzer::VisitExpr_\<close>, outside this source file, which rebuilds
  the node from its simplified children.  The pattern \<^verbatim>\<open>select(x, y, y)\<close> matches a
  selection whose two branches are deep-equal.
\<close>

definition VisitExpr_Select :: "(expr \<Rightarrow> expr) \<Rightarrow> expr \<Rightarrow> expr" where
  "VisitExpr_Select mutate op =
     (let ret = mutate op
      in case ret of
           Select x y z \<Rightarrow> if y = z then y else ret
         | _ \<Rightarrow> ret)"

text \<open>
  The visitor of a variable (lines 2350-2363): a boolean variable is looked up in the
  constraint stack first, then any variable in the substitution map.
\<close>

fun map_lookup :: "(expr \<times> expr) list \<Rightarrow> expr \<Rightarrow> expr option" where
  "map_lookup [] k = None"
| "map_lookup ((k', v) # rest) k = (if k' = k then Some v else map_lookup rest k)"

definition VisitExpr_Var :: "simplifier_state \<Rightarrow> expr \<Rightarrow> expr" where
  "VisitExpr_Var st var =
     (case (if dtype_of var = Bool then TryMatchLiteralConstraint st var else None) of
        Some m \<Rightarrow> m
      | None \<Rightarrow> (case map_lookup (var_map st) var of Some v \<Rightarrow> v | None \<Rightarrow> var))"

text \<open>
  The visitors of the binary arithmetic nodes share one skeleton (for \<^verbatim>\<open>AddNode\<close>,
  lines 385-388 and 496): the inherited mutator rebuilds the node from the visited
  operands (left first), \<^verbatim>\<open>TryConstFold\<close> may end the visit, then the attempts of
  the node kind are made in order and the node is returned when none applies.
  \<open>visit\<close> is \<^verbatim>\<open>this->VisitExpr\<close> and \<open>rr\<close> is \<^verbatim>\<open>RecursiveRewrite\<close>.
\<close>

definition mutate_binary ::
  "(expr \<Rightarrow> failure + expr) \<Rightarrow> binop \<Rightarrow> expr \<Rightarrow> expr \<Rightarrow> failure + expr \<times> expr" where
  "mutate_binary visit op a b =
     (case visit a of
        Inl f \<Rightarrow> Inl f
      | Inr a' \<Rightarrow> (case visit b of Inl f \<Rightarrow> Inl f | Inr b' \<Rightarrow> Inr (a', b')))"

definition visit_binary ::
  "analyzer \<Rightarrow> (expr \<Rightarrow> failure + expr) \<Rightarrow> (expr \<Rightarrow> failure + expr) \<Rightarrow> binop \<Rightarrow>
   (dtype \<Rightarrow> attempt list) \<Rightarrow> expr \<Rightarrow> expr \<Rightarrow> failure + expr" where
  "visit_binary an visit rr op rules a b =
     (case mutate_binary visit op a b of
        Inl f \<Rightarrow> Inl f
      | Inr (a', b') \<Rightarrow>
          (case TryConstFold an op a' b' of
             Some c \<Rightarrow> Inr c
           | None \<Rightarrow> finish rr (first_outcome (rules (dtype_of (mk_bin op a' b'))) an (mk_bin op a' b'))))"

definition VisitExpr_Add where "VisitExpr_Add an visit rr = visit_binary an visit rr OpAdd Add_rules"
definition VisitExpr_Sub where "VisitExpr_Sub an visit rr = visit_binary an visit rr OpSub Sub_rules"
definition VisitExpr_Mul where "VisitExpr_Mul an visit rr = visit_binary an visit rr OpMul Mul_rules"
definition VisitExpr_Div where "VisitExpr_Div an visit rr = visit_binary an visit rr OpDiv Div_rules"
definition VisitExpr_Mod where "VisitExpr_Mod an visit rr = visit_binary an visit rr OpMod Mod_rules"
definition VisitExpr_FloorDiv where
  "VisitExpr_FloorDiv an visit rr = visit_binary an visit rr OpFloorDiv FloorDiv_rules"
definition VisitExpr_FloorMod where
  "VisitExpr_FloorMod an visit rr = visit_binary an visit rr OpFloorMod FloorMod_rules"
definition VisitExpr_Min where "VisitExpr_Min an visit rr = visit_binary an visit rr OpMin Min_rules"
definition VisitExpr_Max where "VisitExpr_Max an visit rr = visit_binary an visit rr OpMax Max_rules"

text \<open>
  \<^verbatim>\<open>ApplyRewriteRules\<close> for \<^verbatim>\<open>EQ\<close>, \<^verbatim>\<open>LT\<close> and \<^verbatim>\<open>Not\<close> (lines 1682-1722,
  1822-1983, 1993-2011).
\<close>

definition is_vector_node :: "expr \<Rightarrow> bool" where
  "is_vector_node ret = is_scalable_or_fixed_length_vector (dtype_of ret)"

definition ApplyRewriteRules_EQ ::
  "analyzer \<Rightarrow> (expr \<Rightarrow> failure + expr) \<Rightarrow> (expr \<Rightarrow> failure + expr) \<Rightarrow> expr \<Rightarrow> failure + expr" where
  "ApplyRewriteRules_EQ an visit rr ret =
     (case try_attempts
             (gated (is_vector_node ret)
                [rw [peq (pbroadcast px planes) (pbroadcast py planes)]
                    (pbroadcast (peq px py) planes)]) an ret of
        Some r \<Rightarrow> finish rr r
      | None \<Rightarrow>
          (case ret of
             EQ a b \<Rightarrow>
               if IsIndexType (dtype_of a)
               then (case TryCompare an visit a b of
                       Inl f \<Rightarrow> Inl f
                     | Inr result \<Rightarrow>
                         if result = kEQ then Inr (make_const (dtype_of ret) 1)
                         else if result = kNE \<or> result = kGT \<or> result = kLT
                         then Inr (make_const (dtype_of ret) 0)
                         else finish rr (first_outcome (EQ_index_rules (dtype_of ret)) an ret))
               else finish rr (first_outcome (EQ_other_rules (dtype_of ret)) an ret)
           | _ \<Rightarrow> Inr ret))"

definition ApplyRewriteRules_LT ::
  "analyzer \<Rightarrow> (expr \<Rightarrow> failure + expr) \<Rightarrow> (expr \<Rightarrow> failure + expr) \<Rightarrow> expr \<Rightarrow> failure + expr" where
  "ApplyRewriteRules_LT an visit rr ret =
     (case try_attempts
             (gated (is_vector_node ret)
                [rw [plt (pbroadcast px planes) (pbroadcast py planes)]
                    (pbroadcast (plt px py) planes),
                 rw [plt (pramp px ps1 planes) (pramp py ps1 planes)]
                    (pbroadcast (plt px py) planes)]) an ret of
        Some r \<Rightarrow> finish rr r
      | None \<Rightarrow>
          (case ret of
             LT a b \<Rightarrow>
               if IsIndexType (dtype_of a)
               then (case TryCompare an visit a b of
                       Inl f \<Rightarrow> Inl f
                     | Inr result \<Rightarrow>
                         if result = kLT then Inr (make_const (dtype_of ret) 1)
                         else if result = kEQ \<or> result = kGT \<or> result = kGE
                         then Inr (make_const (dtype_of ret) 0)
                         else finish rr
                                (first_outcome (LT_index_rules @ [merge_constants, common_factor]) an ret))
               else Inr ret
           | _ \<Rightarrow> Inr ret))"

definition ApplyRewriteRules_Not ::
  "analyzer \<Rightarrow> (expr \<Rightarrow> failure + expr) \<Rightarrow> expr \<Rightarrow> failure + expr" where
  "ApplyRewriteRules_Not an rr ret = finish rr (first_outcome (Not_rules (dtype_of ret)) an ret)"

text \<open>
  The visitors of the comparisons and of \<^verbatim>\<open>Not\<close> (lines 1668-1680, 1724-1820,
  1985-1991).
\<close>

definition fold_or_match ::
  "analyzer \<Rightarrow> simplifier_state \<Rightarrow> binop \<Rightarrow> expr \<Rightarrow> expr \<Rightarrow> expr option" where
  "fold_or_match an st op a b =
     (case TryConstFold an op a b of
        Some c \<Rightarrow> Some c
      | None \<Rightarrow> TryMatchLiteralConstraint st (mk_bin op a b))"

definition VisitExpr_EQ ::
  "analyzer \<Rightarrow> simplifier_state \<Rightarrow> (expr \<Rightarrow> failure + expr) \<Rightarrow> (expr \<Rightarrow> failure + expr) \<Rightarrow>
   expr \<Rightarrow> expr \<Rightarrow> failure + expr" where
  "VisitExpr_EQ an st visit rr a0 b0 =
     (case mutate_binary visit OpEQ a0 b0 of
        Inl f \<Rightarrow> Inl f
      | Inr (a, b) \<Rightarrow>
          (case fold_or_match an st OpEQ a b of
             Some c \<Rightarrow> Inr c
           | None \<Rightarrow> ApplyRewriteRules_EQ an visit rr (EQ a b)))"

definition not_of_EQ ::
  "analyzer \<Rightarrow> (expr \<Rightarrow> failure + expr) \<Rightarrow> (expr \<Rightarrow> failure + expr) \<Rightarrow> expr \<Rightarrow> expr \<Rightarrow> failure + expr" where
  "not_of_EQ an visit rr a b =
     (case ApplyRewriteRules_EQ an visit rr (EQ a b) of
        Inl f \<Rightarrow> Inl f
      | Inr e \<Rightarrow> ApplyRewriteRules_Not an rr (NotNode e))"

definition not_of_LT ::
  "analyzer \<Rightarrow> (expr \<Rightarrow> failure + expr) \<Rightarrow> (expr \<Rightarrow> failure + expr) \<Rightarrow> expr \<Rightarrow> expr \<Rightarrow> failure + expr" where
  "not_of_LT an visit rr a b =
     (case ApplyRewriteRules_LT an visit rr (LT a b) of
        Inl f \<Rightarrow> Inl f
      | Inr e \<Rightarrow> ApplyRewriteRules_Not an rr (NotNode e))"

definition VisitExpr_NE ::
  "analyzer \<Rightarrow> simplifier_state \<Rightarrow> (expr \<Rightarrow> failure + expr) \<Rightarrow> (expr \<Rightarrow> failure + expr) \<Rightarrow>
   expr \<Rightarrow> expr \<Rightarrow> failure + expr" where
  "VisitExpr_NE an st visit rr a0 b0 =
     (case mutate_binary visit OpNE a0 b0 of
        Inl f \<Rightarrow> Inl f
      | Inr (a, b) \<Rightarrow>
          (case fold_or_match an st OpNE a b of
             Some c \<Rightarrow> Inr c
           | None \<Rightarrow>
               if IsIndexType (dtype_of a)
               then (case TryCompare an visit a b of
                       Inl f \<Rightarrow> Inl f
                     | Inr result \<Rightarrow>
                         if result = kNE \<or> result = kGT \<or> result = kLT
                         then Inr (make_const (dtype_of (NE a b)) 1)
                         else if result = kEQ then Inr (make_const (dtype_of (NE a b)) 0)
                         else if result = kGE then ApplyRewriteRules_LT an visit rr (LT b a)
                         else if result = kLE then ApplyRewriteRules_LT an visit rr (LT a b)
                         else not_of_EQ an visit rr a b)
               else not_of_EQ an visit rr a b))"

definition VisitExpr_LE ::
  "analyzer \<Rightarrow> simplifier_state \<Rightarrow> (expr \<Rightarrow> failure + expr) \<Rightarrow> (expr \<Rightarrow> failure + expr) \<Rightarrow>
   expr \<Rightarrow> expr \<Rightarrow> failure + expr" where
  "VisitExpr_LE an st visit rr a0 b0 =
     (case mutate_binary visit OpLE a0 b0 of
        Inl f \<Rightarrow> Inl f
      | Inr (a1, b1) \<Rightarrow>
          (case fold_or_match an st OpLE a1 b1 of
             Some c \<Rightarrow> Inr c
           | None \<Rightarrow>
               (case not_of_LT an visit rr b1 a1 of
                  Inl f \<Rightarrow> Inl f
                | Inr ret \<Rightarrow>
                    (case ret of
                       LE a b \<Rightarrow>
                         if IsIndexType (dtype_of a)
                         then (case TryCompare an visit a b of
                                 Inl f \<Rightarrow> Inl f
                               | Inr result \<Rightarrow>
                                   if result = kLE \<or> result = kLT \<or> result = kEQ
                                   then Inr (make_const (dtype_of ret) 1)
                                   else if result = kGT then Inr (make_const (dtype_of ret) 0)
                                   else if result = kNE then ApplyRewriteRules_LT an visit rr (LT a b)
                                   else if result = kGE then ApplyRewriteRules_EQ an visit rr (EQ a b)
                                   else Inr ret)
                         else Inr ret
                     | _ \<Rightarrow> Inr ret))))"

definition VisitExpr_GT :: "analyzer \<Rightarrow> (expr \<Rightarrow> failure + expr) \<Rightarrow> expr \<Rightarrow> expr \<Rightarrow> failure + expr" where
  "VisitExpr_GT an visit a b = visit (op_expr an OpLT b a)"

definition VisitExpr_GE :: "analyzer \<Rightarrow> (expr \<Rightarrow> failure + expr) \<Rightarrow> expr \<Rightarrow> expr \<Rightarrow> failure + expr" where
  "VisitExpr_GE an visit a b = visit (op_expr an OpLE b a)"

definition VisitExpr_LT ::
  "analyzer \<Rightarrow> simplifier_state \<Rightarrow> (expr \<Rightarrow> failure + expr) \<Rightarrow> (expr \<Rightarrow> failure + expr) \<Rightarrow>
   expr \<Rightarrow> expr \<Rightarrow> failure + expr" where
  "VisitExpr_LT an st visit rr a0 b0 =
     (case mutate_binary visit OpLT a0 b0 of
        Inl f \<Rightarrow> Inl f
      | Inr (a, b) \<Rightarrow>
          (case fold_or_match an st OpLT a b of
             Some c \<Rightarrow> Inr c
           | None \<Rightarrow> ApplyRewriteRules_LT an visit rr (LT a b)))"

definition VisitExpr_Not ::
  "analyzer \<Rightarrow> simplifier_state \<Rightarrow> (expr \<Rightarrow> failure + expr) \<Rightarrow> (expr \<Rightarrow> failure + expr) \<Rightarrow>
   expr \<Rightarrow> failure + expr" where
  "VisitExpr_Not an st visit rr a0 =
     (case visit a0 of
        Inl f \<Rightarrow> Inl f
      | Inr a \<Rightarrow>
          (case TryConstFold_Not a of
             Some c \<Rightarrow> Inr c
           | None \<Rightarrow>
               (case TryMatchLiteralConstraint st (NotNode a) of
                  Some m \<Rightarrow> Inr m
                | None \<Rightarrow> ApplyRewriteRules_Not an rr (NotNode a))))"

text \<open>
  The visitors of \<^verbatim>\<open>AndNode\<close> and \<^verbatim>\<open>OrNode\<close> (lines 2013-2258) with the extensions
  \<^verbatim>\<open>kApplyConstraintsToBooleanBranches\<close> and \<^verbatim>\<open>kConvertBooleanToAndOfOrs\<close> switched
  off.  The two extensions enter constraints into the enclosing analyzer and call the
  converter to an AND of ORs, both outside this source file: with either switched on
  the visit is \<open>NotModelled\<close>.
\<close>

definition VisitExpr_connective ::
  "analyzer \<Rightarrow> simplifier_state \<Rightarrow> (expr \<Rightarrow> failure + expr) \<Rightarrow> (expr \<Rightarrow> failure + expr) \<Rightarrow>
   binop \<Rightarrow> (dtype \<Rightarrow> attempt list) \<Rightarrow> expr \<Rightarrow> expr \<Rightarrow> failure + expr" where
  "VisitExpr_connective an st visit rr op rules a0 b0 =
     (if kApplyConstraintsToBooleanBranches an \<or> kConvertBooleanToAndOfOrs an then Inl NotModelled
      else
        (case mutate_binary visit op a0 b0 of
           Inl f \<Rightarrow> Inl f
         | Inr (a, b) \<Rightarrow>
             (case fold_or_match an st op a b of
                Some c \<Rightarrow> Inr c
              | None \<Rightarrow> finish rr (first_outcome (rules (dtype_of (mk_bin op a b))) an (mk_bin op a b)))))"

definition VisitExpr_And where
  "VisitExpr_And an st visit rr = VisitExpr_connective an st visit rr OpAnd And_rules"

definition VisitExpr_Or where
  "VisitExpr_Or an st visit rr = VisitExpr_connective an st visit rr OpOr Or_rules"

text \<open>
  \<^verbatim>\<open>RecursiveRewrite\<close>, declared outside this source file, visits its argument one
  level deeper and returns it as it is once the recursion limit is reached (modelled
  from the spec: "the produced expression re-enters the mutator from the top and is
  bounded").  \<open>rec d\<close> is \<^verbatim>\<open>VisitExpr\<close> at recursion depth \<open>d\<close>.
\<close>

definition RecursiveRewrite ::
  "analyzer \<Rightarrow> (nat \<Rightarrow> expr \<Rightarrow> failure + expr) \<Rightarrow> nat \<Rightarrow> expr \<Rightarrow> failure + expr" where
  "RecursiveRewrite an rec depth x =
     (if depth \<ge> kMaxRecurDepth an then Inr x else rec (depth + 1) x)"

text \<open>
  \<^verbatim>\<open>VisitExpr\<close>: the dispatch on the kind of the node.  Literals are returned as they
  are and a vector constructor is rebuilt from its visited operands (the inherited
  mutator).  The visitors of \<^verbatim>\<open>Select\<close>, \<^verbatim>\<open>Call\<close>, \<^verbatim>\<open>Cast\<close> and \<^verbatim>\<open>Let\<close> depend on
  the constraint scopes and bindings of the enclosing analyzer and on \<^verbatim>\<open>cast\<close>, all
  outside this source file; visiting such a node is \<open>NotModelled\<close>.
\<close>

definition VisitExpr_step ::
  "analyzer \<Rightarrow> simplifier_state \<Rightarrow> (nat \<Rightarrow> expr \<Rightarrow> failure + expr) \<Rightarrow> nat \<Rightarrow> expr \<Rightarrow> failure + expr" where
  "VisitExpr_step an st rec depth e =
     (let visit = rec depth; rr = RecursiveRewrite an rec depth
      in case e of
           IntImm t v \<Rightarrow> Inr e
         | FloatImm t v \<Rightarrow> Inr e
         | StringImm s \<Rightarrow> Inr e
         | Var n t \<Rightarrow> Inr (VisitExpr_Var st e)
         | Add a b \<Rightarrow> VisitExpr_Add an visit rr a b
         | Sub a b \<Rightarrow> VisitExpr_Sub an visit rr a b
         | Mul a b \<Rightarrow> VisitExpr_Mul an visit rr a b
         | Div a b \<Rightarrow> VisitExpr_Div an visit rr a b
         | Mod a b \<Rightarrow> VisitExpr_Mod an visit rr a b
         | FloorDiv a b \<Rightarrow> VisitExpr_FloorDiv an visit rr a b
         | FloorMod a b \<Rightarrow> VisitExpr_FloorMod an visit rr a b
         | MinNode a b \<Rightarrow> VisitExpr_Min an visit rr a b
         | MaxNode a b \<Rightarrow> VisitExpr_Max an visit rr a b
         | EQ a b \<Rightarrow> VisitExpr_EQ an st visit rr a b
         | NE a b \<Rightarrow> VisitExpr_NE an st visit rr a b
         | LT a b \<Rightarrow> VisitExpr_LT an st visit rr a b
         | LE a b \<Rightarrow> VisitExpr_LE an st visit rr a b
         | GT a b \<Rightarrow> VisitExpr_GT an visit a b
         | GE a b \<Rightarrow> VisitExpr_GE an visit a b
         | And a b \<Rightarrow> VisitExpr_And an st visit rr a b
         | Or a b \<Rightarrow> VisitExpr_Or an st visit rr a b
         | NotNode a \<Rightarrow> VisitExpr_Not an st visit rr a
         | Ramp b s l \<Rightarrow>
             (case visit b of
                Inl f \<Rightarrow> Inl f
              | Inr b' \<Rightarrow>
                  (case visit s of
                     Inl f \<Rightarrow> Inl f
                   | Inr s' \<Rightarrow> (case visit l of Inl f \<Rightarrow> Inl f | Inr l' \<Rightarrow> Inr (Ramp b' s' l'))))
         | Broadcast v l \<Rightarrow>
             (case visit v of
                Inl f \<Rightarrow> Inl f
              | Inr v' \<Rightarrow> (case visit l of Inl f \<Rightarrow> Inl f | Inr l' \<Rightarrow> Inr (Broadcast v' l')))
         | _ \<Rightarrow> Inl NotModelled)"

text \<open>
  The recursion of \<^verbatim>\<open>VisitExpr\<close> is bounded here by a budget of nested calls; the
  result \<open>OutOfFuel\<close> says that the budget did not suffice.
\<close>

primrec VisitExpr :: "nat \<Rightarrow> analyzer \<Rightarrow> simplifier_state \<Rightarrow> nat \<Rightarrow> expr \<Rightarrow> failure + expr" where
  "VisitExpr 0 an st depth e = Inl OutOfFuel"
| "VisitExpr (Suc fuel) an st depth e = VisitExpr_step an st (VisitExpr fuel an st) depth e"

text \<open>
  The public entry point \<^verbatim>\<open>RewriteSimplifier::operator()\<close> (lines 2395-2405): at most
  two passes of the rewrite core, the loop ending early when a pass returns its input.
  \<^verbatim>\<open>same_as\<close> compares references; a pass that returns a deep-equal copy of its input
  is followed by a second pass on it, which computes the same result again, so the
  comparison is modelled by deep equality.
\<close>

definition simplify :: "nat \<Rightarrow> analyzer \<Rightarrow> simplifier_state \<Rightarrow> expr \<Rightarrow> failure + expr" where
  "simplify fuel an st expr =
     (case VisitExpr fuel an st 0 expr of
        Inl f \<Rightarrow> Inl f
      | Inr new_expr1 \<Rightarrow>
          if new_expr1 = expr then Inr expr
          else (case VisitExpr fuel an st 0 new_expr1 of
                  Inl f \<Rightarrow> Inl f
                | Inr new_expr2 \<Rightarrow> if new_expr2 = new_expr1 then Inr new_expr1 else Inr new_expr2))"

text \<open>
  Modelled from the spec: \<^verbatim>\<open>ExtractConstraints\<close> splits a constraint "into
  sub-constraints via top-level conjunction".
\<close>

fun ExtractConstraints :: "expr \<Rightarrow> expr list" where
  "ExtractConstraints (And a b) = ExtractConstraints a @ ExtractConstraints b"
| "ExtractConstraints e = [e]"

text \<open>
  Evaluation of an integer or boolean expression under an environment of the free
  variables, for the statement of semantic equivalence (a boolean is 0 or 1; a
  division or remainder by zero has no value; vectors, floats, calls, casts and
  bindings are outside this evaluation).
\<close>

definition lift2 :: "(int \<Rightarrow> int \<Rightarrow> int option) \<Rightarrow> int option \<Rightarrow> int option \<Rightarrow> int option" where
  "lift2 f a b = (case a of None \<Rightarrow> None | Some x \<Rightarrow> (case b of None \<Rightarrow> None | Some y \<Rightarrow> f x y))"

definition of_bool_int :: "bool \<Rightarrow> int option" where
  "of_bool_int b = Some (if b then 1 else 0)"

fun eval :: "(string \<Rightarrow> int) \<Rightarrow> expr \<Rightarrow> int option" where
  "eval \<rho> (IntImm t v) = Some v"
| "eval \<rho> (Var n t) = Some (\<rho> n)"
| "eval \<rho> (Add a b) = lift2 (\<lambda>x y. Some (x + y)) (eval \<rho> a) (eval \<rho> b)"
| "eval \<rho> (Sub a b) = lift2 (\<lambda>x y. Some (x - y)) (eval \<rho> a) (eval \<rho> b)"
| "eval \<rho> (Mul a b) = lift2 (\<lambda>x y. Some (x * y)) (eval \<rho> a) (eval \<rho> b)"
| "eval \<rho> (Div a b) = lift2 (\<lambda>x y. if y = 0 then None else Some (truncdiv x y)) (eval \<rho> a) (eval \<rho> b)"
| "eval \<rho> (Mod a b) = lift2 (\<lambda>x y. if y = 0 then None else Some (truncmod x y)) (eval \<rho> a) (eval \<rho> b)"
| "eval \<rho> (FloorDiv a b) = lift2 (\<lambda>x y. if y = 0 then None else Some (x div y)) (eval \<rho> a) (eval \<rho> b)"
| "eval \<rho> (FloorMod a b) = lift2 (\<lambda>x y. if y = 0 then None else Some (x mod y)) (eval \<rho> a) (eval \<rho> b)"
| "eval \<rho> (MinNode a b) = lift2 (\<lambda>x y. Some (min x y)) (eval \<rho> a) (eval \<rho> b)"
| "eval \<rho> (MaxNode a b) = lift2 (\<lambda>x y. Some (max x y)) (eval \<rho> a) (eval \<rho> b)"
| "eval \<rho> (EQ a b) = lift2 (\<lambda>x y. of_bool_int (x = y)) (eval \<rho> a) (eval \<rho> b)"
| "eval \<rho> (NE a b) = lift2 (\<lambda>x y. of_bool_int (x \<noteq> y)) (eval \<rho> a) (eval \<rho> b)"
| "eval \<rho> (LT a b) = lift2 (\<lambda>x y. of_bool_int (x < y)) (eval \<rho> a) (eval \<rho> b)"
| "eval \<rho> (LE a b) = lift2 (\<lambda>x y. of_bool_int (x \<le> y)) (eval \<rho> a) (eval \<rho> b)"
| "eval \<rho> (GT a b) = lift2 (\<lambda>x y. of_bool_int (x > y)) (eval \<rho> a) (eval \<rho> b)"
| "eval \<rho> (GE a b) = lift2 (\<lambda>x y. of_bool_int (x \<ge> y)) (eval \<rho> a) (eval \<rho> b)"
| "eval \<rho> (And a b) = lift2 (\<lambda>x y. of_bool_int (x \<noteq> 0 \<and> y \<noteq> 0)) (eval \<rho> a) (eval \<rho> b)"
| "eval \<rho> (Or a b) = lift2 (\<lambda>x y. of_bool_int (x \<noteq> 0 \<or> y \<noteq> 0)) (eval \<rho> a) (eval \<rho> b)"
| "eval \<rho> (NotNode a) = (case eval \<rho> a of None \<Rightarrow> None | Some x \<Rightarrow> of_bool_int (x = 0))"
| "eval \<rho> (Select c t e) =
     (case eval \<rho> c of None \<Rightarrow> None | Some x \<Rightarrow> if x \<noteq> 0 then eval \<rho> t else eval \<rho> e)"
| "eval \<rho> e = None"

section \<open>Example inputs\<close>

text \<open>
  A state with an empty constraint stack, and an analyzer with the comparison of
  product and sum switched on that knows bounds of five expressions:
  \<open>a, b \<in> [1, 4]\<close>, \<open>c \<in> [8, 100]\<close>, \<open>e \<in> [1, 2]\<close> and \<open>0 - d \<in> [1, \<infinity>)\<close>.
\<close>

definition empty_state :: simplifier_state where
  "empty_state = \<lparr>literal_constraints = [], var_map = [], constraints_entered = 0\<rparr>"



section \<open>Properties\<close>

lemma TryConstFold_literal:
  "TryConstFold an op a b = Some c \<Longrightarrow> (\<exists>t v. c = IntImm t v) \<or> (\<exists>t v. c = FloatImm t v)"
  by (cases "(an, op, a, b)" rule: TryConstFold.cases; cases op)
     (auto simp: bool_literal_def split: if_splits)

lemma op_expr_no_shape:
  "op \<in> {OpAnd, OpOr, OpLE, OpLT, OpNE, OpEQ} \<Longrightarrow> \<not> boolean_rule_shape (op_expr an op a b)"
  by (auto simp: op_expr_def split: option.splits dest: TryConstFold_literal)

lemma NormalizeBooleanOperators_no_shape:
  "\<not> boolean_rule_shape e \<Longrightarrow> NormalizeBooleanOperators an e = e"
  by (induction an e rule: NormalizeBooleanOperators.induct) simp_all

lemma NormalizeBooleanOperators_result_no_shape:
  "\<not> boolean_rule_shape (NormalizeBooleanOperators an e)"
  by (induction an e rule: NormalizeBooleanOperators.induct) (simp_all add: op_expr_no_shape)

text \<open>
  C8.  \<^verbatim>\<open>NormalizeBooleanOperators\<close> applies exactly these rules, the right-hand sides
  being built with the operators on expressions as in the source (they fold when both
  operands are literals and build the node otherwise; \<open>!a\<close> is \<open>not_expr a\<close>):
  \<open>!!x\<close> becomes \<open>x\<close> (and normalisation goes on), \<open>!(x || y)\<close> becomes the
  conjunction of the normalised \<open>!x\<close> and \<open>!y\<close>, \<open>!(x && y)\<close> the disjunction;
  \<open>x >= y\<close>, \<open>!(x < y)\<close> and \<open>!(y > x)\<close> become \<open>y <= x\<close>; \<open>x > y\<close>,
  \<open>!(x <= y)\<close> and \<open>!(y >= x)\<close> become \<open>y < x\<close>; \<open>!(x == y)\<close> becomes
  \<open>x != y\<close> and \<open>!(x != y)\<close> becomes \<open>x == y\<close>.  An expression of none of these
  shapes is returned unchanged, and the result is a fixed point: it has none of the
  shapes at its root and normalising it again changes nothing.
\<close>

theorem NormalizeBooleanOperators_rules:
  "NormalizeBooleanOperators an (NotNode (NotNode x)) = NormalizeBooleanOperators an x
   \<and> NormalizeBooleanOperators an (NotNode (Or x y)) =
       op_expr an OpAnd (NormalizeBooleanOperators an (not_expr x))
                        (NormalizeBooleanOperators an (not_expr y))
   \<and> NormalizeBooleanOperators an (NotNode (And x y)) =
       op_expr an OpOr (NormalizeBooleanOperators an (not_expr x))
                       (NormalizeBooleanOperators an (not_expr y))
   \<and> NormalizeBooleanOperators an (GE x y) = op_expr an OpLE y x
   \<and> NormalizeBooleanOperators an (NotNode (LT x y)) = op_expr an OpLE y x
   \<and> NormalizeBooleanOperators an (NotNode (GT y x)) = op_expr an OpLE y x
   \<and> NormalizeBooleanOperators an (GT x y) = op_expr an OpLT y x
   \<and> NormalizeBooleanOperators an (NotNode (LE x y)) = op_expr an OpLT y x
   \<and> NormalizeBooleanOperators an (NotNode (GE y x)) = op_expr an OpLT y x
   \<and> NormalizeBooleanOperators an (NotNode (EQ x y)) = op_expr an OpNE x y
   \<and> NormalizeBooleanOperators an (NotNode (NE x y)) = op_expr an OpEQ x y
   \<and> (\<not> boolean_rule_shape e \<longrightarrow> NormalizeBooleanOperators an e = e)
   \<and> \<not> boolean_rule_shape (NormalizeBooleanOperators an e)
   \<and> NormalizeBooleanOperators an (NormalizeBooleanOperators an e) = NormalizeBooleanOperators an e"
  using NormalizeBooleanOperators_no_shape [of e an]
    NormalizeBooleanOperators_result_no_shape [of an e]
    NormalizeBooleanOperators_no_shape [of "NormalizeBooleanOperators an e" an]
  by simp

theorem NormalizeBooleanOperators_rules_witness:
  "\<not> boolean_rule_shape (And (NotNode (NotNode (Var ''p'' Bool))) (Var ''q'' Bool))
   \<and> NormalizeBooleanOperators literal_analyzer
       (And (NotNode (NotNode (Var ''p'' Bool))) (Var ''q'' Bool)) =
       And (NotNode (NotNode (Var ''p'' Bool))) (Var ''q'' Bool)
   \<and> NormalizeBooleanOperators literal_analyzer
       (NotNode (Or (NotNode (Var ''p'' Bool)) (LT (Var ''i'' Int32) (Var ''j'' Int32)))) =
       And (Var ''p'' Bool) (LE (Var ''j'' Int32) (Var ''i'' Int32))"
  using NormalizeBooleanOperators_rules
    [of literal_analyzer "Var ''p'' Bool" "Var ''q'' Bool"
        "And (NotNode (NotNode (Var ''p'' Bool))) (Var ''q'' Bool)"]
  by (simp add: op_expr_def not_expr_def)

lemma length_push_subconstraints:
  "length stack \<le> length (push_subconstraints an subs stack)"
proof (induction subs arbitrary: stack)
  case Nil
  show ?case by simp
next
  case (Cons s subs)
  have "length stack \<le> length (stack @ [s, NotNode (negation_of an s)])" by simp
  also have "\<dots> \<le> length (push_subconstraints an subs (stack @ [s, NotNode (negation_of an s)]))"
    by (rule Cons.IH)
  finally show ?case using Cons.IH [of stack] by simp
qed

lemma push_subconstraints_prefix:
  "take (length stack) (push_subconstraints an subs stack) = stack"
proof (induction subs arbitrary: stack)
  case Nil
  show ?case by simp
next
  case (Cons s subs)
  let ?stack' = "stack @ [s, NotNode (negation_of an s)]"
  have "take (length stack) (push_subconstraints an subs ?stack') =
        take (length stack) (take (length ?stack') (push_subconstraints an subs ?stack'))"
    by (simp add: min_def)
  also have "\<dots> = take (length stack) ?stack'" by (simp only: Cons.IH)
  also have "\<dots> = stack" by simp
  finally show ?case using Cons.IH [of stack] by simp
qed

text \<open>
  C7.  Calling the restore handle returned by \<^verbatim>\<open>EnterConstraint\<close>, on a state whose
  stack has the size recorded when the handle was made, succeeds and leaves the stack
  exactly as it was before \<^verbatim>\<open>EnterConstraint\<close>, so with its prior size.  Calling it on
  a state whose stack has any other size (a restore out of order, or a second call
  after entries were popped) fails the assertion.
\<close>

theorem EnterConstraint_stack_discipline:
  assumes "EnterConstraint rewrite split an st c = Inr (st', h)"
  shows "(\<exists>st''. frecover h st' = Inr st''
            \<and> literal_constraints st'' = literal_constraints st
            \<and> length (literal_constraints st'') = length (literal_constraints st))
         \<and> (\<forall>s. length (literal_constraints s) \<noteq> new_literal_size h \<longrightarrow> frecover h s = Inl CheckFailed)
         \<and> (\<forall>s. length (literal_constraints s) = new_literal_size h \<longrightarrow>
               (\<exists>s'. frecover h s = Inr s'
                  \<and> length (literal_constraints s') = length (literal_constraints st)))"
proof -
  from assms obtain n where n: "rewrite st c = Inr n"
    by (auto simp: EnterConstraint_def split: sum.splits)
  let ?stack = "push_subconstraints an (split n) (literal_constraints st)"
  from assms n have st': "literal_constraints st' = ?stack"
    and h: "old_literal_size h = length (literal_constraints st)" "new_literal_size h = length ?stack"
    by (auto simp: EnterConstraint_def Let_def)
  have le: "length (literal_constraints st) \<le> length ?stack"
    by (rule length_push_subconstraints)
  have pre: "take (length (literal_constraints st)) ?stack = literal_constraints st"
    by (rule push_subconstraints_prefix)
  have 1: "\<exists>st''. frecover h st' = Inr st''
            \<and> literal_constraints st'' = literal_constraints st
            \<and> length (literal_constraints st'') = length (literal_constraints st)"
    using st' h le pre by (simp add: frecover_def resize_def)
  have 2: "\<forall>s. length (literal_constraints s) \<noteq> new_literal_size h \<longrightarrow> frecover h s = Inl CheckFailed"
    by (simp add: frecover_def)
  have 3: "\<forall>s. length (literal_constraints s) = new_literal_size h \<longrightarrow>
               (\<exists>s'. frecover h s = Inr s'
                  \<and> length (literal_constraints s') = length (literal_constraints st))"
    using h le by (simp add: frecover_def resize_def min_def)
  from 1 2 3 show ?thesis by blast
qed

theorem EnterConstraint_stack_discipline_witness:
  "EnterConstraint (\<lambda>st. VisitExpr 1 literal_analyzer st 0) ExtractConstraints literal_analyzer
     \<lparr>literal_constraints = [LT (Var ''i'' Int32) (Var ''n'' Int32)], var_map = [], constraints_entered = 1\<rparr>
     (Var ''p'' Bool)
   = Inr (\<lparr>literal_constraints = [LT (Var ''i'' Int32) (Var ''n'' Int32), Var ''p'' Bool,
                               NotNode (NotNode (Var ''p'' Bool))],
        var_map = [], constraints_entered = 2\<rparr>,
      \<lparr>old_literal_size = 1, new_literal_size = 3\<rparr>)
   \<and> frecover \<lparr>old_literal_size = 1, new_literal_size = 3\<rparr>
       \<lparr>literal_constraints = [LT (Var ''i'' Int32) (Var ''n'' Int32), Var ''p'' Bool,
                               NotNode (NotNode (Var ''p'' Bool))],
        var_map = [], constraints_entered = 2\<rparr>
     = Inr \<lparr>literal_constraints = [LT (Var ''i'' Int32) (Var ''n'' Int32)], var_map = [],
            constraints_entered = 2\<rparr>
   \<and> frecover \<lparr>old_literal_size = 1, new_literal_size = 3\<rparr>
       \<lparr>literal_constraints = [LT (Var ''i'' Int32) (Var ''n'' Int32)], var_map = [],
        constraints_entered = 2\<rparr>
     = Inl CheckFailed"
proof -
  have eq: "EnterConstraint (\<lambda>st. VisitExpr 1 literal_analyzer st 0) ExtractConstraints literal_analyzer
     \<lparr>literal_constraints = [LT (Var ''i'' Int32) (Var ''n'' Int32)], var_map = [], constraints_entered = 1\<rparr>
     (Var ''p'' Bool)
   = Inr (\<lparr>literal_constraints = [LT (Var ''i'' Int32) (Var ''n'' Int32), Var ''p'' Bool,
                               NotNode (NotNode (Var ''p'' Bool))],
        var_map = [], constraints_entered = 2\<rparr>,
      \<lparr>old_literal_size = 1, new_literal_size = 3\<rparr>)"
    by (simp add: EnterConstraint_def Let_def negation_of_def is_bool_def Bool_def Int32_def
        literal_analyzer_def VisitExpr_step_def VisitExpr_Var_def TryMatchLiteralConstraint_def)
  from EnterConstraint_stack_discipline [OF eq] eq show ?thesis
    by (simp add: frecover_def resize_def)
qed

text \<open>
  C9.  When the node rebuilt from the simplified children is a selection whose two
  branches are deep-equal, the visitor returns that branch and drops the condition,
  whatever the condition is (its side effects are not consulted) and whatever the
  data type of the node.
\<close>

theorem VisitExpr_Select_equal_branches:
  "mutate op = Select cond y y \<Longrightarrow> VisitExpr_Select mutate op = y"
  by (simp add: VisitExpr_Select_def)

theorem VisitExpr_Select_equal_branches_witness:
  "(\<lambda>e. e) (Select (Call Bool ''tir.call_extern'' [StringImm ''next_bit''])
              (Var ''v'' Float32) (Var ''v'' Float32))
     = Select (Call Bool ''tir.call_extern'' [StringImm ''next_bit'']) (Var ''v'' Float32) (Var ''v'' Float32)
   \<and> VisitExpr_Select (\<lambda>e. e)
       (Select (Call Bool ''tir.call_extern'' [StringImm ''next_bit''])
          (Var ''v'' Float32) (Var ''v'' Float32))
     = Var ''v'' Float32"
  using VisitExpr_Select_equal_branches
    [of "\<lambda>e. e" "Select (Call Bool ''tir.call_extern'' [StringImm ''next_bit''])
              (Var ''v'' Float32) (Var ''v'' Float32)"
        "Call Bool ''tir.call_extern'' [StringImm ''next_bit'']" "Var ''v'' Float32"]
  by simp










text \<open>
  C6.  At a division or a remainder of two integer literals of an index type with
  divisor zero the visitors do not return the node: folding gives nothing, and the
  division visitor then folds again with C++ division (line 819) while the remainder
  visitor computes a C++ remainder by the divisor (line 1006), both without a test of
  the divisor.  The sibling visitor of floored division does return the node
  unchanged (line 1070; shown with the analyzer of the examples).
\<close>

theorem Div_Mod_by_zero_literal:
  "simplify (Suc (Suc fuel)) an st (Div (IntImm Int32 7) (IntImm Int32 0)) = Inl DivideByZero
   \<and> simplify (Suc (Suc fuel)) an st (Mod (IntImm Int32 7) (IntImm Int32 0)) = Inl DivideByZero
   \<and> simplify 2 literal_analyzer empty_state (FloorDiv (IntImm Int32 7) (IntImm Int32 0))
       = Inr (FloorDiv (IntImm Int32 7) (IntImm Int32 0))"
proof -
  have 1: "VisitExpr (Suc (Suc fuel)) an st 0 (Div (IntImm Int32 7) (IntImm Int32 0)) = Inl DivideByZero"
    by (simp add: VisitExpr_step_def VisitExpr_Div_def visit_binary_def mutate_binary_def
        first_outcome_def finish_def Div_rules_def gated_def Div_float_divisor_def
        is_scalable_or_fixed_length_vector_def IsIndexType_def Int32_def Div_refold_def
        on_match_def bind_var_def c1v_def c2v_def int_value_def var_value_def)
  have 2: "VisitExpr (Suc (Suc fuel)) an st 0 (Mod (IntImm Int32 7) (IntImm Int32 0)) = Inl DivideByZero"
    by (simp add: VisitExpr_step_def VisitExpr_Mod_def visit_binary_def mutate_binary_def
        first_outcome_def finish_def Mod_rules_def gated_def rw_if_def
        is_scalable_or_fixed_length_vector_def IsIndexType_def Int32_def Mod_negative_divisor_def
        Mod_modular_def c1_divisible_by_c2_def
        on_match_def bind_var_def c1v_def c2v_def int_value_def var_value_def split: prod.splits)
  have 3: "simplify 2 literal_analyzer empty_state (FloorDiv (IntImm Int32 7) (IntImm Int32 0))
             = Inr (FloorDiv (IntImm Int32 7) (IntImm Int32 0))"
    by code_simp
  from 1 2 3 show ?thesis by (simp add: simplify_def)
qed

lemma op_expr_Mul_not_Div: "op_expr an OpMul a b \<noteq> Div x y"
  by (auto simp: op_expr_def split: option.splits dest: TryConstFold_literal)

text \<open>
  The reciprocal at some doubles: \<open>1/3\<close> (inexact, rounded down), \<open>1/2\<close>, \<open>1/10\<close>
  (inexact, rounded up), the two zeros, the two infinities, the largest double (whose
  reciprocal is subnormal), the smallest subnormal (whose reciprocal overflows) and a
  signalling NaN.
\<close>

lemma double_reciprocal_examples:
  "double_reciprocal 0x4008000000000000 = 0x3FD5555555555555"
  "double_reciprocal 0x4000000000000000 = 0x3FE0000000000000"
  "double_reciprocal 0x4024000000000000 = 0x3FB999999999999A"
  "double_reciprocal 0 = 0x7FF0000000000000"
  "double_reciprocal 0x8000000000000000 = 0xFFF0000000000000"
  "double_reciprocal 0x7FF0000000000000 = 0"
  "double_reciprocal 0xFFF0000000000000 = 0x8000000000000000"
  "double_reciprocal 0x7FEFFFFFFFFFFFFF = 0x0004000000000000"
  "double_reciprocal 0x0000000000000001 = 0x7FF0000000000000"
  "double_reciprocal 0x7FF0000000000001 = 0x7FF8000000000001"
  by code_simp+

text \<open>
  C10 (as amended).  When the divisor of the rebuilt division is a float literal \<open>c\<close>:
  if constant folding gives a literal (line 767), that literal is returned; otherwise,
  if the type of the node passes the check of line 777 (a float, bfloat16 or
  registered custom type), the visitor returns the product, built by the operator
  \<^verbatim>\<open>*\<close>, of the dividend with the literal of the double \<open>1.0 / c\<close>, whatever the value of
  \<open>c\<close> and whether or not the quotient is exact; otherwise the check fails.  In no
  case is the returned node itself a division by a float literal.
\<close>

theorem VisitExpr_Div_float_literal_divisor:
  assumes "mutate_binary visit OpDiv a0 b0 = Inr (a, FloatImm t c)"
  shows "VisitExpr_Div an visit rr a0 b0 =
           (case TryConstFold an OpDiv a (FloatImm t c) of
              Some literal \<Rightarrow> Inr literal
            | None \<Rightarrow>
                if float_div_type_ok an (dtype_of a)
                then Inr (op_expr an OpMul a (FloatImm t (double_reciprocal c)))
                else Inl CheckFailed)
         \<and> (\<forall>x d w. VisitExpr_Div an visit rr a0 b0 \<noteq> Inr (Div x (FloatImm d w)))"
proof -
  have eq: "VisitExpr_Div an visit rr a0 b0 =
           (case TryConstFold an OpDiv a (FloatImm t c) of
              Some literal \<Rightarrow> Inr literal
            | None \<Rightarrow>
                if float_div_type_ok an (dtype_of a)
                then Inr (op_expr an OpMul a (FloatImm t (double_reciprocal c)))
                else Inl CheckFailed)"
    using assms
    by (simp add: VisitExpr_Div_def visit_binary_def first_outcome_def finish_def Div_rules_def
        Div_float_divisor_def split: option.splits)
  show ?thesis
    unfolding eq
    by (auto split: option.splits dest: TryConstFold_literal simp: op_expr_Mul_not_Div)
qed

theorem VisitExpr_Div_float_literal_divisor_witness:
  "mutate_binary (VisitExpr 1 literal_analyzer empty_state 0) OpDiv
       (Var ''v'' Float64) (FloatImm Float64 0x4008000000000000)
     = Inr (Var ''v'' Float64, FloatImm Float64 0x4008000000000000)
   \<and> VisitExpr_Div literal_analyzer (VisitExpr 1 literal_analyzer empty_state 0)
       (RecursiveRewrite literal_analyzer (VisitExpr 1 literal_analyzer empty_state) 0)
       (Var ''v'' Float64) (FloatImm Float64 0x4008000000000000)
     = Inr (Mul (Var ''v'' Float64) (FloatImm Float64 0x3FD5555555555555))
   \<and> VisitExpr_Div literal_analyzer (VisitExpr 1 literal_analyzer empty_state 0)
       (RecursiveRewrite literal_analyzer (VisitExpr 1 literal_analyzer empty_state) 0)
       (Var ''v'' Float64) (FloatImm Float64 0)
     = Inr (Mul (Var ''v'' Float64) (FloatImm Float64 0x7FF0000000000000))"
proof -
  have m: "mutate_binary (VisitExpr 1 literal_analyzer empty_state 0) OpDiv
       (Var ''v'' Float64) (FloatImm Float64 c)
     = Inr (Var ''v'' Float64, FloatImm Float64 c)" for c
    by (simp add: mutate_binary_def VisitExpr_step_def VisitExpr_Var_def Float64_def Bool_def
        empty_state_def)
  have r: "double_reciprocal 0x4008000000000000 = 0x3FD5555555555555"
    "double_reciprocal 0 = 0x7FF0000000000000"
    by code_simp+
  from VisitExpr_Div_float_literal_divisor [OF m, of literal_analyzer]
    VisitExpr_Div_float_literal_divisor [OF m, of literal_analyzer] m r
  show ?thesis
    by (simp add: op_expr_def float_div_type_ok_def Float64_def literal_analyzer_def)
qed

text \<open>
  The claim as stated fails at \<open>5.0 / 3.0\<close>: the result is the folded quotient, which
  is another double than the product of \<open>5.0\<close> with the literal \<open>1.0 / 3.0\<close>.
\<close>

theorem VisitExpr_Div_float_literal_divisor_counterexample:
  "simplify 2 literal_analyzer empty_state
     (Div (FloatImm Float64 0x4014000000000000) (FloatImm Float64 0x4008000000000000))
   = Inr (FloatImm Float64 0x3FFAAAAAAAAAAAAB)
   \<and> op_expr literal_analyzer OpMul (FloatImm Float64 0x4014000000000000)
       (FloatImm Float64 (double_reciprocal 0x4008000000000000))
     = FloatImm Float64 0x3FFAAAAAAAAAAAAA
   \<and> FloatImm Float64 0x3FFAAAAAAAAAAAAB \<noteq> FloatImm Float64 0x3FFAAAAAAAAAAAAA"
  by code_simp

lemmas rule_defs = rw_def rw_if_def rrw_def rrw_if_def on_match_def gated_def bind_var_def
  first_outcome_def IsIndexType_def is_scalable_or_fixed_length_vector_def Int32_def
  c1v_def c2v_def c3v_def int_value_def var_value_def

lemma truncmod_one: "truncmod a 1 = 0"
  by (simp add: truncmod_def truncdiv_def mult_sgn_abs)

lemma Mul_rules_x_times_4:
  "first_outcome (Mul_rules Int32) an (Mul (Var ''x'' Int32) (IntImm Int32 4))
   = Return (Mul (Var ''x'' Int32) (IntImm Int32 4))"
  by (simp add: Mul_rules_def rule_defs)

lemma Add_rules_x_times_4_plus_2:
  "first_outcome (Add_rules Int32) an (Add (Mul (Var ''x'' Int32) (IntImm Int32 4)) (IntImm Int32 2))
   = Return (Add (Mul (Var ''x'' Int32) (IntImm Int32 4)) (IntImm Int32 2))"
  by (simp add: Add_rules_def rule_defs)

lemma FloorMod_rules_first_pass:
  "CanProveEqual an (IntImm Int32 0) 0 \<Longrightarrow>
   first_outcome (FloorMod_rules Int32) an
     (FloorMod (Add (Mul (Var ''x'' Int32) (IntImm Int32 4)) (IntImm Int32 2)) (IntImm Int32 4))
   = Return (Add (Mul (FloorMod (Var ''x'' Int32) (IntImm Int32 1)) (IntImm Int32 4)) (IntImm Int32 2))"
  by (simp add: FloorMod_rules_def rule_defs truncmod_def truncdiv_def wrap_def)

lemma FloorMod_rules_second_pass:
  "\<not> ContainsVscaleCall an (IntImm Int32 1) \<Longrightarrow>
   first_outcome (FloorMod_rules Int32) an (FloorMod (Var ''x'' Int32) (IntImm Int32 1))
   = Return (IntImm Int32 0)"
  by (simp add: FloorMod_rules_def rule_defs FloorMod_modular_def truncmod_one wrap_def
      make_const_def make_const_scalar_def is_float_code_def split: prod.splits)

lemma floormod_example_first_pass:
  assumes "map_lookup (var_map st) (Var ''x'' Int32) = None" "CanProveEqual an (IntImm Int32 0) 0"
  shows "VisitExpr (Suc (Suc (Suc (Suc fuel)))) an st 0
     (FloorMod (Add (Mul (Var ''x'' Int32) (IntImm Int32 4)) (IntImm Int32 2)) (IntImm Int32 4))
   = Inr (Add (Mul (FloorMod (Var ''x'' Int32) (IntImm Int32 1)) (IntImm Int32 4)) (IntImm Int32 2))"
  using assms Mul_rules_x_times_4 [of an] Add_rules_x_times_4_plus_2 [of an]
    FloorMod_rules_first_pass [of an]
  by (simp add: VisitExpr_step_def VisitExpr_FloorMod_def VisitExpr_Add_def VisitExpr_Mul_def
      visit_binary_def mutate_binary_def VisitExpr_Var_def finish_def Int32_def Bool_def)

lemma floormod_example_second_pass:
  assumes "map_lookup (var_map st) (Var ''x'' Int32) = None" "\<not> ContainsVscaleCall an (IntImm Int32 1)"
  shows "VisitExpr (Suc (Suc (Suc (Suc fuel)))) an st 0
     (Add (Mul (FloorMod (Var ''x'' Int32) (IntImm Int32 1)) (IntImm Int32 4)) (IntImm Int32 2))
   = Inr (IntImm Int32 2)"
  using assms FloorMod_rules_second_pass [of an]
  by (simp add: VisitExpr_step_def VisitExpr_FloorMod_def VisitExpr_Add_def VisitExpr_Mul_def
      visit_binary_def mutate_binary_def VisitExpr_Var_def finish_def Int32_def Bool_def wrap_def)

lemma EnterConstraint_var_map:
  "EnterConstraint rewrite split an st c = Inr (st', h) \<Longrightarrow> var_map st' = var_map st"
  by (auto simp: EnterConstraint_def Let_def split: sum.splits)

text \<open>
  C3 (as amended).  For an index-typed variable \<open>x\<close> that the substitution map does
  not bind, \<open>simplify(floormod(x*4 + 2, 4))\<close> returns the integer literal 2 whatever
  the constraint stack holds: with no constraint entered as well as after entering
  \<open>x >= 0\<close> or any other constraint.  The rules of the floored remainder need no bound
  on \<open>x\<close>; they need the analyzer to prove \<open>0 == 0\<close> (and not to take the literal 1
  for a scalable length).
\<close>

theorem simplify_floormod_example:
  assumes "map_lookup (var_map st) (Var ''x'' Int32) = None"
    and "CanProveEqual an (IntImm Int32 0) 0"
    and "\<not> ContainsVscaleCall an (IntImm Int32 1)"
  shows "simplify (Suc (Suc (Suc (Suc fuel)))) an st
           (FloorMod (Add (Mul (Var ''x'' Int32) (IntImm Int32 4)) (IntImm Int32 2)) (IntImm Int32 4))
         = Inr (IntImm Int32 2)
       \<and> (\<forall>rewrite split c st' h.
             EnterConstraint rewrite split an st c = Inr (st', h) \<longrightarrow>
             simplify (Suc (Suc (Suc (Suc fuel)))) an st'
               (FloorMod (Add (Mul (Var ''x'' Int32) (IntImm Int32 4)) (IntImm Int32 2)) (IntImm Int32 4))
             = Inr (IntImm Int32 2))"
proof -
  have *: "simplify (Suc (Suc (Suc (Suc fuel)))) an s
           (FloorMod (Add (Mul (Var ''x'' Int32) (IntImm Int32 4)) (IntImm Int32 2)) (IntImm Int32 4))
         = Inr (IntImm Int32 2)"
    if "map_lookup (var_map s) (Var ''x'' Int32) = None" for s
    using floormod_example_first_pass [OF that assms(2), of fuel]
      floormod_example_second_pass [OF that assms(3), of fuel]
    by (simp add: simplify_def)
  show ?thesis
    using * [OF assms(1)] * assms(1) by (auto dest: EnterConstraint_var_map)
qed

theorem simplify_floormod_example_witness:
  "simplify 4 literal_analyzer empty_state
     (FloorMod (Add (Mul (Var ''x'' Int32) (IntImm Int32 4)) (IntImm Int32 2)) (IntImm Int32 4))
   = Inr (IntImm Int32 2)
   \<and> EnterConstraint (\<lambda>st. VisitExpr 8 literal_analyzer st 0) ExtractConstraints literal_analyzer
       empty_state (GE (Var ''x'' Int32) (IntImm Int32 0))
     = Inr (\<lparr>literal_constraints =
                [LE (IntImm Int32 0) (Var ''x'' Int32),
                 NotNode (LT (Var ''x'' Int32) (IntImm Int32 0))],
              var_map = [], constraints_entered = 1\<rparr>,
            \<lparr>old_literal_size = 0, new_literal_size = 2\<rparr>)
   \<and> simplify 4 literal_analyzer
       \<lparr>literal_constraints =
          [LE (IntImm Int32 0) (Var ''x'' Int32), NotNode (LT (Var ''x'' Int32) (IntImm Int32 0))],
        var_map = [], constraints_entered = 1\<rparr>
       (FloorMod (Add (Mul (Var ''x'' Int32) (IntImm Int32 4)) (IntImm Int32 2)) (IntImm Int32 4))
     = Inr (IntImm Int32 2)"
proof -
  have h1: "map_lookup (var_map empty_state) (Var ''x'' Int32) = None"
    by (simp add: empty_state_def)
  have h2: "CanProveEqual literal_analyzer (IntImm Int32 0) 0"
    by (simp add: literal_analyzer_def)
  have h3: "\<not> ContainsVscaleCall literal_analyzer (IntImm Int32 1)"
    by (simp add: literal_analyzer_def)
  have enter: "EnterConstraint (\<lambda>st. VisitExpr 8 literal_analyzer st 0) ExtractConstraints
       literal_analyzer empty_state (GE (Var ''x'' Int32) (IntImm Int32 0))
     = Inr (\<lparr>literal_constraints =
                [LE (IntImm Int32 0) (Var ''x'' Int32),
                 NotNode (LT (Var ''x'' Int32) (IntImm Int32 0))],
              var_map = [], constraints_entered = 1\<rparr>,
            \<lparr>old_literal_size = 0, new_literal_size = 2\<rparr>)"
    by code_simp
  note t = simplify_floormod_example [OF h1 h2 h3, of 0]
  from t have a: "simplify (Suc (Suc (Suc (Suc 0)))) literal_analyzer empty_state
     (FloorMod (Add (Mul (Var ''x'' Int32) (IntImm Int32 4)) (IntImm Int32 2)) (IntImm Int32 4))
   = Inr (IntImm Int32 2)"
    by (rule conjunct1)
  from t have b: "simplify (Suc (Suc (Suc (Suc 0)))) literal_analyzer st'
     (FloorMod (Add (Mul (Var ''x'' Int32) (IntImm Int32 4)) (IntImm Int32 2)) (IntImm Int32 4))
   = Inr (IntImm Int32 2)"
    if "EnterConstraint rw sp literal_analyzer empty_state c = Inr (st', h)" for rw sp c st' h
    using that by blast
  from a b [OF enter] enter show ?thesis
    by (simp add: numeral_eq_Suc)
qed

text \<open>
  The claim as stated fails in its first half: with no constraint entered the
  expression is not returned unchanged.
\<close>

theorem simplify_floormod_example_counterexample:
  "simplify 4 literal_analyzer empty_state
     (FloorMod (Add (Mul (Var ''x'' Int32) (IntImm Int32 4)) (IntImm Int32 2)) (IntImm Int32 4))
   \<noteq> Inr (FloorMod (Add (Mul (Var ''x'' Int32) (IntImm Int32 4)) (IntImm Int32 2)) (IntImm Int32 4))"
  by code_simp

text \<open>
  C1.  The rule of lines 2125-2127, \<open>x < c1 && floormod(x, c2) < c3\<close> to
  \<open>x < c1 - c2 + c3 && floormod(x, c2) < c3\<close> when \<open>c1 % c2 == 0\<close>, has no test of
  the sign of \<open>c2\<close>.  At \<open>x < 4 && floormod(x, -2) < 0\<close> it fires at every level of
  \<^verbatim>\<open>RecursiveRewrite\<close> and in both passes; the result is true at \<open>x = 5\<close>, where the
  input is false.
\<close>

theorem simplify_changes_value_at_negative_modulus:
  "simplify 30 literal_analyzer empty_state
     (And (LT (Var ''x'' Int32) (IntImm Int32 4))
          (LT (FloorMod (Var ''x'' Int32) (IntImm Int32 (- 2))) (IntImm Int32 0)))
   = Inr (And (LT (Var ''x'' Int32) (IntImm Int32 28))
              (LT (FloorMod (Var ''x'' Int32) (IntImm Int32 (- 2))) (IntImm Int32 0)))
   \<and> eval (\<lambda>n. 5)
        (And (LT (Var ''x'' Int32) (IntImm Int32 4))
             (LT (FloorMod (Var ''x'' Int32) (IntImm Int32 (- 2))) (IntImm Int32 0)))
     = Some 0
   \<and> eval (\<lambda>n. 5)
        (And (LT (Var ''x'' Int32) (IntImm Int32 28))
             (LT (FloorMod (Var ''x'' Int32) (IntImm Int32 (- 2))) (IntImm Int32 0)))
     = Some 1"
  by code_simp

text \<open>
  C2 (as amended).  The driver runs the rewrite core at most twice.  When the first
  pass returns its input, \<open>simplify\<close> returns the input; when it returns another
  expression and the second pass returns, \<open>simplify\<close> returns the result of the second
  pass; a failure of a pass is the failure of \<open>simplify\<close>.  The result is a fixed point
  of \<open>simplify\<close> whenever the rewrite core returns it unchanged; nothing makes it so
  after two passes.  Conversely a result of \<open>simplify\<close> comes from one of these two
  cases.
\<close>

theorem simplify_two_passes:
  "(VisitExpr fuel an st 0 e = Inr e \<longrightarrow> simplify fuel an st e = Inr e)
   \<and> (\<forall>r1 r2. VisitExpr fuel an st 0 e = Inr r1 \<and> r1 \<noteq> e
                \<and> VisitExpr fuel an st 0 r1 = Inr r2 \<longrightarrow>
          simplify fuel an st e = Inr r2
          \<and> (VisitExpr fuel an st 0 r2 = Inr r2 \<longrightarrow> simplify fuel an st r2 = Inr r2))
   \<and> (\<forall>f. VisitExpr fuel an st 0 e = Inl f \<longrightarrow> simplify fuel an st e = Inl f)
   \<and> (\<forall>r1 f. VisitExpr fuel an st 0 e = Inr r1 \<and> r1 \<noteq> e
                \<and> VisitExpr fuel an st 0 r1 = Inl f \<longrightarrow>
          simplify fuel an st e = Inl f)
   \<and> (\<forall>r. simplify fuel an st e = Inr r \<longrightarrow>
          (VisitExpr fuel an st 0 e = Inr e \<and> r = e
           \<or> (\<exists>r1. VisitExpr fuel an st 0 e = Inr r1 \<and> r1 \<noteq> e
                    \<and> VisitExpr fuel an st 0 r1 = Inr r)))"
  by (auto simp: simplify_def split: sum.splits if_splits)

theorem simplify_two_passes_witness:
  "VisitExpr 6 literal_analyzer empty_state 0
       (Add (Var ''x'' Int32) (Add (Var ''x'' Int32) (Var ''x'' Int32)))
     = Inr (Mul (IntImm Int32 3) (Var ''x'' Int32))
   \<and> VisitExpr 6 literal_analyzer empty_state 0 (Mul (IntImm Int32 3) (Var ''x'' Int32))
     = Inr (Mul (Var ''x'' Int32) (IntImm Int32 3))
   \<and> VisitExpr 6 literal_analyzer empty_state 0 (Mul (Var ''x'' Int32) (IntImm Int32 3))
     = Inr (Mul (Var ''x'' Int32) (IntImm Int32 3))
   \<and> simplify 6 literal_analyzer empty_state
       (Add (Var ''x'' Int32) (Add (Var ''x'' Int32) (Var ''x'' Int32)))
     = Inr (Mul (Var ''x'' Int32) (IntImm Int32 3))
   \<and> simplify 6 literal_analyzer empty_state (Mul (Var ''x'' Int32) (IntImm Int32 3))
     = Inr (Mul (Var ''x'' Int32) (IntImm Int32 3))"
proof -
  let ?e = "Add (Var ''x'' Int32) (Add (Var ''x'' Int32) (Var ''x'' Int32))"
  let ?r1 = "Mul (IntImm Int32 3) (Var ''x'' Int32)"
  let ?r2 = "Mul (Var ''x'' Int32) (IntImm Int32 3)"
  have v1: "VisitExpr 6 literal_analyzer empty_state 0 ?e = Inr ?r1"
    by code_simp
  have v2: "VisitExpr 6 literal_analyzer empty_state 0 ?r1 = Inr ?r2"
    by code_simp
  have v3: "VisitExpr 6 literal_analyzer empty_state 0 ?r2 = Inr ?r2"
    by code_simp
  have ne: "?r1 \<noteq> ?e"
    by simp
  note t = simplify_two_passes [of 6 literal_analyzer empty_state ?e]
  from t have "VisitExpr 6 literal_analyzer empty_state 0 ?e = Inr ?r1 \<and> ?r1 \<noteq> ?e
                \<and> VisitExpr 6 literal_analyzer empty_state 0 ?r1 = Inr ?r2 \<longrightarrow>
          simplify 6 literal_analyzer empty_state ?e = Inr ?r2
          \<and> (VisitExpr 6 literal_analyzer empty_state 0 ?r2 = Inr ?r2 \<longrightarrow>
               simplify 6 literal_analyzer empty_state ?r2 = Inr ?r2)"
    by blast
  with v1 v2 v3 ne show ?thesis
    by simp
qed

text \<open>
  Idempotence as stated fails at \<open>(x + (x + 2)) + x\<close>: the second pass ends with
  \<open>3*x + 2\<close>, built by the rule \<open>x*y + x\<close> to \<open>(y + 1)*x\<close> of the sum, which
  does not visit its result again; a third pass turns the product into \<open>x*3\<close>.
\<close>

theorem simplify_idempotence_counterexample:
  "simplify 6 literal_analyzer empty_state
     (Add (Add (Var ''x'' Int32) (Add (Var ''x'' Int32) (IntImm Int32 2))) (Var ''x'' Int32))
   = Inr (Add (Mul (IntImm Int32 3) (Var ''x'' Int32)) (IntImm Int32 2))
   \<and> simplify 6 literal_analyzer empty_state
       (Add (Mul (IntImm Int32 3) (Var ''x'' Int32)) (IntImm Int32 2))
     = Inr (Add (Mul (Var ''x'' Int32) (IntImm Int32 3)) (IntImm Int32 2))
   \<and> Add (Mul (Var ''x'' Int32) (IntImm Int32 3)) (IntImm Int32 2)
     \<noteq> Add (Mul (IntImm Int32 3) (Var ''x'' Int32)) (IntImm Int32 2)"
  by code_simp














end
